(* ===== verification/Prelude.thy ===== *)
theory Prelude
  imports Complex_Main
begin

text \<open>
  Shared vocabulary of the development. JavaScript numbers are modelled as \<open>real\<close>
  (no rounding, no NaN or Infinity; see the header of \<open>Spec2Isabelle\<close>). The
  particle attributes of \<open>src/script.js\<close> live in flat \<open>Float32Array\<close> buffers
  in which particle \<open>i\<close> owns the slots \<open>3*i\<close>, \<open>3*i+1\<close>, \<open>3*i+2\<close>;
  \<open>flat3\<close> and \<open>triples\<close> convert between that layout and a list of triples.
  \<open>Math.random()\<close> is a stream of draws, the \<open>k\<close>-th result of one loop being
  \<open>rnd k\<close>.
\<close>

named_theorems buffer_simps "rewrite rules for the flat attribute buffers"

type_synonym vec2 = "real \<times> real"
type_synonym vec3 = "real \<times> real \<times> real"
type_synonym draws = "nat \<Rightarrow> real"

text \<open>The exceptions the handlers can throw (\<open>TypeError\<close> on a property of \<open>null\<close>,
  \<open>ReferenceError\<close> on an undefined global, \<open>SyntaxError\<close> from a selector).\<close>

datatype js_error = TypeError | ReferenceError | SyntaxError

definition random_ok :: "nat \<Rightarrow> draws \<Rightarrow> bool" where
  "random_ok n rnd \<longleftrightarrow> (\<forall>k<n. 0 \<le> rnd k \<and> rnd k < 1)"

fun flat3 :: "('a \<times> 'a \<times> 'a) list \<Rightarrow> 'a list" where
  "flat3 [] = []"
| "flat3 ((a, b, c) # ts) = a # b # c # flat3 ts"

fun triples :: "'a list \<Rightarrow> ('a \<times> 'a \<times> 'a) list" where
  "triples (a # b # c # xs) = (a, b, c) # triples xs"
| "triples _ = []"

subsection \<open>The flat layout\<close>

lemma length_flat3 [simp, buffer_simps]: "length (flat3 ts) = 3 * length ts"
  by (induction ts rule: flat3.induct) auto

lemma triples_flat3 [simp, buffer_simps]: "triples (flat3 ts) = ts"
  by (induction ts rule: flat3.induct) auto

lemma flat3_triples: "length xs mod 3 = 0 \<Longrightarrow> flat3 (triples xs) = xs"
  by (induction xs rule: triples.induct) auto

lemma flat3_append [simp, buffer_simps]: "flat3 (ts @ us) = flat3 ts @ flat3 us"
  by (induction ts rule: flat3.induct) auto

lemma in_set_flat3 [buffer_simps]:
  "x \<in> set (flat3 ts) \<longleftrightarrow> (\<exists>a b c. (a, b, c) \<in> set ts \<and> (x = a \<or> x = b \<or> x = c))"
  by (induction ts rule: flat3.induct) auto

lemma in_set_triples:
  "(a, b, c) \<in> set (triples xs) \<Longrightarrow> a \<in> set xs \<and> b \<in> set xs \<and> c \<in> set xs"
  by (induction xs rule: triples.induct) auto

lemma length_triples [simp]: "length (triples xs) = length xs div 3"
  by (induction xs rule: triples.induct) auto

lemma flat3_map3 [buffer_simps]:
  "flat3 (map (\<lambda>(a, b, c). (f a, f b, f c)) ts) = map f (flat3 ts)"
  by (induction ts rule: flat3.induct) auto

lemma flat3_nth_Suc:
  "j < length ts \<Longrightarrow> flat3 ts ! (3 * j) = fst (ts ! j) \<and>
     flat3 ts ! Suc (3 * j) = fst (snd (ts ! j)) \<and>
     flat3 ts ! Suc (Suc (3 * j)) = snd (snd (ts ! j))"
proof (induction ts arbitrary: j rule: flat3.induct)
  case 1 then show ?case by simp
next
  case (2 x y z ts)
  then show ?case by (cases j) auto
qed

lemma flat3_nth [buffer_simps]:
  assumes "j < length ts"
  shows "flat3 ts ! (3 * j) = fst (ts ! j)"
    and "flat3 ts ! (3 * j + 1) = fst (snd (ts ! j))"
    and "flat3 ts ! (3 * j + 2) = snd (snd (ts ! j))"
  using flat3_nth_Suc [OF assms] by (simp_all add: numeral_2_eq_2)

lemma flat3_update [buffer_simps]:
  "j < length ts \<Longrightarrow>
   flat3 (ts[j := (a, b, c)]) = (flat3 ts)[3 * j := a, 3 * j + 1 := b, 3 * j + 2 := c]"
proof (induction ts arbitrary: j rule: flat3.induct)
  case 1 then show ?case by simp
next
  case (2 x y z ts)
  then show ?case by (cases j) auto
qed

subsection \<open>In-place writes into a zero-filled buffer\<close>

text \<open>
  A \<open>new Float32Array(n)\<close> is zero-filled. Writing the next slots of a buffer whose
  prefix is already written extends the prefix: the shape of every initialisation loop.
\<close>

lemma update_next_slot [buffer_simps]:
  "(xs @ replicate (Suc m) (0::real))[length xs := a] = (xs @ [a]) @ replicate m 0"
  by (simp add: list_update_append)

lemma update_next_triple [buffer_simps]:
  "(flat3 ts @ replicate (3 * Suc m) (0::real))
     [3 * length ts := a, 3 * length ts + 1 := b, 3 * length ts + 2 := c]
   = flat3 (ts @ [(a, b, c)]) @ replicate (3 * m) 0"
  by (simp add: list_update_append numeral_3_eq_3)

lemma flat3_replicate_zero [buffer_simps]:
  "flat3 (replicate n (0, 0, 0)) = replicate (n * 3) (0::real)"
  by (induction n) (simp_all add: numeral_3_eq_3)

subsection \<open>Reading a conditional write\<close>

lemma if_update_conv [buffer_simps]:
  "i < length xs \<Longrightarrow> (if c then xs[i := a] else xs) = xs[i := (if c then a else xs ! i)]"
  by simp

text \<open>The draws of iteration \<open>i\<close> of a loop taking \<open>m\<close> draws per iteration.\<close>

lemma random_ok_block:
  assumes "random_ok (m * n) rnd" "i < n" "k < m"
  shows "0 \<le> rnd (m * i + k) \<and> rnd (m * i + k) < 1"
proof -
  have "m * i + k < m * (i + 1)" using assms(3) by simp
  also have "\<dots> \<le> m * n" using assms(2) by (intro mult_le_mono2) simp
  finally show ?thesis using assms(1) by (simp add: random_ok_def)
qed

subsection \<open>Bounds of scaled sines and cosines\<close>

lemma abs_diff_chain:
  fixes a b c r r' :: real
  shows "\<bar>a - b\<bar> \<le> r \<Longrightarrow> \<bar>b - c\<bar> \<le> r' \<Longrightarrow> \<bar>a - c\<bar> \<le> r + r'"
  by linarith

lemma abs_trig_scaled:
  fixes u c :: real
  assumes "0 \<le> c"
  shows "\<bar>sin u * c\<bar> \<le> c" "\<bar>cos u * c\<bar> \<le> c"
proof -
  have "\<bar>sin u\<bar> * c \<le> 1 * c" "\<bar>cos u\<bar> * c \<le> 1 * c"
    using assms by (simp_all only: mult_right_mono abs_sin_le_one abs_cos_le_one)
  then show "\<bar>sin u * c\<bar> \<le> c" "\<bar>cos u * c\<bar> \<le> c"
    using assms by (simp_all add: abs_mult)
qed

lemma sin_scaled_bounds:
  fixes u c :: real
  assumes "0 \<le> c"
  shows "1 - c \<le> 1 + sin u * c" "1 + sin u * c \<le> 1 + c"
  using abs_trig_scaled (1) [OF assms, of u] by linarith+

end
