(* ===== verification/ParticleInit.thy ===== *)
theory ParticleInit
  imports Prelude
begin

text \<open>
  \<open>createParticleSystem\<close> (\<open>src/script.js\<close>, lines 43--198): the attribute
  buffers of the particle field, the loop that fills them from \<open>Math.random()\<close>,
  and the material uniforms. \<open>create_body\<close> is one iteration of the loop in the
  order of its statements, writing into the flat buffers; \<open>spawn\<close> is the same
  iteration read as the construction of one particle record. The refinement
  \<open>create_loop_refines_spawn\<close> says the loop builds exactly the list of spawned
  particles, and the range lemmas give the distribution bounds the spec lists.
\<close>

subsection \<open>Data\<close>

text \<open>The four neon colours of the \<open>colorChoice\<close> branches, in source order.\<close>

datatype neon = BrightGreen | BrightCyan | BrightMagenta | WhiteBlue

fun neon_rgb :: "neon \<Rightarrow> vec3" where
  "neon_rgb BrightGreen = (0.0, 1.0, 0.3)"
| "neon_rgb BrightCyan = (0.0, 0.9, 1.0)"
| "neon_rgb BrightMagenta = (1.0, 0.0, 1.0)"
| "neon_rgb WhiteBlue = (0.8, 0.9, 1.0)"

definition color_choice :: "real \<Rightarrow> neon" where
  "color_choice c =
     (if c < 0.35 then BrightGreen
      else if c < 0.65 then BrightCyan
      else if c < 0.85 then BrightMagenta
      else WhiteBlue)"

text \<open>The five \<open>BufferAttribute\<close>s of the geometry, in the order of \<open>setAttribute\<close>.\<close>

record geometry =
  positions :: "real list"
  colors :: "real list"
  sizes :: "real list"
  velocities :: "real list"
  opacities :: "real list"

text \<open>The uniforms of the \<open>ShaderMaterial\<close> and the \<open>THREE.Points\<close> object.\<close>

record uniforms =
  u_time :: real
  u_mousePosition :: vec2
  u_resolution :: vec2

record particle_system =
  geom :: geometry
  unifs :: uniforms
  rotation :: vec3
  positionNeedsUpdate :: bool

definition particleCount :: nat where
  "particleCount = 2000"

definition alloc_geometry :: "nat \<Rightarrow> geometry" where
  "alloc_geometry n =
     \<lparr>positions = replicate (n * 3) 0, colors = replicate (n * 3) 0,
      sizes = replicate n 0, velocities = replicate (n * 3) 0,
      opacities = replicate n 0\<rparr>"

subsection \<open>The initialisation loop\<close>

text \<open>
  One iteration for particle \<open>i\<close>. It calls \<open>Math.random()\<close> nine times, in the
  order radius, theta, phi, three velocity components, colour choice, size, opacity;
  these are the draws \<open>rnd (9 * i + k)\<close>, \<open>k < 9\<close>.
\<close>

definition create_body :: "draws \<Rightarrow> nat \<Rightarrow> geometry \<Rightarrow> geometry" where
  "create_body rnd i g =
     (let d = (\<lambda>k. rnd (9 * i + k));
          radius = d 0 * 20 + 5;
          theta = d 1 * pi * 2;
          phi = d 2 * pi;
          ps = (positions g)[i * 3 := radius * sin phi * cos theta,
                             i * 3 + 1 := radius * sin phi * sin theta,
                             i * 3 + 2 := radius * cos phi];
          vs = (velocities g)[i * 3 := (d 3 - 0.5) * 0.03,
                              i * 3 + 1 := (d 4 - 0.5) * 0.03,
                              i * 3 + 2 := (d 5 - 0.5) * 0.03];
          colorChoice = d 6;
          cs = (if colorChoice < 0.35
                then (colors g)[i * 3 := 0.0, i * 3 + 1 := 1.0, i * 3 + 2 := 0.3]
                else if colorChoice < 0.65
                then (colors g)[i * 3 := 0.0, i * 3 + 1 := 0.9, i * 3 + 2 := 1.0]
                else if colorChoice < 0.85
                then (colors g)[i * 3 := 1.0, i * 3 + 1 := 0.0, i * 3 + 2 := 1.0]
                else (colors g)[i * 3 := 0.8, i * 3 + 1 := 0.9, i * 3 + 2 := 1.0])
      in g\<lparr>positions := ps, velocities := vs, colors := cs,
           sizes := (sizes g)[i := d 7 * 4 + 1.5],
           opacities := (opacities g)[i := d 8 * 0.8 + 0.2]\<rparr>)"

function create_loop :: "nat \<Rightarrow> draws \<Rightarrow> nat \<Rightarrow> geometry \<Rightarrow> geometry" where
  "create_loop n rnd i g = (if i < n then create_loop n rnd (Suc i) (create_body rnd i g) else g)"
  by pat_completeness auto
termination
  by (relation "measure (\<lambda>(n, rnd, i, g). n - i)") auto

declare create_loop.simps [simp del]

definition createParticleSystem :: "draws \<Rightarrow> vec2 \<Rightarrow> particle_system" where
  "createParticleSystem rnd win =
     \<lparr>geom = create_loop particleCount rnd 0 (alloc_geometry particleCount),
      unifs = \<lparr>u_time = 0, u_mousePosition = (0, 0), u_resolution = win\<rparr>,
      rotation = (0, 0, 0),
      positionNeedsUpdate = False\<rparr>"

subsection \<open>The particle view\<close>

record particle =
  pos :: vec3
  vel :: vec3
  color :: vec3
  size :: real
  opacity :: real

definition spawn :: "draws \<Rightarrow> nat \<Rightarrow> particle" where
  "spawn rnd i =
     (let d = (\<lambda>k. rnd (9 * i + k));
          radius = d 0 * 20 + 5; theta = d 1 * pi * 2; phi = d 2 * pi
      in \<lparr>pos = (radius * sin phi * cos theta, radius * sin phi * sin theta, radius * cos phi),
          vel = ((d 3 - 0.5) * 0.03, (d 4 - 0.5) * 0.03, (d 5 - 0.5) * 0.03),
          color = neon_rgb (color_choice (d 6)),
          size = d 7 * 4 + 1.5,
          opacity = d 8 * 0.8 + 0.2\<rparr>)"

definition particles_of :: "geometry \<Rightarrow> particle list" where
  "particles_of g =
     map (\<lambda>(p, v, c, s, a). \<lparr>pos = p, vel = v, color = c, size = s, opacity = a\<rparr>)
       (zip (triples (positions g)) (zip (triples (velocities g))
         (zip (triples (colors g)) (zip (sizes g) (opacities g)))))"

text \<open>The buffers after the first \<open>length ps\<close> iterations, \<open>m\<close> particles still zero.\<close>

definition geometry_of :: "particle list \<Rightarrow> nat \<Rightarrow> geometry" where
  "geometry_of ps m =
     \<lparr>positions = flat3 (map pos ps @ replicate m (0, 0, 0)),
      colors = flat3 (map color ps @ replicate m (0, 0, 0)),
      sizes = map size ps @ replicate m 0,
      velocities = flat3 (map vel ps @ replicate m (0, 0, 0)),
      opacities = map opacity ps @ replicate m 0\<rparr>"

definition wf_geometry :: "nat \<Rightarrow> geometry \<Rightarrow> bool" where
  "wf_geometry n g \<longleftrightarrow>
     length (positions g) = 3 * n \<and> length (colors g) = 3 * n \<and> length (sizes g) = n \<and>
     length (velocities g) = 3 * n \<and> length (opacities g) = n"

definition norm3 :: "vec3 \<Rightarrow> real" where
  "norm3 v = (case v of (x, y, z) \<Rightarrow> sqrt (x\<^sup>2 + y\<^sup>2 + z\<^sup>2))"

definition in_box :: "real \<Rightarrow> vec3 \<Rightarrow> bool" where
  "in_box b v = (case v of (x, y, z) \<Rightarrow> -b \<le> x \<and> x \<le> b \<and> -b \<le> y \<and> y \<le> b \<and> -b \<le> z \<and> z \<le> b)"

definition palette :: "vec3 list" where
  "palette = map neon_rgb [BrightGreen, BrightCyan, BrightMagenta, WhiteBlue]"

text \<open>The ranges the spec gives for a freshly created particle.\<close>

definition spawn_ok :: "particle \<Rightarrow> bool" where
  "spawn_ok p \<longleftrightarrow>
     5 \<le> norm3 (pos p) \<and> norm3 (pos p) < 25 \<and> in_box 25 (pos p) \<and>
     (case vel p of (a, b, c) \<Rightarrow> -0.015 \<le> a \<and> a < 0.015 \<and> -0.015 \<le> b \<and> b < 0.015
                              \<and> -0.015 \<le> c \<and> c < 0.015) \<and>
     color p \<in> set palette \<and> 1.5 \<le> size p \<and> size p < 5.5 \<and>
     0.2 \<le> opacity p \<and> opacity p < 1"

subsection \<open>Refinement: the loop builds the spawned particles\<close>

lemma alloc_geometry_of: "alloc_geometry n = geometry_of [] n"
  by (simp add: alloc_geometry_def geometry_of_def flat3_replicate_zero)

lemma create_body_step:
  "create_body rnd (length ps) (geometry_of ps (Suc m)) =
   geometry_of (ps @ [spawn rnd (length ps)]) m"
  by (simp add: create_body_def geometry_of_def spawn_def Let_def color_choice_def
      mult.commute [of _ 3] list_update_append split: if_split)

lemma create_loop_geometry_of:
  "i \<le> n \<Longrightarrow>
   create_loop n rnd i (geometry_of (map (spawn rnd) [0..<i]) (n - i)) =
   geometry_of (map (spawn rnd) [0..<n]) 0"
proof (induction "n - i" arbitrary: i)
  case 0
  then show ?case by (simp add: create_loop.simps)
next
  case (Suc k)
  then have i: "i < n" and k: "n - Suc i = k" by arith+
  have "create_body rnd i (geometry_of (map (spawn rnd) [0..<i]) (Suc k)) =
        geometry_of (map (spawn rnd) [0..<Suc i]) k"
    using create_body_step [of rnd "map (spawn rnd) [0..<i]" k] by simp
  with Suc.hyps(2) i k Suc.hyps(1) [of "Suc i"] show ?case
    by (simp add: create_loop.simps [of n rnd i])
qed

lemma particles_of_geometry_of [simp]: "particles_of (geometry_of ps 0) = ps"
  by (induction ps) (simp_all add: particles_of_def geometry_of_def)

lemma wf_geometry_of [simp]: "wf_geometry (length ps + m) (geometry_of ps m)"
  by (simp add: wf_geometry_def geometry_of_def)

lemma particles_of_create_loop:
  "particles_of (create_loop n rnd 0 (alloc_geometry n)) = map (spawn rnd) [0..<n]"
  using create_loop_geometry_of [of 0 n rnd] by (simp add: alloc_geometry_of)

text \<open>
  C4. The initialisation loop, writing nine random draws per particle into the flat
  position, velocity, colour, size and opacity buffers, builds exactly the list of
  particles \<open>spawn rnd 0, ..., spawn rnd (n - 1)\<close>: particle \<open>i\<close> owns the slots
  \<open>3 * i\<close> to \<open>3 * i + 2\<close> and \<open>i\<close>, and its attributes are computed from the draws
  \<open>9 * i\<close> to \<open>9 * i + 8\<close>.
\<close>

theorem create_loop_refines_spawn:
  "particles_of (create_loop n rnd 0 (alloc_geometry n)) = map (spawn rnd) [0..<n]"
proof -
  have "create_loop n rnd 0 (geometry_of [] n) = geometry_of (map (spawn rnd) [0..<n]) 0"
    using create_loop_geometry_of [of 0 n rnd] by simp
  then show ?thesis by (simp add: alloc_geometry_of)
qed

theorem create_loop_wf: "wf_geometry n (create_loop n rnd 0 (alloc_geometry n))"
  using create_loop_geometry_of [of 0 n rnd] wf_geometry_of [of "map (spawn rnd) [0..<n]" 0]
  by (simp add: alloc_geometry_of)

subsection \<open>Ranges of the initial attributes\<close>

lemma norm3_spherical:
  "norm3 (r * sin phi * cos theta, r * sin phi * sin theta, r * cos phi) = \<bar>r\<bar>"
proof -
  have "(r * sin phi * cos theta)\<^sup>2 + (r * sin phi * sin theta)\<^sup>2 + (r * cos phi)\<^sup>2
        = r\<^sup>2 * ((sin phi)\<^sup>2 * ((sin theta)\<^sup>2 + (cos theta)\<^sup>2) + (cos phi)\<^sup>2)"
    unfolding power_mult_distrib by algebra
  also have "\<dots> = r\<^sup>2" by (simp only: sin_cos_squared_add mult_1_right)
  finally show ?thesis by (simp add: norm3_def)
qed

lemma in_box_norm3: "norm3 v \<le> b \<Longrightarrow> in_box b v"
proof (cases v)
  case (fields x y z)
  assume le: "norm3 v \<le> b"
  have "\<bar>x\<bar> \<le> norm3 v" "\<bar>y\<bar> \<le> norm3 v" "\<bar>z\<bar> \<le> norm3 v"
    using fields real_sqrt_le_mono [of "x\<^sup>2" "x\<^sup>2 + y\<^sup>2 + z\<^sup>2"]
      real_sqrt_le_mono [of "y\<^sup>2" "x\<^sup>2 + y\<^sup>2 + z\<^sup>2"]
      real_sqrt_le_mono [of "z\<^sup>2" "x\<^sup>2 + y\<^sup>2 + z\<^sup>2"]
    by (simp_all add: norm3_def)
  with le fields show ?thesis by (auto simp: in_box_def abs_le_iff)
qed

lemma color_choice_palette: "neon_rgb (color_choice c) \<in> set palette"
  by (simp add: color_choice_def palette_def)

lemma spawn_ok_draws:
  assumes "\<forall>k<9. 0 \<le> rnd (9 * i + k) \<and> rnd (9 * i + k) < 1"
  shows "spawn_ok (spawn rnd i)"
proof -
  have d: "0 \<le> rnd (9 * i + k) \<and> rnd (9 * i + k) < 1" if "k < 9" for k
    using assms that by blast
  define r where "r = rnd (9 * i) * 20 + 5"
  have r: "5 \<le> r" "r < 25" using d [of 0] by (simp_all add: r_def)
  have n: "norm3 (pos (spawn rnd i)) = r"
    using r by (simp add: spawn_def Let_def r_def norm3_spherical)
  show ?thesis
    using r n in_box_norm3 [of "pos (spawn rnd i)" 25] d [of 3] d [of 4] d [of 5] d [of 7] d [of 8]
    by (simp add: spawn_ok_def spawn_def Let_def color_choice_palette)
qed

text \<open>
  C5. When every \<open>Math.random()\<close> draw lies in \<open>[0, 1)\<close>, every particle the
  initialisation loop creates lies on the spherical shell of radius \<open>[5, 25)\<close>,
  inside the box \<open>[-25, 25]\<^sup>3\<close>, has velocity components in
  \<open>[-0.015, 0.015)\<close>, one of the four palette colours, size in \<open>[1.5, 5.5)\<close>
  and opacity in \<open>[0.2, 1)\<close>.
\<close>

theorem create_loop_ranges:
  "random_ok (9 * n) rnd \<Longrightarrow>
   \<forall>p \<in> set (particles_of (create_loop n rnd 0 (alloc_geometry n))). spawn_ok p"
proof
  fix p assume ok: "random_ok (9 * n) rnd"
    and p: "p \<in> set (particles_of (create_loop n rnd 0 (alloc_geometry n)))"
  then obtain i where i: "i < n" and pi: "p = spawn rnd i"
    by (auto simp: particles_of_create_loop)
  show "spawn_ok p" unfolding pi using random_ok_block [OF ok i] by (blast intro: spawn_ok_draws)
qed

theorem create_loop_ranges_witness:
  "random_ok (9 * 2) (\<lambda>_. 0) \<and>
   list_all spawn_ok (particles_of (create_loop 2 (\<lambda>_. 0) 0 (alloc_geometry 2)))"
proof -
  have ok: "random_ok (9 * 2) (\<lambda>_. 0::real)" by (simp add: random_ok_def)
  show ?thesis using ok create_loop_ranges [OF ok] by (simp add: list_all_iff)
qed

text \<open>
  C6. The colour choice splits \<open>[0, 1)\<close> into four intervals of lengths
  \<open>0.35\<close>, \<open>0.30\<close>, \<open>0.20\<close> and \<open>0.15\<close>: under a uniform draw these
  are the probabilities of the four neon colours.
\<close>

theorem color_choice_intervals:
  "{c \<in> {0..<1}. color_choice c = BrightGreen} = {0..<0.35} \<and>
   {c \<in> {0..<1}. color_choice c = BrightCyan} = {0.35..<0.65} \<and>
   {c \<in> {0..<1}. color_choice c = BrightMagenta} = {0.65..<0.85} \<and>
   {c \<in> {0..<1}. color_choice c = WhiteBlue} = {0.85..<1}"
  by (auto simp: color_choice_def)

lemma create_loop_velocities:
  assumes "random_ok (9 * n) rnd"
  shows "\<forall>v \<in> set (velocities (create_loop n rnd 0 (alloc_geometry n))). \<bar>v\<bar> \<le> 0.015"
proof
  fix v assume v: "v \<in> set (velocities (create_loop n rnd 0 (alloc_geometry n)))"
  have eq: "velocities (create_loop n rnd 0 (alloc_geometry n)) = flat3 (map (vel \<circ> spawn rnd) [0..<n])"
    using create_loop_geometry_of [of 0 n rnd] by (simp add: alloc_geometry_of geometry_of_def)
  obtain a b c where abc: "(a, b, c) \<in> set (map (vel \<circ> spawn rnd) [0..<n])" and
    x: "v = a \<or> v = b \<or> v = c"
    using v unfolding eq in_set_flat3 by blast
  then obtain i where i: "i < n" and vi: "vel (spawn rnd i) = (a, b, c)" by auto
  have "spawn_ok (spawn rnd i)" using random_ok_block [OF assms i] by (blast intro: spawn_ok_draws)
  with vi x show "\<bar>v\<bar> \<le> 0.015" by (auto simp: spawn_ok_def)
qed

end
