(* ===== verification/ParticleStep.thy ===== *)
theory ParticleStep
  imports ParticleInit
begin

text \<open>
  The particle update of \<open>animate\<close> (\<open>src/script.js\<close>, lines 205--234): per
  frame, the loop over the flat position and velocity buffers perturbs, damps and
  integrates each velocity component and wraps each coordinate at \<open>maxDistance\<close>.
  \<open>animate_body\<close> is the loop body, split into the four statement groups the
  source comments name; \<open>axis_step\<close>, \<open>particle_step\<close> and \<open>field_step\<close> are
  the per-axis, per-particle and whole-field reading of the same computation.
  The lemmas prove the refinement between the two, the boundary bound (C1), the
  wrap-not-clamp behaviour (C3), the bounded random walk (C7) and the geometric
  damping (C8).
\<close>

definition maxDistance :: real where
  "maxDistance = 25"

text \<open>The four statement groups of the loop body, lines 212--214, 217--219, 222--224, 227--233.\<close>

definition perturb_velocity :: "draws \<Rightarrow> nat \<Rightarrow> real list \<Rightarrow> real list" where
  "perturb_velocity rnd i vs =
     (let vs = vs[i := vs ! i + (rnd i - 0.5) * 0.001];
          vs = vs[i + 1 := vs ! (i + 1) + (rnd (i + 1) - 0.5) * 0.001];
          vs = vs[i + 2 := vs ! (i + 2) + (rnd (i + 2) - 0.5) * 0.001]
      in vs)"

definition damp_velocity :: "nat \<Rightarrow> real list \<Rightarrow> real list" where
  "damp_velocity i vs =
     (let vs = vs[i := vs ! i * 0.999];
          vs = vs[i + 1 := vs ! (i + 1) * 0.999];
          vs = vs[i + 2 := vs ! (i + 2) * 0.999]
      in vs)"

definition integrate_position :: "nat \<Rightarrow> real list \<Rightarrow> real list \<Rightarrow> real list" where
  "integrate_position i vs ps =
     (let ps = ps[i := ps ! i + vs ! i];
          ps = ps[i + 1 := ps ! (i + 1) + vs ! (i + 1)];
          ps = ps[i + 2 := ps ! (i + 2) + vs ! (i + 2)]
      in ps)"

definition wrap_axis :: "nat \<Rightarrow> real list \<Rightarrow> real list" where
  "wrap_axis k ps =
     (let ps = (if ps ! k > maxDistance then ps[k := - maxDistance] else ps);
          ps = (if ps ! k < - maxDistance then ps[k := maxDistance] else ps)
      in ps)"

definition wrap_position :: "nat \<Rightarrow> real list \<Rightarrow> real list" where
  "wrap_position i ps = wrap_axis (i + 2) (wrap_axis (i + 1) (wrap_axis i ps))"

definition animate_body :: "draws \<Rightarrow> nat \<Rightarrow> real list \<times> real list \<Rightarrow> real list \<times> real list" where
  "animate_body rnd i pv =
     (case pv of (ps, vs) \<Rightarrow>
      let vs = perturb_velocity rnd i vs;
          vs = damp_velocity i vs;
          ps = integrate_position i vs ps;
          ps = wrap_position i ps
      in (ps, vs))"

text \<open>The loop \<open>for (let i = 0; i < positions.length; i += 3)\<close>, lines 210--234.\<close>

function animate_loop :: "draws \<Rightarrow> nat \<Rightarrow> real list \<times> real list \<Rightarrow> real list \<times> real list" where
  "animate_loop rnd i pv =
     (if i < length (fst pv) then animate_loop rnd (i + 3) (animate_body rnd i pv) else pv)"
  by pat_completeness auto
termination
proof (relation "measure (\<lambda>(rnd, i, pv). length (fst pv) - i)")
  show "wf (measure (\<lambda>(rnd, i, pv). length (fst pv) - i))" by simp
next
  fix rnd i and pv :: "real list \<times> real list"
  assume i: "i < length (fst pv)"
  have "length (wrap_axis k ps) = length ps" for k ps
    by (simp add: wrap_axis_def Let_def)
  then have "length (wrap_position i ps) = length ps" for ps
    by (simp add: wrap_position_def)
  then have "length (fst (animate_body rnd i pv)) = length (fst pv)"
    by (simp add: animate_body_def integrate_position_def Let_def split: prod.split)
  with i show "((rnd, i + 3, animate_body rnd i pv), rnd, i, pv)
      \<in> measure (\<lambda>(rnd, i, pv). length (fst pv) - i)" by simp
qed

declare animate_loop.simps [simp del]

text \<open>The same step read per axis: a coordinate and its velocity component.\<close>

definition wrap_coord :: "real \<Rightarrow> real" where
  "wrap_coord p =
     (let p = (if p > maxDistance then - maxDistance else p);
          p = (if p < - maxDistance then maxDistance else p)
      in p)"

definition axis_step :: "real \<Rightarrow> real \<times> real \<Rightarrow> real \<times> real" where
  "axis_step r pv =
     (case pv of (p, v) \<Rightarrow> let v = (v + (r - 0.5) * 0.001) * 0.999 in (wrap_coord (p + v), v))"

definition particle_step :: "vec3 \<Rightarrow> vec3 \<times> vec3 \<Rightarrow> vec3 \<times> vec3" where
  "particle_step r pv =
     (case (r, pv) of ((rx, ry, rz), ((px, py, pz), (vx, vy, vz))) \<Rightarrow>
        ((fst (axis_step rx (px, vx)), fst (axis_step ry (py, vy)), fst (axis_step rz (pz, vz))),
         (snd (axis_step rx (px, vx)), snd (axis_step ry (py, vy)), snd (axis_step rz (pz, vz)))))"

text \<open>The draws of one frame are read in buffer order: particle \<open>j\<close> uses \<open>3 * j + k\<close>.\<close>

definition frame_draws :: "draws \<Rightarrow> nat \<Rightarrow> vec3" where
  "frame_draws rnd j = (rnd (3 * j), rnd (3 * j + 1), rnd (3 * j + 2))"

definition field_step :: "draws \<Rightarrow> (vec3 \<times> vec3) list \<Rightarrow> (vec3 \<times> vec3) list" where
  "field_step rnd pvs = map (\<lambda>j. particle_step (frame_draws rnd j) (pvs ! j)) [0..<length pvs]"

text \<open>The three slots of one particle, written together.\<close>

definition upd3 :: "'a list \<Rightarrow> nat \<Rightarrow> 'a \<Rightarrow> 'a \<Rightarrow> 'a \<Rightarrow> 'a list" where
  "upd3 xs i a b c = xs[i := a, i + 1 := b, i + 2 := c]"

subsection \<open>The body, one particle at a time\<close>

lemma length_wrap_axis [simp]: "length (wrap_axis k ps) = length ps"
  by (simp add: wrap_axis_def Let_def)

lemma length_animate_body [simp]:
  "length (fst (animate_body rnd i pv)) = length (fst pv)"
  "length (snd (animate_body rnd i pv)) = length (snd pv)"
  by (simp_all add: animate_body_def perturb_velocity_def damp_velocity_def
      integrate_position_def wrap_position_def Let_def split: prod.split)

lemma upd3_intro:
  assumes "Suc (Suc i) < length xs"
  shows "xs[i := a] = upd3 xs i a (xs ! Suc i) (xs ! Suc (Suc i))"
proof -
  have "(xs[i := a])[Suc i := xs ! Suc i] = xs[i := a]"
    using list_update_id [of "xs[i := a]" "Suc i"] by simp
  moreover have "(xs[i := a])[Suc (Suc i) := xs ! Suc (Suc i)] = xs[i := a]"
    using list_update_id [of "xs[i := a]" "Suc (Suc i)"] by simp
  ultimately show ?thesis by (simp add: upd3_def)
qed

lemma upd3_length [simp]: "length (upd3 xs i a b c) = length xs"
  by (simp add: upd3_def)

lemma upd3_nth [simp]:
  "Suc (Suc i) < length xs \<Longrightarrow> upd3 xs i a b c ! i = a"
  "Suc (Suc i) < length xs \<Longrightarrow> upd3 xs i a b c ! Suc i = b"
  "Suc (Suc i) < length xs \<Longrightarrow> upd3 xs i a b c ! Suc (Suc i) = c"
  by (simp_all add: upd3_def nth_list_update)

lemma upd3_update [simp]:
  "(upd3 xs i a b c)[i := a'] = upd3 xs i a' b c"
  "(upd3 xs i a b c)[Suc i := b'] = upd3 xs i a b' c"
  "(upd3 xs i a b c)[Suc (Suc i) := c'] = upd3 xs i a b c'"
  by (simp_all add: upd3_def list_update_swap)

lemma upd3_upd3 [simp]: "upd3 (upd3 xs i a b c) i a' b' c' = upd3 xs i a' b' c'"
  by (simp only: upd3_def [of "upd3 xs i a b c" i a' b' c']) simp

lemma perturb_velocity_upd3:
  "i + 2 < length vs \<Longrightarrow> perturb_velocity rnd i vs =
     upd3 vs i (vs ! i + (rnd i - 0.5) * 0.001) (vs ! (i + 1) + (rnd (i + 1) - 0.5) * 0.001)
       (vs ! (i + 2) + (rnd (i + 2) - 0.5) * 0.001)"
  by (simp add: perturb_velocity_def Let_def upd3_intro)

lemma damp_velocity_upd3:
  "i + 2 < length vs \<Longrightarrow> damp_velocity i vs =
     upd3 vs i (vs ! i * 0.999) (vs ! (i + 1) * 0.999) (vs ! (i + 2) * 0.999)"
  by (simp add: damp_velocity_def Let_def upd3_intro)

lemma integrate_position_upd3:
  "i + 2 < length ps \<Longrightarrow> integrate_position i vs ps =
     upd3 ps i (ps ! i + vs ! i) (ps ! (i + 1) + vs ! (i + 1)) (ps ! (i + 2) + vs ! (i + 2))"
  by (simp add: integrate_position_def Let_def upd3_intro)

lemma wrap_position_upd3:
  "Suc (Suc i) < length ps \<Longrightarrow> wrap_position i ps =
     upd3 ps i (wrap_coord (ps ! i)) (wrap_coord (ps ! Suc i)) (wrap_coord (ps ! Suc (Suc i)))"
  by (simp add: wrap_position_def wrap_axis_def wrap_coord_def Let_def if_update_conv upd3_intro)

lemma animate_body_axes:
  assumes "Suc (Suc i) < length ps" "length vs = length ps"
  shows "animate_body rnd i (ps, vs) =
    (upd3 ps i (fst (axis_step (rnd i) (ps ! i, vs ! i)))
               (fst (axis_step (rnd (Suc i)) (ps ! Suc i, vs ! Suc i)))
               (fst (axis_step (rnd (Suc (Suc i))) (ps ! Suc (Suc i), vs ! Suc (Suc i)))),
     upd3 vs i (snd (axis_step (rnd i) (ps ! i, vs ! i)))
               (snd (axis_step (rnd (Suc i)) (ps ! Suc i, vs ! Suc i)))
               (snd (axis_step (rnd (Suc (Suc i))) (ps ! Suc (Suc i), vs ! Suc (Suc i)))))"
  using assms
  by (simp add: animate_body_def axis_step_def Let_def perturb_velocity_upd3 damp_velocity_upd3
      integrate_position_upd3 wrap_position_upd3)

lemma flat3_update_upd3:
  "j < length ts \<Longrightarrow> flat3 (ts[j := (a, b, c)]) = upd3 (flat3 ts) (3 * j) a b c"
  by (simp add: flat3_update upd3_def)

lemma animate_body_particle:
  assumes j: "j < length pvs"
  shows "animate_body rnd (3 * j) (flat3 (map fst pvs), flat3 (map snd pvs)) =
    (flat3 (map fst (pvs[j := particle_step (frame_draws rnd j) (pvs ! j)])),
     flat3 (map snd (pvs[j := particle_step (frame_draws rnd j) (pvs ! j)])))"
proof -
  obtain px py pz vx vy vz where pv: "pvs ! j = ((px, py, pz), (vx, vy, vz))"
    by (cases "pvs ! j") auto
  have len: "Suc (Suc (3 * j)) < length (flat3 (map fst pvs))" using j by simp
  have rd: "flat3 (map fst pvs) ! (3 * j) = px" "flat3 (map fst pvs) ! Suc (3 * j) = py"
    "flat3 (map fst pvs) ! Suc (Suc (3 * j)) = pz"
    "flat3 (map snd pvs) ! (3 * j) = vx" "flat3 (map snd pvs) ! Suc (3 * j) = vy"
    "flat3 (map snd pvs) ! Suc (Suc (3 * j)) = vz"
    using flat3_nth_Suc [of j "map fst pvs"] flat3_nth_Suc [of j "map snd pvs"] j pv by simp_all
  show ?thesis
    using j len
    by (simp add: animate_body_axes rd pv particle_step_def frame_draws_def map_update
        flat3_update_upd3)
qed

lemma animate_loop_from:
  "j \<le> length pvs \<Longrightarrow>
   animate_loop rnd (3 * j) (flat3 (map fst pvs), flat3 (map snd pvs)) =
   (let pvs' = map (\<lambda>k. if j \<le> k then particle_step (frame_draws rnd k) (pvs ! k) else pvs ! k)
                 [0..<length pvs]
    in (flat3 (map fst pvs'), flat3 (map snd pvs')))"
proof (induction "length pvs - j" arbitrary: j pvs)
  case 0
  then have j: "j = length pvs" by simp
  have m: "map (\<lambda>k. if j \<le> k then particle_step (frame_draws rnd k) (pvs ! k) else pvs ! k)
             [0..<length pvs] = pvs"
    using j by (intro nth_equalityI) auto
  have "\<not> 3 * j < length (flat3 (map fst pvs))" using j by simp
  then show ?case unfolding Let_def m by (simp add: animate_loop.simps [of rnd "3 * j"])
next
  case (Suc n)
  then have j: "j < length pvs" by arith
  define pvs1 where "pvs1 = pvs[j := particle_step (frame_draws rnd j) (pvs ! j)]"
  have step: "animate_body rnd (3 * j) (flat3 (map fst pvs), flat3 (map snd pvs)) =
      (flat3 (map fst pvs1), flat3 (map snd pvs1))"
    unfolding pvs1_def by (rule animate_body_particle [OF j])
  have ih: "animate_loop rnd (3 * j + 3) (flat3 (map fst pvs1), flat3 (map snd pvs1)) =
     (let pvs' = map (\<lambda>k. if Suc j \<le> k then particle_step (frame_draws rnd k) (pvs1 ! k)
                              else pvs1 ! k) [0..<length pvs1]
      in (flat3 (map fst pvs'), flat3 (map snd pvs')))"
    using Suc.hyps(1) [of pvs1 "Suc j"] Suc.hyps(2) j by (simp add: pvs1_def add.commute [of 3])
  have same: "map (\<lambda>k. if Suc j \<le> k then particle_step (frame_draws rnd k) (pvs1 ! k) else pvs1 ! k)
                [0..<length pvs1] =
              map (\<lambda>k. if j \<le> k then particle_step (frame_draws rnd k) (pvs ! k) else pvs ! k)
                [0..<length pvs]"
    unfolding pvs1_def by (rule map_cong) (auto simp: nth_list_update le_less Suc_le_eq)
  have "3 * j < length (flat3 (map fst pvs))" using j by simp
  then show ?case
    using step ih same by (simp add: animate_loop.simps [of rnd "3 * j"] Let_def)
qed

lemma animate_loop_field_step:
  "length vs = length ps \<Longrightarrow>
   animate_loop rnd 0 (flat3 ps, flat3 vs) =
   (flat3 (map fst (field_step rnd (zip ps vs))), flat3 (map snd (field_step rnd (zip ps vs))))"
  using animate_loop_from [of 0 "zip ps vs" rnd] by (simp add: field_step_def Let_def)

text \<open>
  C2. The in-place loop over the flat buffers (\<open>i += 3\<close>, twelve writes and six
  boundary tests per iteration) computes, for every particle \<open>j\<close>, the per-particle
  step: three independent axis steps (perturb, damp, integrate, wrap) with the draws
  \<open>3 * j\<close>, \<open>3 * j + 1\<close>, \<open>3 * j + 2\<close> of the frame.
\<close>

theorem animate_loop_refines_field_step:
  "length vs = length ps \<Longrightarrow>
   animate_loop rnd 0 (flat3 ps, flat3 vs) =
   (flat3 (map fst (field_step rnd (zip ps vs))), flat3 (map snd (field_step rnd (zip ps vs))))"
proof -
  assume len: "length vs = length ps"
  have "map fst (zip ps vs) = ps" "map snd (zip ps vs) = vs" using len by simp_all
  then show ?thesis
    using animate_loop_from [of 0 "zip ps vs" rnd] len by (simp add: field_step_def Let_def)
qed

theorem animate_loop_refines_field_step_witness:
  "length [(0.5, 0, 0)] = length [(1, 2, 3) :: vec3] \<and>
   animate_loop (\<lambda>_. 0.5) 0 (flat3 [(1, 2, 3)], flat3 [(0.5, 0, 0)]) =
   (flat3 (map fst (field_step (\<lambda>_. 0.5) (zip [(1, 2, 3)] [(0.5, 0, 0)]))),
    flat3 (map snd (field_step (\<lambda>_. 0.5) (zip [(1, 2, 3)] [(0.5, 0, 0)]))))"
  using animate_loop_refines_field_step [of "[(0.5, 0, 0)]" "[(1, 2, 3)]" "\<lambda>_. 0.5"] by simp

subsection \<open>Boundary wrapping\<close>

lemma wrap_coord_bounds: "- maxDistance \<le> wrap_coord p \<and> wrap_coord p \<le> maxDistance"
  by (simp add: wrap_coord_def maxDistance_def)

lemma axis_step_simps [simp]:
  "fst (axis_step r (p, v)) = wrap_coord (p + (v + (r - 0.5) * 0.001) * 0.999)"
  "snd (axis_step r (p, v)) = (v + (r - 0.5) * 0.001) * 0.999"
  by (simp_all add: axis_step_def Let_def)

lemma particle_step_in_box: "in_box maxDistance (fst (particle_step r pv))"
  by (simp add: particle_step_def in_box_def wrap_coord_bounds split: prod.split)

lemma animate_loop_triples:
  assumes "length vs = length ps" "length ps mod 3 = 0"
  shows "animate_loop rnd 0 (ps, vs) =
      (flat3 (map fst (field_step rnd (zip (triples ps) (triples vs)))),
       flat3 (map snd (field_step rnd (zip (triples ps) (triples vs)))))"
proof -
  have "length vs mod 3 = 0" using assms by simp
  then show ?thesis
    using animate_loop_field_step [of "triples vs" "triples ps" rnd] assms
    by (simp add: flat3_triples)
qed

lemma animate_loop_positions_in_range:
  assumes "length vs = length ps" "length ps mod 3 = 0"
  shows "\<forall>x \<in> set (fst (animate_loop rnd 0 (ps, vs))). -25 \<le> x \<and> x \<le> 25"
proof
  fix x assume "x \<in> set (fst (animate_loop rnd 0 (ps, vs)))"
  then obtain a b c where t: "(a, b, c) \<in> set (map fst (field_step rnd (zip (triples ps) (triples vs))))"
    and x: "x = a \<or> x = b \<or> x = c"
    unfolding animate_loop_triples [OF assms] fst_conv in_set_flat3 by blast
  from t have "in_box maxDistance (a, b, c)"
    by (auto simp: field_step_def particle_step_in_box)
  with x show "-25 \<le> x \<and> x \<le> 25" by (auto simp: in_box_def maxDistance_def)
qed

text \<open>
  C1. Whatever the buffers hold before the frame, after the update loop every position
  coordinate lies in \<open>[-25, 25]\<close>: the boundary wrap leaves no coordinate outside.
\<close>

theorem animate_loop_positions_bounded:
  assumes "length vs = length ps" "length ps mod 3 = 0"
  shows "\<forall>x \<in> set (fst (animate_loop rnd 0 (ps, vs))). -25 \<le> x \<and> x \<le> 25"
  using assms by (rule animate_loop_positions_in_range)

lemma animate_loop_positions_bounded_witness:
  "length [0.02, 0, 0::real] = length [24.99, 0, 0::real] \<and> length [24.99, 0, 0::real] mod 3 = 0 \<and>
   list_all (\<lambda>x. -25 \<le> x \<and> x \<le> 25) (fst (animate_loop (\<lambda>_. 0.5) 0 ([24.99, 0, 0], [0.02, 0, 0])))"
  using animate_loop_positions_bounded [of "[0.02, 0, 0]" "[24.99, 0, 0]" "\<lambda>_. 0.5"]
  by (simp add: list_all_iff)

text \<open>
  C3. The boundary is a wrap, not a clamp: a coordinate whose update would take it past
  \<open>+25\<close> is set to exactly \<open>-25\<close>, one past \<open>-25\<close> to exactly \<open>+25\<close>, any other
  is the integrated value; the velocity keeps the damped value in every case.
\<close>

theorem animate_body_wraps:
  assumes "Suc (Suc i) < length ps" "length vs = length ps" "k < 3"
  shows "let v = (vs ! (i + k) + (rnd (i + k) - 0.5) * 0.001) * 0.999;
             p = ps ! (i + k) + v;
             (ps', vs') = animate_body rnd i (ps, vs)
         in (p > 25 \<longrightarrow> ps' ! (i + k) = -25) \<and> (p < -25 \<longrightarrow> ps' ! (i + k) = 25) \<and>
            (-25 \<le> p \<and> p \<le> 25 \<longrightarrow> ps' ! (i + k) = p) \<and> vs' ! (i + k) = v"
proof -
  have "k = 0 \<or> k = 1 \<or> k = 2" using assms(3) by arith
  then show ?thesis
    using assms(1,2)
    by (auto simp: animate_body_axes wrap_coord_def maxDistance_def Let_def)
qed

lemma animate_body_wraps_witness:
  "Suc (Suc 0) < length [24.99, 0, 0::real] \<and> length [0.02, 0, 0::real] = length [24.99, 0, 0::real] \<and>
   (0::nat) < 3 \<and> fst (animate_body (\<lambda>_. 0.5) 0 ([24.99, 0, 0], [0.02, 0, 0])) ! 0 = -25"
  using animate_body_wraps [of 0 "[24.99, 0, 0]" "[0.02, 0, 0]" 0 "\<lambda>_. 0.5"]
  by (simp add: Let_def split: prod.splits)


subsection \<open>Velocities: bounded random walk and damping\<close>

lemma length_animate_loop_both:
  "length (fst (animate_loop rnd i pv)) = length (fst pv) \<and>
   length (snd (animate_loop rnd i pv)) = length (snd pv)"
proof (induction rnd i pv rule: animate_loop.induct)
  case (1 rnd i pv)
  then show ?case by (simp add: animate_loop.simps [of rnd i pv])
qed

lemma length_animate_loop [simp]:
  "length (fst (animate_loop rnd i pv)) = length (fst pv)"
  "length (snd (animate_loop rnd i pv)) = length (snd pv)"
  using length_animate_loop_both by blast+

lemma axis_velocity_bound:
  fixes v r :: real
  assumes "0 \<le> r" "r < 1" "\<bar>v\<bar> \<le> 0.4995"
  shows "\<bar>(v + (r - 0.5) * 0.001) * 0.999\<bar> \<le> 0.4995"
proof (rule abs_leI)
  have "v \<le> 0.4995" "- v \<le> 0.4995"
    using abs_le_D1 [OF assms(3)] abs_le_D2 [OF assms(3)] by simp_all
  with assms(1,2) show "(v + (r - 0.5) * 0.001) * 0.999 \<le> 0.4995"
    by (simp add: field_simps)
  from \<open>- v \<le> 0.4995\<close> assms(1,2) show "- ((v + (r - 0.5) * 0.001) * 0.999) \<le> 0.4995"
    by (simp add: field_simps)
qed

lemma field_step_memE:
  assumes "pv' \<in> set (field_step rnd pvs)"
  obtains j where "j < length pvs" "pv' = particle_step (frame_draws rnd j) (pvs ! j)"
  using assms by (auto simp: field_step_def)

lemma animate_loop_velocity_in_range:
  assumes len: "length vs = length ps" "length ps mod 3 = 0"
    and rnd: "random_ok (length ps) rnd"
    and vs: "\<forall>v \<in> set vs. \<bar>v\<bar> \<le> 0.4995"
  shows "\<forall>v \<in> set (snd (animate_loop rnd 0 (ps, vs))). \<bar>v\<bar> \<le> 0.4995"
proof
  fix x assume "x \<in> set (snd (animate_loop rnd 0 (ps, vs)))"
  then obtain a b c where t: "(a, b, c) \<in> snd ` set (field_step rnd (zip (triples ps) (triples vs)))"
    and x: "x = a \<or> x = b \<or> x = c"
    unfolding animate_loop_triples [OF len] snd_conv in_set_flat3 set_map by blast
  then obtain pv' where pv': "pv' \<in> set (field_step rnd (zip (triples ps) (triples vs)))"
    and abc: "(a, b, c) = snd pv'" by blast
  then obtain j where j: "j < length (triples ps)" "j < length (triples vs)"
    and pvj: "pv' = particle_step (frame_draws rnd j) (triples ps ! j, triples vs ! j)"
    by (auto elim!: field_step_memE)
  obtain v0 v1 v2 where tv: "triples vs ! j = (v0, v1, v2)" by (cases "triples vs ! j") auto
  have "(v0, v1, v2) \<in> set (triples vs)" using j(2) tv nth_mem by metis
  then have mem: "v0 \<in> set vs \<and> v1 \<in> set vs \<and> v2 \<in> set vs" by (rule in_set_triples)
  have vb: "\<bar>v0\<bar> \<le> 0.4995" "\<bar>v1\<bar> \<le> 0.4995" "\<bar>v2\<bar> \<le> 0.4995"
    using bspec [OF vs] mem by blast+
  have "3 * j + 2 < length ps" using j(1) by simp
  then have d: "0 \<le> rnd (3 * j + k) \<and> rnd (3 * j + k) < 1" if "k \<le> 2" for k
    using rnd that by (simp add: random_ok_def)
  have abc': "a = (v0 + (rnd (3 * j) - 0.5) * 0.001) * 0.999 \<and>
      b = (v1 + (rnd (3 * j + 1) - 0.5) * 0.001) * 0.999 \<and>
      c = (v2 + (rnd (3 * j + 2) - 0.5) * 0.001) * 0.999"
    using abc pvj tv by (cases "triples ps ! j") (simp add: particle_step_def frame_draws_def)
  have "\<bar>a\<bar> \<le> 0.4995" unfolding conjunct1 [OF abc']
    using d [of 0] vb(1) by (intro axis_velocity_bound) auto
  moreover have "\<bar>b\<bar> \<le> 0.4995" unfolding conjunct1 [OF conjunct2 [OF abc']]
    using d [of 1] vb(2) by (intro axis_velocity_bound) auto
  moreover have "\<bar>c\<bar> \<le> 0.4995" unfolding conjunct2 [OF conjunct2 [OF abc']]
    using d [of 2] vb(3) by (intro axis_velocity_bound) auto
  ultimately have "\<bar>a\<bar> \<le> 0.4995 \<and> \<bar>b\<bar> \<le> 0.4995 \<and> \<bar>c\<bar> \<le> 0.4995" by blast
  with x show "\<bar>x\<bar> \<le> 0.4995" by blast
qed

text \<open>
  C7. With every draw of the frame in \<open>[0, 1)\<close>, the perturbation lies in
  \<open>[-0.0005, 0.0005)\<close> and a velocity component of magnitude at most \<open>0.4995\<close>
  keeps that bound: \<open>0.999 * (0.4995 + 0.0005) = 0.4995\<close>. The random walk is bounded.
\<close>

theorem animate_loop_velocity_bounded:
  assumes "length vs = length ps" "length ps mod 3 = 0"
    and "random_ok (length ps) rnd"
    and "\<forall>v \<in> set vs. \<bar>v\<bar> \<le> 0.4995"
  shows "\<forall>v \<in> set (snd (animate_loop rnd 0 (ps, vs))). \<bar>v\<bar> \<le> 0.4995"
  using assms by (rule animate_loop_velocity_in_range)

lemma animate_loop_velocity_bounded_witness:
  "length [0.4995, 0, -0.4995::real] = length [1, 2, 3::real] \<and> length [1, 2, 3::real] mod 3 = 0 \<and>
   random_ok (length [1, 2, 3::real]) (\<lambda>_. 0.999) \<and>
   list_all (\<lambda>v. \<bar>v\<bar> \<le> 0.4995) [0.4995, 0, -0.4995::real] \<and>
   list_all (\<lambda>v. \<bar>v\<bar> \<le> 0.4995) (snd (animate_loop (\<lambda>_. 0.999) 0 ([1, 2, 3], [0.4995, 0, -0.4995])))"
proof -
  have h: "length [0.4995, 0, -0.4995::real] = length [1, 2, 3::real]" "length [1, 2, 3::real] mod 3 = 0"
    "random_ok (length [1, 2, 3::real]) (\<lambda>_. 0.999)" "\<forall>v \<in> set [0.4995, 0, -0.4995::real]. \<bar>v\<bar> \<le> 0.4995"
    by (simp_all add: random_ok_def)
  show ?thesis using h animate_loop_velocity_bounded [OF h] by (simp add: list_all_iff)
qed

lemma field_step_no_perturbation:
  "length pvs = length vs' \<Longrightarrow> pvs = zip ps' vs' \<Longrightarrow>
   map snd (field_step (\<lambda>_. 0.5) pvs) = map (\<lambda>(a, b, c). (a * 0.999, b * 0.999, c * 0.999)) vs'"
  by (intro nth_equalityI)
     (auto simp: field_step_def particle_step_def frame_draws_def split: prod.split)

text \<open>
  C8. With no perturbation (every draw \<open>0.5\<close>) the velocity decays geometrically:
  after \<open>k\<close> frames every component is \<open>0.999 ^ k\<close> times its initial value.
\<close>

theorem animate_loop_pure_damping:
  assumes "length vs = length ps" "length ps mod 3 = 0"
  shows "snd ((animate_loop (\<lambda>_. 0.5) 0 ^^ k) (ps, vs)) = map (\<lambda>v. 0.999 ^ k * v) vs"
proof (induction k)
  case 0
  then show ?case by simp
next
  case (Suc k)
  define pv where "pv = (animate_loop (\<lambda>_. 0.5) 0 ^^ k) (ps, vs)"
  have len: "length (fst pv) = length ps" "length (snd pv) = length vs"
    unfolding pv_def by (induction k) simp_all
  have "snd (animate_loop (\<lambda>_. 0.5) 0 pv) = map (\<lambda>v. v * 0.999) (snd pv)"
  proof -
    have l: "length (snd pv) = length (fst pv)" "length (fst pv) mod 3 = 0"
      using len assms by simp_all
    then have "length (triples (snd pv)) = length (triples (fst pv))" by simp
    then have "map snd (field_step (\<lambda>_. 0.5) (zip (triples (fst pv)) (triples (snd pv)))) =
        map (\<lambda>(a, b, c). (a * 0.999, b * 0.999, c * 0.999)) (triples (snd pv))"
      by (intro field_step_no_perturbation) simp_all
    moreover have "length (snd pv) mod 3 = 0" using l by simp
    ultimately show ?thesis
      using animate_loop_triples [of "snd pv" "fst pv"] l
      by (cases pv) (simp add: flat3_map3 flat3_triples)
  qed
  with Suc.IH show ?case by (simp add: pv_def)
qed

lemma animate_loop_pure_damping_witness:
  "length [1, 0, 0::real] = length [3, 2, 1::real] \<and> length [3, 2, 1::real] mod 3 = 0 \<and>
   snd ((animate_loop (\<lambda>_. 0.5) 0 ^^ 2) ([3, 2, 1], [1, 0, 0])) = map (\<lambda>v. 0.999 ^ 2 * v) [1, 0, 0]"
  using animate_loop_pure_damping [of "[1, 0, 0]" "[3, 2, 1]" 2] by simp

end
