(* ===== verification/Scene.thy ===== *)
theory Scene
  imports ParticleStep
begin

text \<open>
  The global state of the particle backdrop (\<open>src/script.js\<close>, lines 1--40 and
  200--273) and the four functions that change it: \<open>initThreeJS\<close>, \<open>animate\<close>,
  \<open>onWindowResize\<close> and \<open>onDocumentMouseMove\<close>. The THREE.js objects are reduced
  to the fields the script writes: the camera's aspect ratio and \<open>z\<close> position, the
  renderer's size and pixel ratio, and the particle system of \<open>ParticleInit\<close>.
  \<open>running\<close> records that \<open>initThreeJS\<close> got past its canvas check: from then on
  the animation loop reschedules itself and the two window listeners are registered.
\<close>

record camera_state =
  aspect :: real
  cam_z :: real

record renderer_state =
  canvas_size :: vec2
  pixelRatio :: real

record scene_state =
  time :: real
  mouseX :: real
  mouseY :: real
  windowHalfX :: real
  windowHalfY :: real
  camera :: "camera_state option"
  renderer :: "renderer_state option"
  particleSystem :: "particle_system option"
  running :: bool

text \<open>The top-level declarations, lines 2--6, for a window of size \<open>win\<close>.\<close>

definition script_load :: "vec2 \<Rightarrow> scene_state" where
  "script_load win =
     \<lparr>time = 0, mouseX = 0, mouseY = 0,
      windowHalfX = fst win / 2, windowHalfY = snd win / 2,
      camera = None, renderer = None, particleSystem = None, running = False\<rparr>"

text \<open>
  The particle branch of \<open>animate\<close>, lines 205--246: the loop of
  \<open>ParticleStep\<close>, the \<open>needsUpdate\<close> flag, the two uniforms and the rotation.
\<close>

definition update_particle_system :: "draws \<Rightarrow> real \<Rightarrow> vec2 \<Rightarrow> particle_system \<Rightarrow> particle_system" where
  "update_particle_system rnd t mouse psys =
     (let g = geom psys;
          (ps, vs) = animate_loop rnd 0 (positions g, velocities g);
          (rx, ry, rz) = rotation psys
      in psys\<lparr>geom := g\<lparr>positions := ps, velocities := vs\<rparr>,
              positionNeedsUpdate := True,
              unifs := (unifs psys)\<lparr>u_time := t, u_mousePosition := mouse\<rparr>,
              rotation := (rx + 0.0008, ry + 0.0012, rz + 0.0004)\<rparr>)"

text \<open>
  \<open>animate\<close>, lines 201--249. \<open>requestAnimationFrame\<close> and \<open>renderer.render\<close>
  change none of the modelled state; the rescheduling is the runtime's sequence of
  frame events.
\<close>

definition animate :: "draws \<Rightarrow> scene_state \<Rightarrow> scene_state" where
  "animate rnd s =
     (let s = s\<lparr>time := time s + 0.016\<rparr>
      in case particleSystem s of
           None \<Rightarrow> s
         | Some psys \<Rightarrow>
             s\<lparr>particleSystem := Some (update_particle_system rnd (time s) (mouseX s, mouseY s) psys)\<rparr>)"

text \<open>\<open>onWindowResize\<close>, lines 252--263.\<close>

definition onWindowResize :: "vec2 \<Rightarrow> scene_state \<Rightarrow> scene_state" where
  "onWindowResize win s =
     (let (w, h) = win
      in s\<lparr>windowHalfX := w / 2, windowHalfY := h / 2,
           camera := map_option (\<lambda>c. c\<lparr>aspect := w / h\<rparr>) (camera s),
           renderer := map_option (\<lambda>r. r\<lparr>canvas_size := (w, h)\<rparr>) (renderer s),
           particleSystem :=
             map_option (\<lambda>p. p\<lparr>unifs := (unifs p)\<lparr>u_resolution := (w, h)\<rparr>\<rparr>) (particleSystem s)\<rparr>)"

text \<open>\<open>onDocumentMouseMove\<close>, lines 266--273, for a pointer at \<open>client\<close>.\<close>

definition onDocumentMouseMove :: "vec2 \<Rightarrow> scene_state \<Rightarrow> scene_state" where
  "onDocumentMouseMove client s =
     (let targetX = (fst client - windowHalfX s) / windowHalfX s;
          targetY = (snd client - windowHalfY s) / windowHalfY s
      in s\<lparr>mouseX := mouseX s + (targetX - mouseX s) * 0.1,
           mouseY := mouseY s + (targetY - mouseY s) * 0.1\<rparr>)"

text \<open>
  \<open>initThreeJS\<close>, lines 9--40: without a canvas it returns at once; otherwise it
  creates the camera and renderer for the window \<open>win\<close> and device pixel ratio
  \<open>dpr\<close>, the particle system from the draws \<open>rc\<close>, places the camera, runs the
  first frame with the draws \<open>rf\<close> and registers the listeners.
\<close>

definition initThreeJS :: "bool \<Rightarrow> draws \<Rightarrow> draws \<Rightarrow> vec2 \<Rightarrow> real \<Rightarrow> scene_state \<Rightarrow> scene_state" where
  "initThreeJS canvas rc rf win dpr s =
     (if \<not> canvas then s
      else
        let (w, h) = win;
            s = s\<lparr>camera := Some \<lparr>aspect = w / h, cam_z = 0\<rparr>,
                  renderer := Some \<lparr>canvas_size = (w, h), pixelRatio = min dpr 2\<rparr>\<rparr>;
            s = s\<lparr>particleSystem := Some (createParticleSystem rc win)\<rparr>;
            s = s\<lparr>camera := map_option (\<lambda>c. c\<lparr>cam_z := 5\<rparr>) (camera s)\<rparr>;
            s = animate rf s
        in s\<lparr>running := True\<rparr>)"

subsection \<open>The frame callback\<close>

lemma update_particle_system_attrs [simp]:
  "colors (geom (update_particle_system rnd t m p)) = colors (geom p)"
  "sizes (geom (update_particle_system rnd t m p)) = sizes (geom p)"
  "opacities (geom (update_particle_system rnd t m p)) = opacities (geom p)"
  "u_resolution (unifs (update_particle_system rnd t m p)) = u_resolution (unifs p)"
  "u_time (unifs (update_particle_system rnd t m p)) = t"
  "u_mousePosition (unifs (update_particle_system rnd t m p)) = m"
  by (simp_all add: update_particle_system_def Let_def split: prod.split)

lemma update_particle_system_buffers:
  "positions (geom (update_particle_system rnd t m p)) =
     fst (animate_loop rnd 0 (positions (geom p), velocities (geom p)))"
  "velocities (geom (update_particle_system rnd t m p)) =
     snd (animate_loop rnd 0 (positions (geom p), velocities (geom p)))"
  by (simp_all add: update_particle_system_def Let_def split: prod.split)

lemma animate_fields [simp]:
  "time (animate rnd s) = time s + 0.016"
  "mouseX (animate rnd s) = mouseX s" "mouseY (animate rnd s) = mouseY s"
  "windowHalfX (animate rnd s) = windowHalfX s" "windowHalfY (animate rnd s) = windowHalfY s"
  "camera (animate rnd s) = camera s" "renderer (animate rnd s) = renderer s"
  "running (animate rnd s) = running s"
  "particleSystem (animate rnd s) =
     map_option (update_particle_system rnd (time s + 0.016) (mouseX s, mouseY s)) (particleSystem s)"
  by (simp_all add: animate_def Let_def split: option.split)

subsection \<open>The pointer\<close>

lemma onDocumentMouseMove_fields [simp]:
  "time (onDocumentMouseMove c s) = time s"
  "windowHalfX (onDocumentMouseMove c s) = windowHalfX s"
  "windowHalfY (onDocumentMouseMove c s) = windowHalfY s"
  "camera (onDocumentMouseMove c s) = camera s" "renderer (onDocumentMouseMove c s) = renderer s"
  "particleSystem (onDocumentMouseMove c s) = particleSystem s"
  "running (onDocumentMouseMove c s) = running s"
  by (simp_all add: onDocumentMouseMove_def Let_def)

lemma mouseX_onDocumentMouseMove:
  "mouseX (onDocumentMouseMove c s) =
     (fst c - windowHalfX s) / windowHalfX s +
     (mouseX s - (fst c - windowHalfX s) / windowHalfX s) * 0.9"
proof -
  define t where "t = (fst c - windowHalfX s) / windowHalfX s"
  have "mouseX (onDocumentMouseMove c s) = mouseX s + (t - mouseX s) * 0.1"
    by (simp add: onDocumentMouseMove_def Let_def t_def)
  also have "\<dots> = t + (mouseX s - t) * 0.9" by (simp add: field_simps)
  finally show ?thesis by (simp only: t_def)
qed

lemma windowHalfX_funpow_mouse [simp]:
  "windowHalfX ((onDocumentMouseMove c ^^ k) s) = windowHalfX s"
  by (induction k) simp_all


lemma mouse_target_bounded:
  fixes x h :: real
  assumes "0 < h" "0 \<le> x" "x \<le> 2 * h"
  shows "-1 \<le> (x - h) / h \<and> (x - h) / h \<le> 1"
  using assms by (simp add: le_divide_eq divide_le_eq)



subsection \<open>Resize\<close>

text \<open>
  C12. A resize event changes only the viewport-dependent values: the half sizes, the
  camera's aspect, the renderer's size and the resolution uniform. Time, the smoothed
  pointer, the running flag and every particle buffer, the rotation and the other
  uniforms are unchanged, and a second resize to the same size changes nothing.
\<close>

theorem onWindowResize_frame:
  "time (onWindowResize win s) = time s \<and> mouseX (onWindowResize win s) = mouseX s \<and>
   mouseY (onWindowResize win s) = mouseY s \<and> running (onWindowResize win s) = running s \<and>
   map_option geom (particleSystem (onWindowResize win s)) = map_option geom (particleSystem s) \<and>
   map_option rotation (particleSystem (onWindowResize win s)) = map_option rotation (particleSystem s) \<and>
   map_option (u_time \<circ> unifs) (particleSystem (onWindowResize win s)) =
     map_option (u_time \<circ> unifs) (particleSystem s) \<and>
   map_option (u_mousePosition \<circ> unifs) (particleSystem (onWindowResize win s)) =
     map_option (u_mousePosition \<circ> unifs) (particleSystem s) \<and>
   onWindowResize win (onWindowResize win s) = onWindowResize win s"
  by (cases win) (simp add: onWindowResize_def option.map_comp comp_def)

lemma onWindowResize_fields [simp]:
  "time (onWindowResize win s) = time s" "mouseX (onWindowResize win s) = mouseX s"
  "mouseY (onWindowResize win s) = mouseY s" "running (onWindowResize win s) = running s"
  "camera (onWindowResize win s) = map_option (\<lambda>c. c\<lparr>aspect := fst win / snd win\<rparr>) (camera s)"
  "renderer (onWindowResize win s) = map_option (\<lambda>r. r\<lparr>canvas_size := win\<rparr>) (renderer s)"
  "particleSystem (onWindowResize win s) =
     map_option (\<lambda>p. p\<lparr>unifs := (unifs p)\<lparr>u_resolution := win\<rparr>\<rparr>) (particleSystem s)"
  by (cases win; simp add: onWindowResize_def)+

subsection \<open>Start-up\<close>

lemma initThreeJS_no_canvas [simp]: "initThreeJS False rc rf win dpr s = s"
  by (simp add: initThreeJS_def)

lemma initThreeJS_canvas:
  "initThreeJS True rc rf win dpr s =
     s\<lparr>time := time s + 0.016,
       camera := Some \<lparr>aspect = fst win / snd win, cam_z = 5\<rparr>,
       renderer := Some \<lparr>canvas_size = win, pixelRatio = min dpr 2\<rparr>,
       particleSystem := Some (update_particle_system rf (time s + 0.016) (mouseX s, mouseY s)
                                (createParticleSystem rc win)),
       running := True\<rparr>"
  by (cases win) (simp add: initThreeJS_def animate_def Let_def)

text \<open>
  Start-up with a canvas leaves the page running with the camera at \<open>z = 5\<close> and
  the viewport's aspect ratio, the renderer's pixel ratio capped at \<open>2\<close>, and the new
  particle system advanced by exactly one frame: rotated once by
  \<open>(0.0008, 0.0012, 0.0004)\<close>, its \<open>time\<close> uniform one step of \<open>0.016\<close> past the
  global time before start-up, its colours those \<open>createParticleSystem\<close> wrote.
\<close>

theorem initThreeJS_first_frame:
  "running (initThreeJS True rc rf win dpr s) \<and>
   camera (initThreeJS True rc rf win dpr s) = Some \<lparr>aspect = fst win / snd win, cam_z = 5\<rparr> \<and>
   map_option pixelRatio (renderer (initThreeJS True rc rf win dpr s)) = Some (min dpr 2) \<and>
   map_option rotation (particleSystem (initThreeJS True rc rf win dpr s)) =
     Some (0.0008, 0.0012, 0.0004) \<and>
   map_option (u_time \<circ> unifs) (particleSystem (initThreeJS True rc rf win dpr s)) =
     Some (time s + 0.016) \<and>
   map_option (colors \<circ> geom) (particleSystem (initThreeJS True rc rf win dpr s)) =
     Some (colors (geom (createParticleSystem rc win)))"
  by (simp add: initThreeJS_canvas update_particle_system_def createParticleSystem_def Let_def
      split: prod.split)

end
