(* ===== verification/Runtime.thy ===== *)
theory Runtime
  imports Scene
begin

text \<open>
  The page as an event-driven system. After the script is loaded
  (\<open>script_load\<close>), the \<open>DOMContentLoaded\<close> handler calls \<open>initThreeJS\<close>; from
  then on, when it found a canvas, the browser delivers animation frames (the callback
  reschedules itself with \<open>requestAnimationFrame\<close>), pointer moves and resizes to the
  registered handlers. \<open>dispatch\<close> is one delivered event, \<open>run\<close> a sequence of
  them and \<open>reachable\<close> every state the page can be in, with the browser's guarantee
  that \<open>Math.random()\<close> lies in \<open>[0, 1)\<close> as the side condition of its rules.
  \<open>scene_inv\<close> is the invariant of every reachable state: the Uninitialized/Running
  state machine of the spec, the well-formed buffers of 2000 particles, the position and
  velocity bounds, and the time uniform equal to the global time.
\<close>

datatype event =
    AnimationFrame draws
  | MouseMove vec2
  | WindowResize vec2

fun dispatch :: "event \<Rightarrow> scene_state \<Rightarrow> scene_state" where
  "dispatch (AnimationFrame rnd) s = (if running s then animate rnd s else s)"
| "dispatch (MouseMove c) s = (if running s then onDocumentMouseMove c s else s)"
| "dispatch (WindowResize win) s = (if running s then onWindowResize win s else s)"

fun run :: "event list \<Rightarrow> scene_state \<Rightarrow> scene_state" where
  "run [] s = s"
| "run (e # es) s = run es (dispatch e s)"

fun frames :: "event list \<Rightarrow> nat" where
  "frames [] = 0"
| "frames (AnimationFrame _ # es) = Suc (frames es)"
| "frames (_ # es) = frames es"

fun event_ok :: "event \<Rightarrow> bool" where
  "event_ok (AnimationFrame rnd) = random_ok (3 * particleCount) rnd"
| "event_ok _ = True"

inductive reachable :: "scene_state \<Rightarrow> bool" where
  load: "reachable (script_load win)"
| dom_ready: "reachable s \<Longrightarrow> \<not> running s \<Longrightarrow> random_ok (9 * particleCount) rc \<Longrightarrow>
    random_ok (3 * particleCount) rf \<Longrightarrow> reachable (initThreeJS canvas rc rf win dpr s)"
| event: "reachable s \<Longrightarrow> event_ok e \<Longrightarrow> reachable (dispatch e s)"

definition particles_ok :: "particle_system \<Rightarrow> bool" where
  "particles_ok p \<longleftrightarrow>
     wf_geometry particleCount (geom p) \<and>
     (\<forall>x \<in> set (positions (geom p)). -25 \<le> x \<and> x \<le> 25) \<and>
     (\<forall>v \<in> set (velocities (geom p)). \<bar>v\<bar> \<le> 0.4995)"

definition scene_inv :: "scene_state \<Rightarrow> bool" where
  "scene_inv s \<longleftrightarrow>
     (running s \<longleftrightarrow> particleSystem s \<noteq> None) \<and>
     (running s \<longrightarrow> camera s \<noteq> None \<and> renderer s \<noteq> None) \<and>
     (case particleSystem s of
        None \<Rightarrow> True
      | Some p \<Rightarrow> particles_ok p \<and> u_time (unifs p) = time s)"

text \<open>
  The handlers with the exceptions of the source: \<open>renderer.render\<close> (line 248) throws
  a \<open>TypeError\<close> on an undefined renderer after the frame's updates are done;
  \<open>onWindowResize\<close> throws at \<open>camera.aspect\<close> (line 256) after updating the
  half sizes, and at \<open>renderer.setSize\<close> (line 258) after updating the camera. The
  result pairs the exception, if any, with the state as the throw leaves it.
\<close>

definition animate_checked :: "draws \<Rightarrow> scene_state \<Rightarrow> js_error option \<times> scene_state" where
  "animate_checked rnd s =
     (let s = animate rnd s
      in (if renderer s = None then Some TypeError else None, s))"

definition onWindowResize_checked :: "vec2 \<Rightarrow> scene_state \<Rightarrow> js_error option \<times> scene_state" where
  "onWindowResize_checked win s =
     (let (w, h) = win;
          s = s\<lparr>windowHalfX := w / 2, windowHalfY := h / 2\<rparr>
      in case camera s of
           None \<Rightarrow> (Some TypeError, s)
         | Some c \<Rightarrow>
             let s = s\<lparr>camera := Some (c\<lparr>aspect := w / h\<rparr>)\<rparr>
             in case renderer s of
                  None \<Rightarrow> (Some TypeError, s)
                | Some r \<Rightarrow>
                    (None, s\<lparr>renderer := Some (r\<lparr>canvas_size := (w, h)\<rparr>),
                             particleSystem := map_option (\<lambda>p. p\<lparr>unifs := (unifs p)\<lparr>u_resolution := (w, h)\<rparr>\<rparr>)
                                                 (particleSystem s)\<rparr>))"

fun dispatch_checked :: "event \<Rightarrow> scene_state \<Rightarrow> js_error option \<times> scene_state" where
  "dispatch_checked (AnimationFrame rnd) s = (if running s then animate_checked rnd s else (None, s))"
| "dispatch_checked (MouseMove c) s = (None, if running s then onDocumentMouseMove c s else s)"
| "dispatch_checked (WindowResize win) s = (if running s then onWindowResize_checked win s else (None, s))"

inductive_cases reachable_loadE: "reachable (script_load win)"

subsection \<open>The particle system stays well formed\<close>

lemma update_particles_ok:
  assumes wf: "wf_geometry particleCount (geom p)"
    and vs: "\<forall>v \<in> set (velocities (geom p)). \<bar>v\<bar> \<le> 0.4995"
    and rnd: "random_ok (3 * particleCount) rnd"
  shows "particles_ok (update_particle_system rnd t m p)"
proof -
  have len: "length (velocities (geom p)) = length (positions (geom p))"
    "length (positions (geom p)) mod 3 = 0"
    using wf by (simp_all add: wf_geometry_def)
  have r: "random_ok (length (positions (geom p))) rnd"
    using wf rnd by (simp add: wf_geometry_def)
  show ?thesis
    using animate_loop_positions_in_range [OF len, of rnd]
      animate_loop_velocity_in_range [OF len r vs] wf
    by (simp add: particles_ok_def update_particle_system_buffers wf_geometry_def)
qed

lemma created_particles:
  assumes "random_ok (9 * particleCount) rc"
  shows "wf_geometry particleCount (geom (createParticleSystem rc win))"
    and "\<forall>v \<in> set (velocities (geom (createParticleSystem rc win))). \<bar>v\<bar> \<le> 0.4995"
  using create_loop_wf [of particleCount rc] create_loop_velocities [OF assms]
  by (auto simp: createParticleSystem_def)

subsection \<open>The invariant\<close>

lemma scene_inv_load: "scene_inv (script_load win)"
  by (simp add: scene_inv_def script_load_def)

lemma scene_inv_init:
  assumes inv: "scene_inv s" and off: "\<not> running s"
    and rc: "random_ok (9 * particleCount) rc" and rf: "random_ok (3 * particleCount) rf"
  shows "scene_inv (initThreeJS canvas rc rf win dpr s)"
proof (cases canvas)
  case False
  with inv show ?thesis by simp
next
  case True
  have "particles_ok (update_particle_system rf (time s + 0.016) (mouseX s, mouseY s)
          (createParticleSystem rc win))"
    using update_particles_ok [OF created_particles [OF rc] rf] .
  with True show ?thesis by (simp add: initThreeJS_canvas scene_inv_def)
qed

lemma scene_inv_animate:
  assumes inv: "scene_inv s" and on: "running s" and rnd: "random_ok (3 * particleCount) rnd"
  shows "scene_inv (animate rnd s)"
proof -
  from inv on obtain p where p: "particleSystem s = Some p" and ok: "particles_ok p"
    by (auto simp: scene_inv_def)
  have wf: "wf_geometry particleCount (geom p)"
    and vs: "\<forall>v \<in> set (velocities (geom p)). \<bar>v\<bar> \<le> 0.4995"
    using ok unfolding particles_ok_def by blast+
  have "particles_ok (update_particle_system rnd (time s + 0.016) (mouseX s, mouseY s) p)"
    by (rule update_particles_ok [OF wf vs rnd])
  with inv p on show ?thesis by (simp add: scene_inv_def)
qed

lemma scene_inv_mouse: "scene_inv s \<Longrightarrow> scene_inv (onDocumentMouseMove c s)"
  by (auto simp: scene_inv_def split: option.splits)

lemma scene_inv_resize: "scene_inv s \<Longrightarrow> scene_inv (onWindowResize win s)"
  by (auto simp: scene_inv_def particles_ok_def split: option.splits)

lemma scene_inv_dispatch: "scene_inv s \<Longrightarrow> event_ok e \<Longrightarrow> scene_inv (dispatch e s)"
  by (cases e) (auto intro: scene_inv_animate scene_inv_mouse scene_inv_resize)

lemma reachable_scene_inv: "reachable s \<Longrightarrow> scene_inv s"
proof (induction rule: reachable.induct)
  case (load win)
  show ?case by (rule scene_inv_load)
next
  case (dom_ready s rc rf canvas win dpr)
  then show ?case by (blast intro: scene_inv_init)
next
  case (event s e)
  then show ?case by (blast intro: scene_inv_dispatch)
qed

lemma dispatch_running [simp]: "running (dispatch e s) = running s"
  by (cases e) simp_all

lemma dispatch_time:
  "running s \<Longrightarrow> time (dispatch e s) = time s + (case e of AnimationFrame _ \<Rightarrow> 0.016 | _ \<Rightarrow> 0)"
  by (cases e) simp_all

lemma dispatch_attributes:
  assumes "particleSystem s = Some p"
  shows "\<exists>p'. particleSystem (dispatch e s) = Some p' \<and> colors (geom p') = colors (geom p) \<and>
           sizes (geom p') = sizes (geom p) \<and> opacities (geom p') = opacities (geom p)"
  using assms by (cases e) auto

text \<open>A page that found its canvas, after its first frame: the state the witnesses use.\<close>

lemma reachable_started:
  "reachable (initThreeJS True (\<lambda>_. 0.5) (\<lambda>_. 0.5) (800, 600) 1 (script_load (800, 600)))"
  by (rule reachable.dom_ready [OF reachable.load]) (simp_all add: script_load_def random_ok_def)

lemma started_particleSystem:
  "particleSystem (initThreeJS True (\<lambda>_. 0.5) (\<lambda>_. 0.5) (800, 600) 1 (script_load (800, 600))) =
   Some (update_particle_system (\<lambda>_. 0.5) 0.016 (0, 0) (createParticleSystem (\<lambda>_. 0.5) (800, 600)))"
  by (simp add: initThreeJS_canvas script_load_def)

subsection \<open>Properties of every reachable state\<close>

text \<open>
  C9. In every state the page can reach, every coordinate in the position buffer of the
  particle system lies in \<open>[-25, 25]\<close>.
\<close>

theorem reachable_positions_bounded:
  "reachable s \<Longrightarrow> particleSystem s = Some p \<Longrightarrow>
   \<forall>x \<in> set (positions (geom p)). -25 \<le> x \<and> x \<le> 25"
  by (drule reachable_scene_inv) (simp add: scene_inv_def particles_ok_def)

lemma reachable_positions_bounded_witness:
  "reachable (initThreeJS True (\<lambda>_. 0.5) (\<lambda>_. 0.5) (800, 600) 1 (script_load (800, 600))) \<and>
   particleSystem (initThreeJS True (\<lambda>_. 0.5) (\<lambda>_. 0.5) (800, 600) 1 (script_load (800, 600))) =
     Some (update_particle_system (\<lambda>_. 0.5) 0.016 (0, 0) (createParticleSystem (\<lambda>_. 0.5) (800, 600))) \<and>
   list_all (\<lambda>x. -25 \<le> x \<and> x \<le> 25) (positions (geom (update_particle_system (\<lambda>_. 0.5) 0.016 (0, 0)
     (createParticleSystem (\<lambda>_. 0.5) (800, 600)))))"
  using reachable_positions_bounded [OF reachable_started started_particleSystem]
    reachable_started started_particleSystem
  by (simp add: list_all_iff)

text \<open>
  C13. In every reachable state every velocity component has magnitude at most
  \<open>0.4995\<close>: the random walk of the velocities is bounded for the whole session.
\<close>

theorem reachable_velocities_bounded:
  "reachable s \<Longrightarrow> particleSystem s = Some p \<Longrightarrow>
   \<forall>v \<in> set (velocities (geom p)). \<bar>v\<bar> \<le> 0.4995"
  by (drule reachable_scene_inv) (simp add: scene_inv_def particles_ok_def)

lemma reachable_velocities_bounded_witness:
  "reachable (initThreeJS True (\<lambda>_. 0.5) (\<lambda>_. 0.5) (800, 600) 1 (script_load (800, 600))) \<and>
   particleSystem (initThreeJS True (\<lambda>_. 0.5) (\<lambda>_. 0.5) (800, 600) 1 (script_load (800, 600))) =
     Some (update_particle_system (\<lambda>_. 0.5) 0.016 (0, 0) (createParticleSystem (\<lambda>_. 0.5) (800, 600))) \<and>
   list_all (\<lambda>v. \<bar>v\<bar> \<le> 0.4995) (velocities (geom (update_particle_system (\<lambda>_. 0.5) 0.016 (0, 0)
     (createParticleSystem (\<lambda>_. 0.5) (800, 600)))))"
  using reachable_velocities_bounded [OF reachable_started started_particleSystem]
    reachable_started started_particleSystem
  by (simp add: list_all_iff)

text \<open>
  C14. The two states of the spec's state machine: a reachable page is Running (the
  animation loop and the listeners active) exactly when the particle system exists, and
  a running page has its camera and renderer.
\<close>

theorem reachable_state_machine:
  "reachable s \<Longrightarrow>
   (running s \<longleftrightarrow> particleSystem s \<noteq> None) \<and> (running s \<longrightarrow> camera s \<noteq> None \<and> renderer s \<noteq> None)"
  by (drule reachable_scene_inv) (simp add: scene_inv_def)

lemma reachable_state_machine_witness:
  "reachable (initThreeJS True (\<lambda>_. 0.5) (\<lambda>_. 0.5) (800, 600) 1 (script_load (800, 600))) \<and>
   running (initThreeJS True (\<lambda>_. 0.5) (\<lambda>_. 0.5) (800, 600) 1 (script_load (800, 600))) \<and>
   particleSystem (initThreeJS True (\<lambda>_. 0.5) (\<lambda>_. 0.5) (800, 600) 1 (script_load (800, 600))) \<noteq> None"
  using reachable_state_machine [OF reachable_started] reachable_started
  by (simp add: initThreeJS_canvas)

text \<open>
  C15. In every reachable state the \<open>time\<close> uniform the shader reads equals the global
  \<open>time\<close>: every frame advances both, pointer moves and resizes touch neither.
\<close>

theorem reachable_time_uniform:
  "reachable s \<Longrightarrow> particleSystem s = Some p \<Longrightarrow> u_time (unifs p) = time s"
  by (drule reachable_scene_inv) (simp add: scene_inv_def)

lemma reachable_time_uniform_witness:
  "reachable (initThreeJS True (\<lambda>_. 0.5) (\<lambda>_. 0.5) (800, 600) 1 (script_load (800, 600))) \<and>
   particleSystem (initThreeJS True (\<lambda>_. 0.5) (\<lambda>_. 0.5) (800, 600) 1 (script_load (800, 600))) =
     Some (update_particle_system (\<lambda>_. 0.5) 0.016 (0, 0) (createParticleSystem (\<lambda>_. 0.5) (800, 600))) \<and>
   u_time (unifs (update_particle_system (\<lambda>_. 0.5) 0.016 (0, 0) (createParticleSystem (\<lambda>_. 0.5) (800, 600))))
     = time (initThreeJS True (\<lambda>_. 0.5) (\<lambda>_. 0.5) (800, 600) 1 (script_load (800, 600)))"
  using reachable_time_uniform [OF reachable_started started_particleSystem]
    reachable_started started_particleSystem
  by simp

subsection \<open>Properties of runs\<close>

text \<open>
  C16. Colours, sizes and opacities are fixed at creation: any sequence of frames,
  pointer moves and resizes leaves the three buffers as they were.
\<close>

theorem run_keeps_attributes:
  "particleSystem s = Some p \<Longrightarrow>
   \<exists>p'. particleSystem (run es s) = Some p' \<and> colors (geom p') = colors (geom p) \<and>
         sizes (geom p') = sizes (geom p) \<and> opacities (geom p') = opacities (geom p)"
proof (induction es arbitrary: s p)
  case Nil
  then show ?case by simp
next
  case (Cons e es)
  from dispatch_attributes [OF Cons.prems, of e] obtain q where
    q: "particleSystem (dispatch e s) = Some q" "colors (geom q) = colors (geom p)"
       "sizes (geom q) = sizes (geom p)" "opacities (geom q) = opacities (geom p)"
    by blast
  from Cons.IH [OF q(1)] q(2-4) show ?case by auto
qed

lemma run_keeps_attributes_witness:
  "particleSystem (script_load (800, 600)\<lparr>particleSystem := Some (createParticleSystem (\<lambda>_. 0.5) (800, 600)),
                                         running := True\<rparr>) =
     Some (createParticleSystem (\<lambda>_. 0.5) (800, 600)) \<and>
   (\<exists>p'. particleSystem (run [AnimationFrame (\<lambda>_. 0.5), MouseMove (10, 10), WindowResize (1, 1)]
            (script_load (800, 600)\<lparr>particleSystem := Some (createParticleSystem (\<lambda>_. 0.5) (800, 600)),
                                     running := True\<rparr>)) = Some p' \<and>
         colors (geom p') = colors (geom (createParticleSystem (\<lambda>_. 0.5) (800, 600))) \<and>
         sizes (geom p') = sizes (geom (createParticleSystem (\<lambda>_. 0.5) (800, 600))) \<and>
         opacities (geom p') = opacities (geom (createParticleSystem (\<lambda>_. 0.5) (800, 600))))"
  using run_keeps_attributes [of "script_load (800, 600)\<lparr>particleSystem := Some (createParticleSystem (\<lambda>_. 0.5) (800, 600)),
                                         running := True\<rparr>" "createParticleSystem (\<lambda>_. 0.5) (800, 600)"
      "[AnimationFrame (\<lambda>_. 0.5), MouseMove (10, 10), WindowResize (1, 1)]"]
  by simp

text \<open>
  C17. Elapsed time: on a running page, \<open>time\<close> advances by exactly \<open>0.016\<close> per
  animation frame and not at all on other events.
\<close>

theorem run_time:
  "running s \<Longrightarrow> time (run es s) = time s + 0.016 * real (frames es)"
proof (induction es arbitrary: s)
  case Nil
  then show ?case by simp
next
  case (Cons e es)
  then have "time (run es (dispatch e s)) = time (dispatch e s) + 0.016 * real (frames es)" by simp
  with Cons.prems show ?case by (cases e) (simp_all add: algebra_simps)
qed

lemma run_time_witness:
  "running (initThreeJS True (\<lambda>_. 0.5) (\<lambda>_. 0.5) (800, 600) 1 (script_load (800, 600))) \<and>
   time (run [AnimationFrame (\<lambda>_. 0.5), MouseMove (0, 0), AnimationFrame (\<lambda>_. 0.5)]
     (initThreeJS True (\<lambda>_. 0.5) (\<lambda>_. 0.5) (800, 600) 1 (script_load (800, 600)))) =
   time (initThreeJS True (\<lambda>_. 0.5) (\<lambda>_. 0.5) (800, 600) 1 (script_load (800, 600))) + 0.016 * 2"
  using run_time [of "initThreeJS True (\<lambda>_. 0.5) (\<lambda>_. 0.5) (800, 600) 1 (script_load (800, 600))"
      "[AnimationFrame (\<lambda>_. 0.5), MouseMove (0, 0), AnimationFrame (\<lambda>_. 0.5)]"]
  by (simp add: initThreeJS_canvas)

text \<open>
  C18. Without a canvas the particle core never starts: \<open>initThreeJS\<close> returns at
  once, no frame callback or listener is registered, and no sequence of events changes
  the state the script was loaded with.
\<close>

theorem run_without_canvas:
  "run es (initThreeJS False rc rf win dpr (script_load win0)) = script_load win0"
proof -
  have "\<not> running s \<Longrightarrow> run es s = s" for s
  proof (induction es arbitrary: s)
    case Nil
    then show ?case by simp
  next
    case (Cons e es)
    then show ?case by (cases e) simp_all
  qed
  then show ?thesis by (simp add: script_load_def)
qed

subsection \<open>No handler throws on a reachable page\<close>

lemma onWindowResize_checked_ok:
  "camera s \<noteq> None \<Longrightarrow> renderer s \<noteq> None \<Longrightarrow> onWindowResize_checked win s = (None, onWindowResize win s)"
  by (auto simp: onWindowResize_checked_def onWindowResize_def split: prod.split)

lemma animate_checked_ok:
  "renderer s \<noteq> None \<Longrightarrow> animate_checked rnd s = (None, animate rnd s)"
  by (simp add: animate_checked_def)

text \<open>
  C21. Type soundness of the page: in every reachable state every delivered event is handled
  without an exception (progress), with the state the exception-free \<open>dispatch\<close> gives,
  which is again reachable for a valid event (preservation, \<open>reachable.event\<close>).
\<close>

theorem dispatch_checked_sound:
  "reachable s \<Longrightarrow> dispatch_checked e s = (None, dispatch e s)"
proof -
  assume "reachable s"
  then have inv: "scene_inv s" by (rule reachable_scene_inv)
  show ?thesis
  proof (cases "running s")
    case True
    with inv have "camera s \<noteq> None" "renderer s \<noteq> None" by (auto simp: scene_inv_def)
    with True show ?thesis
      by (cases e) (simp_all add: animate_checked_ok onWindowResize_checked_ok)
  next
    case False
    then show ?thesis by (cases e) simp_all
  qed
qed

lemma dispatch_checked_sound_witness:
  "reachable (initThreeJS True (\<lambda>_. 0.5) (\<lambda>_. 0.5) (800, 600) 1 (script_load (800, 600))) \<and>
   dispatch_checked (WindowResize (1024, 768))
     (initThreeJS True (\<lambda>_. 0.5) (\<lambda>_. 0.5) (800, 600) 1 (script_load (800, 600))) =
   (None, dispatch (WindowResize (1024, 768))
     (initThreeJS True (\<lambda>_. 0.5) (\<lambda>_. 0.5) (800, 600) 1 (script_load (800, 600))))"
  using dispatch_checked_sound [OF reachable_started] reachable_started by blast

lemma onWindowResize_checked_no_camera:
  "camera s = None \<Longrightarrow>
   onWindowResize_checked win s = (Some TypeError, s\<lparr>windowHalfX := fst win / 2, windowHalfY := snd win / 2\<rparr>)"
  by (simp add: onWindowResize_checked_def split: prod.split)

end
