(* ===== verification/Shader.thy ===== *)
theory Shader
  imports Prelude
begin

text \<open>
  The two GLSL programs of the particle material (\<open>src/script.js\<close>, lines 112--188),
  per vertex and per fragment. The vertex program displaces the buffer position by a
  wave and a spiral that depend on \<open>time\<close>, pushes vertices near the pointer away
  from it, and scales the point size with depth and time; the fragment program draws a
  soft disc. GLSL's \<open>length\<close> and \<open>normalize\<close> are written out, \<open>normalize\<close>
  returning \<open>None\<close> on the zero vector where the GLSL specification leaves the result
  undefined; \<open>smoothstep\<close> follows the GLSL specification. \<open>point_size\<close> takes the
  view depth \<open>-mvPosition.z\<close> as argument; the model-view and projection matrices,
  defined below from THREE.js, give that depth and the clip position.
\<close>

definition glsl_length :: "vec2 \<Rightarrow> real" where
  "glsl_length v = (case v of (x, y) \<Rightarrow> sqrt (x\<^sup>2 + y\<^sup>2))"

definition glsl_normalize :: "vec2 \<Rightarrow> vec2 option" where
  "glsl_normalize v =
     (case v of (x, y) \<Rightarrow> if glsl_length v = 0 then None else Some (x / glsl_length v, y / glsl_length v))"

definition glsl_clamp :: "real \<Rightarrow> real \<Rightarrow> real \<Rightarrow> real" where
  "glsl_clamp x lo hi = min (max x lo) hi"

definition glsl_smoothstep :: "real \<Rightarrow> real \<Rightarrow> real \<Rightarrow> real" where
  "glsl_smoothstep e0 e1 x = (let t = glsl_clamp ((x - e0) / (e1 - e0)) 0 1 in t * t * (3 - 2 * t))"

subsection \<open>Vertex program\<close>

text \<open>Wave motion, lines 131--133 (reading the original \<open>position\<close>).\<close>

definition wave_offset :: "real \<Rightarrow> vec3 \<Rightarrow> vec3" where
  "wave_offset time position =
     (case position of (x, y, z) \<Rightarrow>
        (x + sin (time * 0.5 + y * 0.1) * 0.8,
         y + cos (time * 0.3 + x * 0.1) * 0.8,
         z + sin (time * 0.7 + x * 0.1) * 0.8))"

text \<open>Spiral motion, lines 136--138 (reading the displaced \<open>pos\<close>).\<close>

definition spiral_offset :: "real \<Rightarrow> vec3 \<Rightarrow> vec3" where
  "spiral_offset time pos =
     (case pos of (x, y, z) \<Rightarrow>
        let angle = time * 0.2 + glsl_length (x, y) * 0.1
        in (x + cos angle * 0.3, y + sin angle * 0.3, z))"

text \<open>Pointer repulsion, lines 141--145; \<open>mousePosition\<close> is scaled by 15.\<close>

definition mouse_repel :: "vec2 \<Rightarrow> vec3 \<Rightarrow> vec3 option" where
  "mouse_repel mousePosition pos =
     (case (mousePosition, pos) of ((mx, my), (x, y, z)) \<Rightarrow>
        let delta = (x - mx * 15, y - my * 15);
            distance = glsl_length delta
        in if distance < 8
           then (case glsl_normalize delta of
                   None \<Rightarrow> None
                 | Some (dx, dy) \<Rightarrow>
                     Some (x + dx * 3 * (1 - distance / 8), y + dy * 3 * (1 - distance / 8), z))
           else Some (x, y, z))"

definition vertex_position :: "real \<Rightarrow> vec2 \<Rightarrow> vec3 \<Rightarrow> vec3 option" where
  "vertex_position time mousePosition position =
     mouse_repel mousePosition (spiral_offset time (wave_offset time position))"

text \<open>
  Point size, lines 151--155, for the attribute \<open>size\<close> (here \<open>psize\<close>) and the view
  depth \<open>depth = -mvPosition.z\<close>.
\<close>

definition point_size :: "real \<Rightarrow> real \<Rightarrow> vec3 \<Rightarrow> real \<Rightarrow> real" where
  "point_size psize time position depth =
     (case position of (x, y, z) \<Rightarrow>
        let dynamicSize = psize * (300 / depth);
            dynamicSize = dynamicSize * (1 + sin (time * 2.0 + x * 0.1) * 0.3);
            dynamicSize = dynamicSize * (1 + sin (time * 1.5 + y * 0.1) * 0.2)
        in dynamicSize)"

text \<open>
  The model-view transform of \<open>mvPosition\<close> (lines 147--148): THREE.js composes the
  object's rotation (Euler order XYZ, so the matrix \<open>Rx * Ry * Rz\<close>) with the view of
  the camera, which \<open>initThreeJS\<close> places at \<open>z = 5\<close> (line 32) looking down
  \<open>-z\<close>. \<open>vertex_depth\<close> is \<open>vDistance = -mvPosition.z\<close>, and
  \<open>vertex_program\<close> the displaced position, point size and depth of one vertex.
\<close>

definition rotate_x :: "real \<Rightarrow> vec3 \<Rightarrow> vec3" where
  "rotate_x a p = (case p of (x, y, z) \<Rightarrow> (x, y * cos a - z * sin a, y * sin a + z * cos a))"

definition rotate_y :: "real \<Rightarrow> vec3 \<Rightarrow> vec3" where
  "rotate_y a p = (case p of (x, y, z) \<Rightarrow> (x * cos a + z * sin a, y, z * cos a - x * sin a))"

definition rotate_z :: "real \<Rightarrow> vec3 \<Rightarrow> vec3" where
  "rotate_z a p = (case p of (x, y, z) \<Rightarrow> (x * cos a - y * sin a, x * sin a + y * cos a, z))"

definition rotate_xyz :: "vec3 \<Rightarrow> vec3 \<Rightarrow> vec3" where
  "rotate_xyz rotation p = (case rotation of (rx, ry, rz) \<Rightarrow> rotate_x rx (rotate_y ry (rotate_z rz p)))"

definition vertex_depth :: "vec3 \<Rightarrow> vec3 \<Rightarrow> real" where
  "vertex_depth rotation pos = - (snd (snd (rotate_xyz rotation pos)) - 5)"

definition vertex_program :: "real \<Rightarrow> vec2 \<Rightarrow> vec3 \<Rightarrow> real \<Rightarrow> vec3 \<Rightarrow> (vec3 \<times> real \<times> real) option" where
  "vertex_program time mousePosition rotation psize position =
     map_option (\<lambda>pos. (pos, point_size psize time position (vertex_depth rotation pos), vertex_depth rotation pos))
       (vertex_position time mousePosition position)"

definition sq3 :: "vec3 \<Rightarrow> real" where
  "sq3 p = (case p of (x, y, z) \<Rightarrow> x\<^sup>2 + y\<^sup>2 + z\<^sup>2)"

text \<open>
  The projection of \<open>gl_Position\<close> (line 155): the \<open>PerspectiveCamera(75, aspect,
  0.1, 1000)\<close> of line 16, whose matrix THREE.js builds in \<open>updateProjectionMatrix\<close>
  from \<open>top = near * tan (fov / 2)\<close>, and the clip test of WebGL, which draws a
  point only when its clip coordinates lie within \<open>[-w, w]\<close>.
\<close>

definition camera_fov :: real where "camera_fov = 75"
definition camera_near :: real where "camera_near = 0.1"
definition camera_far :: real where "camera_far = 1000"

type_synonym vec4 = "real \<times> real \<times> real \<times> real"

definition mv_position :: "vec3 \<Rightarrow> vec3 \<Rightarrow> vec3" where
  "mv_position rotation pos = (case rotate_xyz rotation pos of (x, y, z) \<Rightarrow> (x, y, z - 5))"

definition projection :: "real \<Rightarrow> vec3 \<Rightarrow> vec4" where
  "projection aspect mv =
     (case mv of (x, y, z) \<Rightarrow>
        let top = camera_near * tan (pi / 180 * 0.5 * camera_fov);
            height = 2 * top;
            width = aspect * height
        in (2 * camera_near / width * x, 2 * camera_near / height * y,
            - (camera_far + camera_near) / (camera_far - camera_near) * z
              - 2 * camera_far * camera_near / (camera_far - camera_near),
            - z))"

definition vertex_clip :: "real \<Rightarrow> vec3 \<Rightarrow> vec3 \<Rightarrow> vec4" where
  "vertex_clip aspect rotation pos = projection aspect (mv_position rotation pos)"

definition in_clip :: "vec4 \<Rightarrow> bool" where
  "in_clip c = (case c of (x, y, z, w) \<Rightarrow> - w \<le> x \<and> x \<le> w \<and> - w \<le> y \<and> y \<le> w \<and> - w \<le> z \<and> z \<le> w)"

subsection \<open>Fragment program\<close>

text \<open>
  Lines 165--187 for a fragment at \<open>gl_PointCoord = pc\<close> of a point with colour
  \<open>vColor\<close>, opacity \<open>vOpacity\<close> and depth \<open>vDistance\<close>: the colour and alpha.
\<close>

definition fragment :: "vec2 \<Rightarrow> vec3 \<Rightarrow> real \<Rightarrow> real \<Rightarrow> real \<Rightarrow> vec3 \<times> real" where
  "fragment pc vColor vOpacity vDistance time =
     (let dist = glsl_length (fst pc - 0.5, snd pc - 0.5);
          alpha = 1 - glsl_smoothstep 0 0.5 dist;
          alpha = alpha * vOpacity;
          alpha = alpha * (0.9 + 0.1 * sin (time * 3 + vDistance * 0.1));
          core = 1 - glsl_smoothstep 0 0.2 dist;
          glow = 1 - glsl_smoothstep 0.3 0.8 dist;
          glow = glow * 0.5;
          shimmer = glow * sin (time * 2 + vDistance * 0.05);
          (r, g, b) = vColor;
          finalColor = (r * core + r * glow * 0.8 + 0.1 * shimmer,
                        g * core + g * glow * 0.8 + 0.1 * shimmer,
                        b * core + b * glow * 0.8 + 0.2 * shimmer)
      in (finalColor, alpha))"

subsection \<open>Properties\<close>

lemma glsl_smoothstep_range:
  assumes "e0 < e1"
  shows "0 \<le> glsl_smoothstep e0 e1 x \<and> glsl_smoothstep e0 e1 x \<le> 1"
proof -
  define t where "t = glsl_clamp ((x - e0) / (e1 - e0)) 0 1"
  have t: "0 \<le> t" "t \<le> 1" by (auto simp: t_def glsl_clamp_def)
  have "0 \<le> t * t * (3 - 2 * t)" using t by simp
  moreover have "1 - t * t * (3 - 2 * t) = (1 - t)\<^sup>2 * (1 + 2 * t)" by (simp add: power2_eq_square algebra_simps)
  then have "t * t * (3 - 2 * t) \<le> 1" using t by (metis diff_ge_0_iff_ge mult_nonneg_nonneg zero_le_power2 add_nonneg_nonneg zero_le_one mult_2 add_nonneg_nonneg)
  ultimately show ?thesis by (simp add: glsl_smoothstep_def t_def [symmetric] Let_def)
qed

lemma glsl_smoothstep_above:
  "e0 < e1 \<Longrightarrow> e1 \<le> x \<Longrightarrow> glsl_smoothstep e0 e1 x = 1"
  by (simp add: glsl_smoothstep_def glsl_clamp_def Let_def)

lemma fragment_alpha:
  "snd (fragment pc c op vd time) =
     (1 - glsl_smoothstep 0 0.5 (glsl_length (fst pc - 0.5, snd pc - 0.5))) * op *
     (0.9 + 0.1 * sin (time * 3 + vd * 0.1))"
  by (simp add: fragment_def Let_def split: prod.split)

text \<open>
  C22. For a vertex opacity in \<open>[0, 1]\<close> the fragment alpha lies in \<open>[0, 1]\<close>, and it is
  zero outside the disc of radius \<open>0.5\<close> around the point centre: each point is drawn
  as a round sprite that fades out at its rim.
\<close>

theorem fragment_alpha_bounds:
  assumes "0 \<le> op" "op \<le> 1"
  shows "0 \<le> snd (fragment pc c op vd time) \<and> snd (fragment pc c op vd time) \<le> 1 \<and>
    (0.5 \<le> glsl_length (fst pc - 0.5, snd pc - 0.5) \<longrightarrow> snd (fragment pc c op vd time) = 0)"
proof -
  define a where "a = 1 - glsl_smoothstep 0 0.5 (glsl_length (fst pc - 0.5, snd pc - 0.5))"
  define f where "f = 0.9 + 0.1 * sin (time * 3 + vd * 0.1)"
  have a: "0 \<le> a" "a \<le> 1" using glsl_smoothstep_range [of 0 "0.5::real"] by (auto simp: a_def)
  have f: "0 \<le> f" "f \<le> 1"
    using sin_le_one [of "time * 3 + vd * 0.1"] sin_ge_minus_one [of "time * 3 + vd * 0.1"]
    unfolding f_def by linarith+
  have e: "snd (fragment pc c op vd time) = a * op * f" by (simp add: fragment_alpha a_def f_def)
  have "a * op * f \<le> 1" using a f assms by (simp add: mult_le_one)
  moreover have "0 \<le> a * op * f" using a f assms by simp
  moreover have "0.5 \<le> glsl_length (fst pc - 0.5, snd pc - 0.5) \<Longrightarrow> a = 0"
    by (simp add: a_def glsl_smoothstep_above)
  ultimately show ?thesis using e by simp
qed

lemma glsl_length_scale: "0 \<le> k \<Longrightarrow> glsl_length (k * a, k * b) = k * glsl_length (a, b)"
proof -
  assume k: "0 \<le> k"
  have "(k * a)\<^sup>2 + (k * b)\<^sup>2 = k\<^sup>2 * (a\<^sup>2 + b\<^sup>2)" by (simp add: power_mult_distrib algebra_simps)
  then show ?thesis using k by (simp add: glsl_length_def real_sqrt_mult)
qed

lemma glsl_length_zero_iff: "glsl_length (a, b) = 0 \<longleftrightarrow> a = 0 \<and> b = 0"
  by (simp add: glsl_length_def)

lemma glsl_length_nonneg: "0 \<le> glsl_length v"
  by (simp add: glsl_length_def split: prod.split)

lemma abs_le_glsl_length: "\<bar>a\<bar> \<le> glsl_length (a, b)" "\<bar>b\<bar> \<le> glsl_length (a, b)"
  using real_sqrt_le_mono [of "a\<^sup>2" "a\<^sup>2 + b\<^sup>2"] real_sqrt_le_mono [of "b\<^sup>2" "a\<^sup>2 + b\<^sup>2"]
  by (simp_all add: glsl_length_def)

lemma mouse_repel_inside:
  assumes "0 < glsl_length (x - mx * 15, y - my * 15)" "glsl_length (x - mx * 15, y - my * 15) < 8"
  shows "mouse_repel (mx, my) (x, y, z) =
    (let d = glsl_length (x - mx * 15, y - my * 15)
     in Some (x + (x - mx * 15) / d * 3 * (1 - d / 8), y + (y - my * 15) / d * 3 * (1 - d / 8), z))"
  using assms by (simp add: mouse_repel_def glsl_normalize_def Let_def)

lemma mouse_repel_outside:
  "8 \<le> glsl_length (x - mx * 15, y - my * 15) \<Longrightarrow> mouse_repel (mx, my) (x, y, z) = Some (x, y, z)"
  by (simp add: mouse_repel_def Let_def)

text \<open>
  C20. A vertex at distance \<open>d\<close> with \<open>0 < d < 8\<close> from the scaled pointer
  \<open>mousePosition * 15\<close> is pushed straight away from it, to distance
  \<open>3 + 5/8 * d\<close>, its depth unchanged: the repulsion radius is \<open>8\<close> and the push is
  \<open>3\<close> at the pointer, fading linearly to \<open>0\<close> at the radius.
\<close>

theorem mouse_repel_pushes_away:
  assumes "0 < glsl_length (x - mx * 15, y - my * 15)" "glsl_length (x - mx * 15, y - my * 15) < 8"
  shows "\<exists>x' y'. mouse_repel (mx, my) (x, y, z) = Some (x', y', z) \<and>
           glsl_length (x' - mx * 15, y' - my * 15) = 3 + 5 / 8 * glsl_length (x - mx * 15, y - my * 15)"
proof -
  define d where "d = glsl_length (x - mx * 15, y - my * 15)"
  define k where "k = 1 + 3 * (1 - d / 8) / d"
  have d: "0 < d" "d < 8" using assms by (simp_all add: d_def)
  have k: "0 \<le> k" using d by (simp add: k_def)
  have ex: "x + (x - mx * 15) / d * 3 * (1 - d / 8) - mx * 15 = k * (x - mx * 15)"
    and ey: "y + (y - my * 15) / d * 3 * (1 - d / 8) - my * 15 = k * (y - my * 15)"
    using d by (simp_all add: k_def field_simps)
  have "glsl_length (k * (x - mx * 15), k * (y - my * 15)) = k * d"
    using glsl_length_scale [OF k] by (simp add: d_def)
  also have "k * d = 3 + 5 / 8 * d" using d by (simp add: k_def field_simps)
  finally show ?thesis
    using mouse_repel_inside [OF assms, of z] ex ey by (simp add: d_def [symmetric] Let_def)
qed

lemma mouse_repel_pushes_away_witness:
  "0 < glsl_length (1 - 0 * 15, 0 - 0 * 15) \<and> glsl_length (1 - 0 * 15, 0 - 0 * 15) < (8::real) \<and>
   (\<exists>x' y'. mouse_repel (0, 0) (1, 0, 0) = Some (x', y', 0) \<and>
      glsl_length (x' - 0 * 15, y' - 0 * 15) = 3 + 5 / 8 * glsl_length (1 - 0 * 15, 0 - 0 * 15))"
proof -
  have h: "0 < glsl_length (1 - 0 * 15, 0 - 0 * 15)" "glsl_length (1 - 0 * 15, 0 - 0 * 15) < (8::real)"
    by (simp_all add: glsl_length_def)
  show ?thesis using h mouse_repel_pushes_away [OF h, of 0] by blast
qed

text \<open>
  The one case where the repulsion is undefined: \<open>normalize\<close> is applied to the zero
  vector exactly when the displaced vertex lies on the scaled pointer position.
\<close>

theorem mouse_repel_undefined:
  "mouse_repel (mx, my) (x, y, z) = None \<longleftrightarrow> x = mx * 15 \<and> y = my * 15"
  by (auto simp: mouse_repel_def glsl_normalize_def Let_def glsl_length_zero_iff glsl_length_def
      split: option.splits if_splits)

lemma repel_shift_bound:
  fixes a d :: real
  assumes "0 < d" "d < 8" "\<bar>a\<bar> \<le> d"
  shows "\<bar>a / d * 3 * (1 - d / 8)\<bar> \<le> 3"
proof -
  have q: "\<bar>a / d\<bar> \<le> 1" using assms by (simp only: abs_divide abs_of_pos divide_le_eq_1_pos)
  have f: "0 \<le> 1 - d / 8" "1 - d / 8 \<le> 1" using assms by simp_all
  have "\<bar>a / d\<bar> * (3 * (1 - d / 8)) \<le> 1 * (3 * 1)"
    using q f by (intro mult_mono) simp_all
  moreover have "\<bar>a / d * 3 * (1 - d / 8)\<bar> = \<bar>a / d\<bar> * (3 * (1 - d / 8))"
    using f by (simp only: abs_mult abs_of_nonneg abs_numeral mult.assoc)
  ultimately show ?thesis by (metis mult_1_left mult_1_right)
qed

lemma mouse_repel_moves:
  assumes "mouse_repel m s = Some q"
  shows "\<bar>fst q - fst s\<bar> \<le> 3 \<and> \<bar>fst (snd q) - fst (snd s)\<bar> \<le> 3 \<and> snd (snd q) = snd (snd s)"
proof -
  obtain mx my where m: "m = (mx, my)" by (cases m)
  obtain x y z where sp: "s = (x, y, z)" by (cases s)
  define d where "d = glsl_length (x - mx * 15, y - my * 15)"
  show ?thesis
  proof (cases "d < 8")
    case False
    with assms show ?thesis by (simp add: m sp d_def mouse_repel_outside)
  next
    case True
    have "d \<noteq> 0"
      using assms True by (auto simp: m sp d_def mouse_repel_def glsl_normalize_def Let_def)
    then have d0: "0 < d" using glsl_length_nonneg [of "(x - mx * 15, y - my * 15)"] by (simp add: d_def)
    have q: "q = (x + (x - mx * 15) / d * 3 * (1 - d / 8), y + (y - my * 15) / d * 3 * (1 - d / 8), z)"
      using assms mouse_repel_inside [of x mx y my z] d0 True by (simp add: m sp d_def Let_def)
    have ax: "\<bar>x - mx * 15\<bar> \<le> d" "\<bar>y - my * 15\<bar> \<le> d"
      unfolding d_def by (rule abs_le_glsl_length)+
    have "\<bar>(x - mx * 15) / d * 3 * (1 - d / 8)\<bar> \<le> 3" "\<bar>(y - my * 15) / d * 3 * (1 - d / 8)\<bar> \<le> 3"
      by (rule repel_shift_bound [OF d0 True ax(1)], rule repel_shift_bound [OF d0 True ax(2)])
    then show ?thesis by (simp add: q sp)
  qed
qed

lemma wave_offset_moves:
  "\<bar>fst (wave_offset t p) - fst p\<bar> \<le> 0.8 \<and> \<bar>fst (snd (wave_offset t p)) - fst (snd p)\<bar> \<le> 0.8 \<and>
   \<bar>snd (snd (wave_offset t p)) - snd (snd p)\<bar> \<le> 0.8"
proof -
  obtain x y z where p: "p = (x, y, z)" by (cases p)
  have "\<bar>sin (t * 0.5 + y * 0.1) * 0.8\<bar> \<le> (0.8::real)" "\<bar>cos (t * 0.3 + x * 0.1) * 0.8\<bar> \<le> (0.8::real)"
    "\<bar>sin (t * 0.7 + x * 0.1) * 0.8\<bar> \<le> (0.8::real)"
    by (rule abs_trig_scaled, simp)+
  then show ?thesis by (simp only: p wave_offset_def prod.case fst_conv snd_conv add_diff_cancel_left')
qed

lemma spiral_offset_moves:
  "\<bar>fst (spiral_offset t p) - fst p\<bar> \<le> 0.3 \<and> \<bar>fst (snd (spiral_offset t p)) - fst (snd p)\<bar> \<le> 0.3 \<and>
   snd (snd (spiral_offset t p)) = snd (snd p)"
proof -
  obtain x y z where p: "p = (x, y, z)" by (cases p)
  define a where "a = t * 0.2 + glsl_length (x, y) * 0.1"
  have "\<bar>cos a * 0.3\<bar> \<le> (0.3::real)" "\<bar>sin a * 0.3\<bar> \<le> (0.3::real)"
    by (rule abs_trig_scaled, simp)+
  then show ?thesis
    by (simp only: p spiral_offset_def prod.case Let_def a_def [symmetric] fst_conv snd_conv
        add_diff_cancel_left' simp_thms)
qed

text \<open>
  C19. The vertex program moves a particle by at most \<open>0.8 + 0.3 + 3 = 4.1\<close> in
  \<open>x\<close> and \<open>y\<close> and at most \<open>0.8\<close> in \<open>z\<close> from its buffer position (wave,
  spiral and pointer repulsion together), whenever the displacement is defined.
\<close>

theorem vertex_displacement_bounded:
  assumes "vertex_position t m p = Some q"
  shows "\<bar>fst q - fst p\<bar> \<le> 4.1 \<and> \<bar>fst (snd q) - fst (snd p)\<bar> \<le> 4.1 \<and>
         \<bar>snd (snd q) - snd (snd p)\<bar> \<le> 0.8"
proof -
  define w where "w = wave_offset t p"
  define s where "s = spiral_offset t w"
  have r: "mouse_repel m s = Some q" using assms by (simp add: vertex_position_def s_def w_def)
  note a = mouse_repel_moves [OF r] and b = spiral_offset_moves [of t w, folded s_def]
    and c = wave_offset_moves [of t p, folded w_def]
  have "\<bar>fst q - fst p\<bar> \<le> 3 + (0.3 + 0.8)"
    using a b c by (blast intro: abs_diff_chain)
  moreover have "\<bar>fst (snd q) - fst (snd p)\<bar> \<le> 3 + (0.3 + 0.8)"
    using a b c by (blast intro: abs_diff_chain)
  moreover have "\<bar>snd (snd q) - snd (snd p)\<bar> \<le> 0.8"
    using a b c by simp
  ultimately show ?thesis by simp
qed

text \<open>
  For a positive \<open>size\<close> attribute and a vertex in front of the camera
  (positive view depth) the point size lies between \<open>0.56\<close> and \<open>1.56\<close> times the
  perspective size \<open>size * 300 / depth\<close>: the two pulsations never make it vanish.
\<close>

theorem point_size_bounds:
  assumes "0 < psize" "0 < depth"
  shows "0.56 * (psize * (300 / depth)) \<le> point_size psize time position depth \<and>
         point_size psize time position depth \<le> 1.56 * (psize * (300 / depth))"
proof -
  obtain x y z where p: "position = (x, y, z)" by (cases position)
  define B where "B = psize * (300 / depth)"
  define f where "f = 1 + sin (time * 2.0 + x * 0.1) * 0.3"
  define g where "g = 1 + sin (time * 1.5 + y * 0.1) * 0.2"
  have B: "0 < B" using assms by (simp add: B_def)
  have f: "0.7 \<le> f" "f \<le> 1.3" using sin_scaled_bounds [of "0.3"] unfolding f_def by simp_all
  have g: "0.8 \<le> g" "g \<le> 1.2" using sin_scaled_bounds [of "0.2"] unfolding g_def by simp_all
  have e: "point_size psize time position depth = B * f * g"
    by (simp add: point_size_def p B_def f_def g_def Let_def)
  have "B * 0.7 * 0.8 \<le> B * f * g" using B f g by (intro mult_mono) simp_all
  moreover have "B * f * g \<le> B * 1.3 * 1.2" using B f g by (intro mult_mono) simp_all
  ultimately show ?thesis unfolding e B_def [symmetric] by simp
qed

lemma point_size_bounds_witness:
  "0 < (2::real) \<and> 0 < (5::real) \<and>
   0.56 * (2 * (300 / 5)) \<le> point_size 2 0 (0, 0, 0) 5 \<and> point_size 2 0 (0, 0, 0) 5 \<le> 1.56 * (2 * (300 / 5))"
  using point_size_bounds [of 2 5 0 "(0, 0, 0)"] by simp

lemma fragment_alpha_bounds_witness:
  "0 \<le> (0.5::real) \<and> (0.5::real) \<le> 1 \<and>
   0 \<le> snd (fragment (1.5, 0.5) (1, 1, 1) 0.5 0 0) \<and> snd (fragment (1.5, 0.5) (1, 1, 1) 0.5 0 0) \<le> 1 \<and>
   snd (fragment (1.5, 0.5) (1, 1, 1) 0.5 0 0) = 0"
proof -
  have l: "0.5 \<le> glsl_length (fst (1.5::real, 0.5::real) - 0.5, snd (1.5::real, 0.5::real) - 0.5)"
    by (simp add: glsl_length_def)
  show ?thesis using fragment_alpha_bounds [of "0.5" "(1.5, 0.5)" "(1, 1, 1)" 0 0] l by simp
qed

lemma origin_displaced_bounds:
  "\<bar>fst (spiral_offset 0 (wave_offset 0 (0, 0, 0)))\<bar> \<le> 1.1 \<and>
   \<bar>fst (snd (spiral_offset 0 (wave_offset 0 (0, 0, 0))))\<bar> \<le> 1.1 \<and>
   \<bar>snd (snd (spiral_offset 0 (wave_offset 0 (0::real, 0::real, 0::real))))\<bar> \<le> 0.8"
proof -
  define w where "w = wave_offset 0 (0::real, 0::real, 0::real)"
  note a = spiral_offset_moves [of 0 w] and b = wave_offset_moves [of 0 "(0, 0, 0)", folded w_def]
  have "\<bar>fst (spiral_offset 0 w) - 0\<bar> \<le> 0.3 + 0.8"
    using abs_diff_chain [of "fst (spiral_offset 0 w)" "fst w" "0.3" 0 "0.8"] a b by simp
  moreover have "\<bar>fst (snd (spiral_offset 0 w)) - 0\<bar> \<le> 0.3 + 0.8"
    using abs_diff_chain [of "fst (snd (spiral_offset 0 w))" "fst (snd w)" "0.3" 0 "0.8"] a b by simp
  moreover have "\<bar>snd (snd (spiral_offset 0 w))\<bar> \<le> 0.8" using a b by simp
  ultimately show ?thesis by (simp add: w_def)
qed

lemma vertex_position_origin:
  "vertex_position 0 (200, 0) (0, 0, 0) = Some (spiral_offset 0 (wave_offset 0 (0, 0, 0)))"
proof -
  obtain x y z where s: "spiral_offset 0 (wave_offset 0 (0, 0, 0)) = (x, y, z)"
    by (cases "spiral_offset 0 (wave_offset 0 (0::real, 0::real, 0::real))")
  have "x \<le> 1.1" using origin_displaced_bounds s by auto
  moreover have "\<bar>x - 200 * 15\<bar> \<le> glsl_length (x - 200 * 15, y - 0 * 15)"
    by (rule abs_le_glsl_length)
  ultimately have "\<not> glsl_length (x - 200 * 15, y - 0 * 15) < 8" by linarith
  then show ?thesis by (simp add: vertex_position_def s mouse_repel_def Let_def)
qed

lemma vertex_displacement_bounded_witness:
  "vertex_position 0 (200, 0) (0, 0, 0) = Some (spiral_offset 0 (wave_offset 0 (0, 0, 0))) \<and>
   \<bar>fst (spiral_offset 0 (wave_offset 0 (0, 0, 0))) - fst (0::real, 0::real, 0::real)\<bar> \<le> 4.1 \<and>
   \<bar>fst (snd (spiral_offset 0 (wave_offset 0 (0, 0, 0)))) - fst (snd (0::real, 0::real, 0::real))\<bar> \<le> 4.1 \<and>
   \<bar>snd (snd (spiral_offset 0 (wave_offset 0 (0, 0, 0)))) - snd (snd (0::real, 0::real, 0::real))\<bar> \<le> 0.8"
  using vertex_displacement_bounded [OF vertex_position_origin] vertex_position_origin by simp

lemma rot2_sq: "(u * cos a - v * sin a)\<^sup>2 + (u * sin a + v * cos a)\<^sup>2 = u\<^sup>2 + (v::real)\<^sup>2"
proof -
  have "(u * cos a - v * sin a)\<^sup>2 + (u * sin a + v * cos a)\<^sup>2 =
        u\<^sup>2 * ((sin a)\<^sup>2 + (cos a)\<^sup>2) + v\<^sup>2 * ((sin a)\<^sup>2 + (cos a)\<^sup>2)"
    by algebra
  then show ?thesis by (simp only: sin_cos_squared_add mult_1_right)
qed

lemma sq3_rotate:
  "sq3 (rotate_x a p) = sq3 p" "sq3 (rotate_y a p) = sq3 p" "sq3 (rotate_z a p) = sq3 p"
proof -
  obtain x y z where p: "p = (x, y, z)" by (cases p)
  have "(z * cos a - x * sin a)\<^sup>2 + (x * cos a + z * sin a)\<^sup>2 = z\<^sup>2 + x\<^sup>2"
    using rot2_sq [of z a x] by (simp add: algebra_simps)
  then show "sq3 (rotate_x a p) = sq3 p" "sq3 (rotate_y a p) = sq3 p" "sq3 (rotate_z a p) = sq3 p"
    using rot2_sq [of y a z] rot2_sq [of x a y] by (simp_all add: sq3_def p rotate_x_def rotate_y_def rotate_z_def algebra_simps)
qed

lemma sq3_rotate_xyz: "sq3 (rotate_xyz r p) = sq3 p"
  by (cases r) (simp add: rotate_xyz_def sq3_rotate)

lemma abs_z_sq3: "\<bar>snd (snd p)\<bar> \<le> sqrt (sq3 p)"
proof -
  obtain x y z where p: "p = (x, y, z)" by (cases p)
  have "sqrt (z\<^sup>2) \<le> sqrt (x\<^sup>2 + y\<^sup>2 + z\<^sup>2)" by (intro real_sqrt_le_mono) simp
  then show ?thesis by (simp add: p sq3_def)
qed

lemma vertex_depth_bounds: "\<bar>vertex_depth r pos - 5\<bar> \<le> sqrt (sq3 pos)"
  using abs_z_sq3 [of "rotate_xyz r pos"] by (simp add: vertex_depth_def sq3_rotate_xyz)

lemma vertex_depth_behind: "vertex_depth (0, 0, 0) (0, 0, 10) = -5"
  by (simp add: vertex_depth_def rotate_xyz_def rotate_x_def rotate_y_def rotate_z_def)

text \<open>
  C23. For a positive \<open>size\<close> attribute and a displaced vertex within distance \<open>5\<close> of
  the origin, the vertex lies in front of the camera (positive depth, whatever the
  rotation of the particle system) and its point size lies between \<open>0.56\<close> and
  \<open>1.56\<close> times the perspective size \<open>size * 300 / depth\<close>.
\<close>

theorem vertex_program_near:
  assumes "vertex_program time m r psize position = Some (pos, ps, depth)"
    and "sqrt (sq3 pos) < 5" "0 < psize"
  shows "0 < depth \<and> 0.56 * (psize * (300 / depth)) \<le> ps \<and> ps \<le> 1.56 * (psize * (300 / depth))"
proof -
  have e: "depth = vertex_depth r pos" "ps = point_size psize time position depth"
    using assms(1) by (auto simp: vertex_program_def)
  have d: "0 < depth" using vertex_depth_bounds [of r pos] assms(2) e(1) by linarith
  show ?thesis using point_size_bounds [OF assms(3) d] d e(2) by simp
qed

lemma sq3_origin_displaced: "sqrt (sq3 (spiral_offset 0 (wave_offset 0 (0::real, 0::real, 0::real)))) < 5"
proof -
  obtain x y z where s: "spiral_offset 0 (wave_offset 0 (0::real, 0::real, 0::real)) = (x, y, z)"
    by (cases "spiral_offset 0 (wave_offset 0 (0::real, 0::real, 0::real))")
  have b: "\<bar>x\<bar> \<le> 1.1" "\<bar>y\<bar> \<le> 1.1" "\<bar>z\<bar> \<le> 0.8" using origin_displaced_bounds s by auto
  have "x\<^sup>2 \<le> 1.1\<^sup>2" "y\<^sup>2 \<le> 1.1\<^sup>2" "z\<^sup>2 \<le> 0.8\<^sup>2"
    using b by (simp_all only: abs_le_square_iff [symmetric] abs_numeral abs_divide)
  then have "x\<^sup>2 + y\<^sup>2 + z\<^sup>2 < 5\<^sup>2" by (simp add: power_divide)
  then have "sqrt (x\<^sup>2 + y\<^sup>2 + z\<^sup>2) < sqrt (5\<^sup>2)" by (rule real_sqrt_less_mono)
  then show ?thesis by (simp add: s sq3_def)
qed

lemma vertex_program_near_witness:
  "vertex_program 0 (200, 0) (0, 0, 0) 2 (0, 0, 0) =
     Some (spiral_offset 0 (wave_offset 0 (0, 0, 0)),
           point_size 2 0 (0, 0, 0) (vertex_depth (0, 0, 0) (spiral_offset 0 (wave_offset 0 (0, 0, 0)))),
           vertex_depth (0, 0, 0) (spiral_offset 0 (wave_offset 0 (0, 0, 0)))) \<and>
   sqrt (sq3 (spiral_offset 0 (wave_offset 0 (0::real, 0::real, 0::real)))) < 5 \<and> (0::real) < 2 \<and>
   0 < vertex_depth (0, 0, 0) (spiral_offset 0 (wave_offset 0 (0, 0, 0)))"
proof -
  have v: "vertex_program 0 (200, 0) (0, 0, 0) 2 (0, 0, 0) =
     Some (spiral_offset 0 (wave_offset 0 (0, 0, 0)),
           point_size 2 0 (0, 0, 0) (vertex_depth (0, 0, 0) (spiral_offset 0 (wave_offset 0 (0, 0, 0)))),
           vertex_depth (0, 0, 0) (spiral_offset 0 (wave_offset 0 (0, 0, 0))))"
    by (simp add: vertex_program_def vertex_position_origin)
  show ?thesis using vertex_program_near [OF v sq3_origin_displaced] v sq3_origin_displaced by simp
qed

lemma vertex_depth_mv: "vertex_depth r pos = - snd (snd (mv_position r pos))"
  by (simp add: vertex_depth_def mv_position_def split: prod.split)

lemma clip_depth:
  assumes "in_clip (projection aspect (x, y, z))"
  shows "camera_near \<le> - z \<and> - z \<le> camera_far"
proof -
  define d where "d = - z"
  have c: "- d \<le> (1000 + 0.1) / (1000 - 0.1) * d - 2 * 1000 * 0.1 / (1000 - 0.1)"
          "(1000 + 0.1) / (1000 - 0.1) * d - 2 * 1000 * 0.1 / (1000 - 0.1) \<le> d"
    using assms by (simp_all add: in_clip_def projection_def Let_def camera_near_def camera_far_def d_def)
  from c(1) have "0.1 \<le> d" by (simp add: field_simps)
  moreover from c(2) have "d \<le> 1000" by (simp add: field_simps)
  ultimately show ?thesis by (simp add: camera_near_def camera_far_def d_def)
qed

text \<open>
  C24. A vertex that survives clipping lies between the near and far planes of the camera
  (\<open>0.1 \<le> depth \<le> 1000\<close>), so its point size is positive and within
  \<open>[0.56, 1.56]\<close> times \<open>size * 300 / depth\<close>: the negative sizes of vertices behind
  the camera are never drawn.
\<close>

theorem vertex_visible:
  assumes "vertex_program time m r psize position = Some (pos, ps, depth)"
    and "in_clip (vertex_clip aspect r pos)" "0 < psize"
  shows "camera_near \<le> depth \<and> depth \<le> camera_far \<and>
         0.56 * (psize * (300 / depth)) \<le> ps \<and> ps \<le> 1.56 * (psize * (300 / depth))"
proof -
  obtain x y z where mv: "mv_position r pos = (x, y, z)" by (cases "mv_position r pos")
  have e: "depth = - z" "ps = point_size psize time position depth"
    using assms(1) mv by (auto simp: vertex_program_def vertex_depth_mv)
  have d: "camera_near \<le> depth" "depth \<le> camera_far"
    using clip_depth [of aspect x y z] assms(2) mv e(1) by (simp_all add: vertex_clip_def)
  then have "0 < depth" by (simp add: camera_near_def)
  then show ?thesis using point_size_bounds [OF assms(3)] d e(2) by simp
qed

lemma tan_fov_bound: "1 / 2 < tan (pi / 180 * 0.5 * camera_fov)"
proof -
  have "tan (pi / 6) < tan (pi / 180 * 0.5 * camera_fov)"
    by (rule tan_monotone) (simp_all add: camera_fov_def field_simps)
  moreover have "1 / 2 < tan (pi / 6)"
  proof -
    have "sqrt 3 < 2" by (simp add: real_sqrt_less_iff [of 3 4, simplified] real_less_lsqrt)
    then show ?thesis by (simp add: tan_30 field_simps)
  qed
  ultimately show ?thesis by linarith
qed

lemma projection_eq:
  "projection aspect (x, y, z) =
     (x / (aspect * tan (pi / 180 * 0.5 * camera_fov)), y / tan (pi / 180 * 0.5 * camera_fov),
      - (camera_far + camera_near) / (camera_far - camera_near) * z
        - 2 * camera_far * camera_near / (camera_far - camera_near), - z)"
  by (simp add: projection_def Let_def camera_near_def field_simps)

lemma scaled_le:
  fixes x T w :: real
  assumes "1 / 2 < T" "0 < a" "\<bar>x\<bar> * 2 \<le> w * a"
  shows "- w \<le> x / (a * T) \<and> x / (a * T) \<le> w"
proof -
  have aT: "0 < a * T" using assms(1,2) by simp
  have wa: "0 \<le> w * a" using assms(3) by linarith
  have "w * a * (1 / 2) \<le> w * a * T" using wa assms(1) by (intro mult_left_mono) simp_all
  then have "\<bar>x\<bar> \<le> w * (a * T)" using assms(3) by (simp only: mult.assoc)
  then have "\<bar>x\<bar> / (a * T) \<le> w" using aT by (simp only: pos_divide_le_eq)
  moreover have "\<bar>x / (a * T)\<bar> = \<bar>x\<bar> / (a * T)" using aT by (simp only: abs_divide abs_of_pos)
  ultimately have h: "\<bar>x / (a * T)\<bar> \<le> w" by (simp only:)
  show ?thesis using abs_le_D1 [OF h] abs_le_D2 [OF h] by linarith
qed

lemma in_clip_intro:
  assumes "camera_near \<le> w" "w \<le> camera_far" "0 < aspect"
    and "\<bar>x\<bar> * 2 \<le> w * aspect" "\<bar>y\<bar> * 2 \<le> w"
  shows "in_clip (projection aspect (x, y, - w))"
proof -
  define T where "T = tan (pi / 180 * 0.5 * camera_fov)"
  have T: "1 / 2 < T" using tan_fov_bound by (simp add: T_def)
  have "- w \<le> x / (aspect * T) \<and> x / (aspect * T) \<le> w" using scaled_le [OF T assms(3,4)] .
  moreover have "- w \<le> y / (1 * T) \<and> y / (1 * T) \<le> w" using assms(5) by (intro scaled_le [OF T]) simp_all
  moreover have "- w \<le> (1000 + 0.1) / (1000 - 0.1) * w - 2 * 1000 * 0.1 / (1000 - 0.1)"
    "(1000 + 0.1) / (1000 - 0.1) * w - 2 * 1000 * 0.1 / (1000 - 0.1) \<le> w"
    using assms(1,2) by (simp_all add: camera_near_def camera_far_def field_simps)
  ultimately show ?thesis
    unfolding in_clip_def projection_eq T_def [symmetric] by (simp add: camera_near_def camera_far_def)
qed

lemma rotate_xyz_zero: "rotate_xyz (0, 0, 0) p = p"
  by (cases p) (simp add: rotate_xyz_def rotate_x_def rotate_y_def rotate_z_def)

lemma vertex_visible_witness:
  "vertex_program 0 (200, 0) (0, 0, 0) 2 (0, 0, 0) =
     Some (spiral_offset 0 (wave_offset 0 (0, 0, 0)),
           point_size 2 0 (0, 0, 0) (vertex_depth (0, 0, 0) (spiral_offset 0 (wave_offset 0 (0, 0, 0)))),
           vertex_depth (0, 0, 0) (spiral_offset 0 (wave_offset 0 (0, 0, 0)))) \<and>
   in_clip (vertex_clip 1 (0, 0, 0) (spiral_offset 0 (wave_offset 0 (0, 0, 0)))) \<and>
   (0::real) < 2 \<and>
   camera_near \<le> vertex_depth (0, 0, 0) (spiral_offset 0 (wave_offset 0 (0, 0, 0)))"
proof -
  have v: "vertex_program 0 (200, 0) (0, 0, 0) 2 (0, 0, 0) =
     Some (spiral_offset 0 (wave_offset 0 (0, 0, 0)),
           point_size 2 0 (0, 0, 0) (vertex_depth (0, 0, 0) (spiral_offset 0 (wave_offset 0 (0, 0, 0)))),
           vertex_depth (0, 0, 0) (spiral_offset 0 (wave_offset 0 (0, 0, 0))))"
    by (simp add: vertex_program_def vertex_position_origin)
  obtain x y z where q: "spiral_offset 0 (wave_offset 0 (0, 0, 0)) = (x, y, z)"
    by (cases "spiral_offset 0 (wave_offset 0 (0::real, 0::real, 0::real))")
  have b: "\<bar>x\<bar> \<le> 1.1" "\<bar>y\<bar> \<le> 1.1" "\<bar>z\<bar> \<le> 0.8" using origin_displaced_bounds q by auto
  have "in_clip (projection 1 (x, y, - (5 - z)))"
    using b by (intro in_clip_intro) (simp_all add: camera_near_def camera_far_def abs_le_iff)
  then have c: "in_clip (vertex_clip 1 (0, 0, 0) (spiral_offset 0 (wave_offset 0 (0, 0, 0))))"
    by (simp add: vertex_clip_def mv_position_def rotate_xyz_zero q)
  show ?thesis using vertex_visible [OF v c] v c by simp
qed

end
