(* ===== verification/Counter.thy ===== *)
theory Counter
  imports Prelude
begin

text \<open>
  The counter animation of the hero statistics, \<open>initCounterAnimation\<close>
  (\<open>src/script.js\<close>, lines 465--493). When a \<open>.stat-number\<close> element becomes half
  visible, the observer callback parses its text with \<open>parseInt\<close>, runs
  \<open>updateCounter\<close> at once and then once per animation frame, raising
  \<open>currentValue\<close> by \<open>finalValue / (2000 / 16)\<close> and writing its floor until it
  reaches \<open>finalValue\<close>, and stops observing the element.

  \<open>parseInt\<close> (radix 10) and the conversion of an integer to its decimal text follow
  the ECMAScript specification; \<open>None\<close> is \<open>NaN\<close>. \<open>updateCounter\<close> is the
  self-rescheduling closure as a \<open>partial_function (option)\<close> returning the values it
  writes, one per frame. \<open>counter_el\<close> is the element with its text, the animations
  scheduled for the next frame (\<open>(finalValue, currentValue)\<close> of each running closure,
  in \<open>requestAnimationFrame\<close> order) and whether it is still observed;
  \<open>counter_start\<close>, \<open>counter_frame\<close>, \<open>counter_callback\<close> and
  \<open>counter_deliver\<close> are the observer callback, one frame, one batch of entries for
  the element, and the delivery of a batch.
\<close>

subsection \<open>Number parsing and printing\<close>

definition is_digit :: "char \<Rightarrow> bool" where
  "is_digit c \<longleftrightarrow> 48 \<le> (of_char c :: nat) \<and> (of_char c :: nat) \<le> 57"

definition digit_val :: "char \<Rightarrow> int" where
  "digit_val c = int (of_char c) - 48"

definition digit_char :: "nat \<Rightarrow> char" where
  "digit_char d = char_of (48 + d)"

definition is_space :: "char \<Rightarrow> bool" where
  "is_space c \<longleftrightarrow> (of_char c :: nat) \<in> {0x09, 0x0A, 0x0B, 0x0C, 0x0D, 0x20}"

definition digits_val :: "string \<Rightarrow> int" where
  "digits_val ds = foldl (\<lambda>n c. 10 * n + digit_val c) 0 ds"

definition parseInt :: "string \<Rightarrow> int option" where
  "parseInt s =
     (let s = dropWhile is_space s;
          (sign, s) = (case s of c # r \<Rightarrow> if c = CHR ''-'' then (-1, r) else if c = CHR ''+'' then (1, r) else (1, s)
                               | [] \<Rightarrow> (1, s));
          ds = takeWhile is_digit s
      in if ds = [] then None else Some (sign * digits_val ds))"

fun nat_digits :: "nat \<Rightarrow> string" where
  "nat_digits n = (if n < 10 then [digit_char n] else nat_digits (n div 10) @ [digit_char (n mod 10)])"

definition int_to_string :: "int \<Rightarrow> string" where
  "int_to_string i = (if i < 0 then CHR ''-'' # nat_digits (nat (- i)) else nat_digits (nat i))"

declare nat_digits.simps [simp del]

subsection \<open>The counter loop\<close>

text \<open>\<open>updateCounter\<close>, lines 474--484, from the \<open>currentValue\<close> before the call.\<close>

partial_function (option) updateCounter :: "int \<Rightarrow> real \<Rightarrow> int list option" where
  "updateCounter finalValue currentValue =
     (let currentValue = currentValue + of_int finalValue / (2000 / 16)
      in if currentValue < of_int finalValue
         then Option.bind (updateCounter finalValue currentValue) (\<lambda>shown. Some (\<lfloor>currentValue\<rfloor> # shown))
         else Some [finalValue])"

text \<open>The texts one element shows: lines 470--486 for an element observed once.\<close>

definition counterAnimation :: "string \<Rightarrow> string list option" where
  "counterAnimation text =
     (case parseInt text of
        None \<Rightarrow> Some [''NaN'']
      | Some finalValue \<Rightarrow> map_option (map int_to_string) (updateCounter finalValue 0))"

subsection \<open>Frames and observer entries\<close>

definition opt_list :: "'a option \<Rightarrow> 'a list" where
  "opt_list x = (case x of None \<Rightarrow> [] | Some a \<Rightarrow> [a])"

record counter_el =
  textContent :: string
  anims :: "(int \<times> real) list"
  observed :: bool

definition counter_tick :: "int \<times> real \<Rightarrow> string \<times> (int \<times> real) option" where
  "counter_tick a =
     (case a of (finalValue, currentValue) \<Rightarrow>
        let currentValue = currentValue + of_int finalValue / (2000 / 16)
        in if currentValue < of_int finalValue
           then (int_to_string \<lfloor>currentValue\<rfloor>, Some (finalValue, currentValue))
           else (int_to_string finalValue, None))"

definition counter_start :: "counter_el \<Rightarrow> counter_el" where
  "counter_start el =
     (case parseInt (textContent el) of
        None \<Rightarrow> el\<lparr>textContent := ''NaN''\<rparr>
      | Some finalValue \<Rightarrow>
          (case counter_tick (finalValue, 0) of (t, a) \<Rightarrow>
             el\<lparr>textContent := t, anims := anims el @ opt_list a\<rparr>))"

definition counter_frame_step ::
    "string \<times> (int \<times> real) list \<Rightarrow> int \<times> real \<Rightarrow> string \<times> (int \<times> real) list" where
  "counter_frame_step acc a =
     (case acc of (t, as) \<Rightarrow> case counter_tick a of (t', a') \<Rightarrow> (t', as @ opt_list a'))"

definition counter_frame :: "counter_el \<Rightarrow> counter_el" where
  "counter_frame el =
     (case foldl counter_frame_step (textContent el, []) (anims el) of
        (t, as) \<Rightarrow> el\<lparr>textContent := t, anims := as\<rparr>)"

definition counter_callback :: "bool list \<Rightarrow> counter_el \<Rightarrow> counter_el" where
  "counter_callback entries el =
     foldl (\<lambda>el isIntersecting. if isIntersecting then (counter_start el)\<lparr>observed := False\<rparr> else el) el entries"

definition counter_deliver :: "bool list \<Rightarrow> counter_el \<Rightarrow> counter_el" where
  "counter_deliver entries el = (if observed el then counter_callback entries el else el)"

subsection \<open>Parsing round trip\<close>

lemma digit_char_props: "d < 10 \<Longrightarrow> is_digit (digit_char d) \<and> digit_val (digit_char d) = int d \<and> \<not> is_space (digit_char d)"
  by (auto simp: is_digit_def digit_val_def digit_char_def is_space_def of_char_of take_bit_eq_mod)

lemma nat_digits_digits: "\<forall>c \<in> set (nat_digits n). is_digit c \<and> \<not> is_space c"
  by (induction n rule: nat_digits.induct) (subst nat_digits.simps, simp add: digit_char_props)

lemma nat_digits_ne: "nat_digits n \<noteq> []"
  by (subst nat_digits.simps) simp

lemma digits_val_snoc: "digits_val (ds @ [c]) = 10 * digits_val ds + digit_val c"
  by (simp add: digits_val_def)

lemma digits_val_nat_digits: "digits_val (nat_digits n) = int n"
proof (induction n rule: nat_digits.induct)
  case (1 n)
  have "int (10 * (n div 10) + n mod 10) = int n" by simp
  then have "10 * int (n div 10) + int (n mod 10) = int n" by linarith
  with 1 show ?case
    by (subst nat_digits.simps) (simp add: digits_val_snoc digit_char_props, simp add: digits_val_def digit_char_props)
qed

lemma nat_digits_hd: "\<exists>c r. nat_digits n = c # r \<and> is_digit c \<and> \<not> is_space c"
proof -
  obtain c r where cr: "nat_digits n = c # r" using nat_digits_ne by (cases "nat_digits n") auto
  then show ?thesis using nat_digits_digits [of n] by auto
qed

lemma takeWhile_digits_append:
  "\<forall>c \<in> set ds. is_digit c \<Longrightarrow> rest = [] \<or> \<not> is_digit (hd rest) \<Longrightarrow>
   takeWhile is_digit (ds @ rest) = ds"
  by (cases rest) (simp_all add: takeWhile_append2)

lemma sign_chars: "\<not> is_digit (CHR ''-'')" "\<not> is_space (CHR ''-'')"
  by (simp_all add: is_digit_def is_space_def)

lemma parseInt_int_to_string_append:
  assumes rest: "rest = [] \<or> \<not> is_digit (hd rest)"
  shows "parseInt (int_to_string i @ rest) = Some i"
proof -
  obtain c r where cr: "nat_digits (nat \<bar>i\<bar>) = c # r" and c: "is_digit c" "\<not> is_space c"
    using nat_digits_hd by blast
  have ds: "\<forall>c \<in> set (nat_digits (nat \<bar>i\<bar>)). is_digit c" using nat_digits_digits by blast
  have tw: "takeWhile is_digit (nat_digits (nat \<bar>i\<bar>) @ rest) = nat_digits (nat \<bar>i\<bar>)"
    using takeWhile_digits_append [OF ds rest] .
  have c_sign: "c \<noteq> CHR ''-''" "c \<noteq> CHR ''+''" using c by (auto simp: is_digit_def)
  show ?thesis
  proof (cases "i < 0")
    case True
    then have "int_to_string i = CHR ''-'' # nat_digits (nat \<bar>i\<bar>)" by (simp add: int_to_string_def)
    then show ?thesis using True tw nat_digits_ne
      by (simp add: parseInt_def sign_chars digits_val_nat_digits)
  next
    case False
    then have "int_to_string i = c # r" using cr by (simp add: int_to_string_def)
    moreover have "takeWhile is_digit (c # r @ rest) = c # r" using tw cr by simp
    moreover have "digits_val (c # r) = i" using digits_val_nat_digits [of "nat \<bar>i\<bar>"] cr False by simp
    ultimately show ?thesis using c c_sign by (simp add: parseInt_def)
  qed
qed

lemma updateCounter_step:
  "updateCounter f c =
     (if c + of_int f / (2000 / 16) < of_int f
      then map_option (Cons \<lfloor>c + of_int f / (2000 / 16)\<rfloor>) (updateCounter f (c + of_int f / (2000 / 16)))
      else Some [f])"
  by (subst updateCounter.simps) (simp add: Let_def map_option_case split: bind_split option.split)

lemma updateCounter_from:
  assumes f: "0 < f"
  shows "k + m = 124 \<Longrightarrow> updateCounter f (real k * of_int f / 125) =
     Some (map (\<lambda>j. \<lfloor>real j * of_int f / 125\<rfloor>) [Suc k..<125] @ [f])"
proof (induction m arbitrary: k)
  case 0
  then have "real k * of_int f / 125 + of_int f / (2000 / 16) = of_int f" by simp
  then show ?case using 0 by (subst updateCounter_step) simp
next
  case (Suc m)
  have e: "real k * of_int f / 125 + of_int f / (2000 / 16) = real (Suc k) * of_int f / 125"
    by (simp add: field_simps)
  have lt: "real (Suc k) * of_int f / 125 < of_int f" using Suc.prems f by (simp add: field_simps)
  have u: "[Suc k..<125] = Suc k # [Suc (Suc k)..<125]" using Suc.prems by (simp add: upt_conv_Cons)
  show ?case using Suc.IH [of "Suc k"] Suc.prems
    by (subst updateCounter_step) (simp only: e lt if_True u list.map, simp)
qed

lemma updateCounter_nonpos: "f \<le> 0 \<Longrightarrow> updateCounter f 0 = Some [f]"
  by (subst updateCounter_step) (simp add: divide_le_eq)

lemma updateCounter_closed:
  "0 < f \<Longrightarrow> updateCounter f 0 = Some (map (\<lambda>j. \<lfloor>real j * of_int f / 125\<rfloor>) [1..<125] @ [f])"
  using updateCounter_from [of f 0 124] by simp

lemma updateCounter_last: "updateCounter f 0 = Some shown \<Longrightarrow> shown \<noteq> [] \<and> last shown = f"
  by (cases "0 < f") (auto simp: updateCounter_closed updateCounter_nonpos)

text \<open>
  C25. The counter loop ends: from \<open>currentValue = 0\<close>, \<open>updateCounter\<close> returns for
  every integer \<open>finalValue\<close> (after 125 calls when it is positive, at once otherwise).
\<close>

theorem updateCounter_terminates: "\<exists>shown. updateCounter f 0 = Some shown"
  by (cases "0 < f") (auto simp: updateCounter_closed updateCounter_nonpos)

text \<open>
  For a non-negative target the values written rise monotonically from \<open>0\<close>,
  never exceed the target and end with it.
\<close>

theorem updateCounter_shown:
  assumes "0 \<le> f" "updateCounter f 0 = Some shown"
  shows "sorted shown \<and> last shown = f \<and> (\<forall>x \<in> set shown. 0 \<le> x \<and> x \<le> f)"
proof (cases "f = 0")
  case True
  then show ?thesis using assms updateCounter_nonpos [of f] by simp
next
  case False
  with assms have f: "0 < f" by simp
  define g where "g = (\<lambda>j::nat. \<lfloor>real j * of_int f / 125\<rfloor>)"
  have mono: "g i \<le> g j" if "i \<le> j" for i j
    using that f unfolding g_def by (intro floor_mono divide_right_mono mult_right_mono) simp_all
  have lo: "0 \<le> g j" for j using f by (simp add: g_def)
  have hi: "g j \<le> f" if "j < 125" for j
  proof -
    have "real j * of_int f / 125 \<le> of_int f" using that f by (simp add: field_simps)
    then show ?thesis unfolding g_def by (simp add: floor_le_iff)
  qed
  have s: "shown = map g [1..<125] @ [f]" using assms(2) updateCounter_closed [OF f] by (simp add: g_def)
  have "sorted (map g [1..<125])" by (auto simp: sorted_map sorted_wrt_iff_nth_less intro: mono)
  then show ?thesis using hi lo f by (auto simp: s sorted_append)
qed

text \<open>\<open>parseInt\<close> reads back the decimal text of every integer.\<close>

theorem parseInt_roundtrip: "parseInt (int_to_string i) = Some i"
  using parseInt_int_to_string_append [of "[]" i] by simp

text \<open>
  C31. A counter whose text is a number followed by a non-digit suffix (such as
  \<open>50+\<close>) ends showing the bare number: the suffix is lost.
\<close>

theorem counterAnimation_drops_suffix:
  assumes "rest = [] \<or> \<not> is_digit (hd rest)"
  shows "map_option last (counterAnimation (int_to_string n @ rest)) = Some (int_to_string n)"
proof -
  obtain shown where s: "updateCounter n 0 = Some shown" using updateCounter_terminates by blast
  then show ?thesis using updateCounter_last [OF s]
    by (simp add: counterAnimation_def parseInt_int_to_string_append [OF assms] last_map)
qed

lemma counterAnimation_drops_suffix_witness:
  "(''+'' = [] \<or> \<not> is_digit (hd ''+'')) \<and>
   map_option last (counterAnimation (int_to_string 50 @ ''+'')) = Some (int_to_string 50)"
proof -
  have h: "''+'' = [] \<or> \<not> is_digit (hd ''+'')" by (simp add: is_digit_def)
  show ?thesis using h counterAnimation_drops_suffix [OF h, of 50] by blast
qed

lemma updateCounter_shown_witness:
  "0 \<le> (3::int) \<and> updateCounter 3 0 = Some (map (\<lambda>j. \<lfloor>real j * of_int 3 / 125\<rfloor>) [1..<125] @ [3]) \<and>
   sorted (map (\<lambda>j. \<lfloor>real j * of_int (3::int) / 125\<rfloor>) [1..<125] @ [3]) \<and>
   last (map (\<lambda>j. \<lfloor>real j * of_int (3::int) / 125\<rfloor>) [1..<125] @ [3]) = 3"
proof -
  have c: "updateCounter 3 0 = Some (map (\<lambda>j. \<lfloor>real j * of_int 3 / 125\<rfloor>) [1..<125] @ [3])"
    by (rule updateCounter_closed) simp
  show ?thesis using updateCounter_shown [OF _ c] c by simp
qed

lemma counter_tick_at:
  assumes "0 < f"
  shows "counter_tick (f, real k * of_int f / 125) =
    (if Suc k < 125 then (int_to_string \<lfloor>real (Suc k) * of_int f / 125\<rfloor>, Some (f, real (Suc k) * of_int f / 125))
     else (int_to_string f, None))"
proof -
  have e: "real k * of_int f / 125 + of_int f / (2000 / 16) = real (Suc k) * of_int f / 125"
    by (simp add: field_simps)
  have "real (Suc k) * of_int f / 125 < of_int f \<longleftrightarrow> Suc k < 125"
    using assms by (simp add: field_simps)
  then show ?thesis by (simp only: counter_tick_def prod.case Let_def e)
qed

lemma counter_fold_uniform:
  assumes "\<forall>f \<in> set fs. 0 < f"
  shows "foldl counter_frame_step (t, acc) (map (\<lambda>f. (f, real k * of_int f / 125)) fs) =
    (if fs = [] then t
     else if Suc k < 125 then int_to_string \<lfloor>real (Suc k) * of_int (last fs) / 125\<rfloor>
     else int_to_string (last fs),
     acc @ (if Suc k < 125 then map (\<lambda>f. (f, real (Suc k) * of_int f / 125)) fs else []))"
  using assms
proof (induction fs rule: rev_induct)
  case Nil
  then show ?case by simp
next
  case (snoc g gs)
  then show ?case
    by (simp add: counter_frame_step_def counter_tick_at opt_list_def split: prod.split)
qed

lemma counter_frame_uniform:
  assumes "\<forall>f \<in> set fs. 0 < f" "fs \<noteq> []" "anims el = map (\<lambda>f. (f, real k * of_int f / 125)) fs"
  shows "counter_frame el =
    (if Suc k < 125
     then el\<lparr>textContent := int_to_string \<lfloor>real (Suc k) * of_int (last fs) / 125\<rfloor>,
             anims := map (\<lambda>f. (f, real (Suc k) * of_int f / 125)) fs\<rparr>
     else el\<lparr>textContent := int_to_string (last fs), anims := []\<rparr>)"
  using counter_fold_uniform [OF assms(1), of "textContent el" "[]" k] assms(2,3)
  by (simp add: counter_frame_def)

lemma counter_frames:
  assumes fs: "\<forall>f \<in> set fs. 0 < f" "fs \<noteq> []"
  shows "k + m < 125 \<Longrightarrow> anims el = map (\<lambda>f. (f, real k * of_int f / 125)) fs \<Longrightarrow>
    (counter_frame ^^ Suc m) el =
    (if k + Suc m < 125
     then el\<lparr>textContent := int_to_string \<lfloor>real (k + Suc m) * of_int (last fs) / 125\<rfloor>,
             anims := map (\<lambda>f. (f, real (k + Suc m) * of_int f / 125)) fs\<rparr>
     else el\<lparr>textContent := int_to_string (last fs), anims := []\<rparr>)"
proof (induction m arbitrary: k el)
  case 0
  then show ?case using counter_frame_uniform [OF fs 0(2)] by simp
next
  case (Suc m)
  have f1: "counter_frame el = el\<lparr>textContent := int_to_string \<lfloor>real (Suc k) * of_int (last fs) / 125\<rfloor>,
             anims := map (\<lambda>f. (f, real (Suc k) * of_int f / 125)) fs\<rparr>"
    using counter_frame_uniform [OF fs Suc.prems(2)] Suc.prems(1) by simp
  have "(counter_frame ^^ Suc (Suc m)) el = (counter_frame ^^ Suc m) (counter_frame el)"
    by (simp only: funpow_Suc_right comp_def)
  moreover have "Suc k + m < 125" "anims (counter_frame el) = map (\<lambda>f. (f, real (Suc k) * of_int f / 125)) fs"
    using Suc.prems(1) f1 by simp_all
  note ih = Suc.IH [OF this]
  ultimately show ?case using f1 by (simp add: ih)
qed

lemma counter_start_pos:
  assumes "0 < f" "parseInt (textContent el) = Some f"
  shows "counter_start el = el\<lparr>textContent := int_to_string \<lfloor>of_int f / (125::real)\<rfloor>,
                                 anims := anims el @ [(f, of_int f / 125)]\<rparr>"
  using counter_tick_at [OF assms(1), of 0] assms(2) by (simp add: counter_start_def opt_list_def)


text \<open>
  C26. The frame-level model refines the closure: started on an element whose text parses
  to a positive \<open>f\<close>, the text after \<open>j\<close> frames is the \<open>j\<close>-th value
  \<open>updateCounter f 0\<close> writes, for each of its 125 values.
\<close>

theorem counter_frames_refine_updateCounter:
  assumes "0 < f" "parseInt (textContent el) = Some f" "anims el = []"
    and "updateCounter f 0 = Some shown" "j < 125"
  shows "textContent ((counter_frame ^^ j) (counter_start el)) = int_to_string (shown ! j)"
proof -
  define g where "g = (\<lambda>j::nat. \<lfloor>real j * of_int f / 125\<rfloor>)"
  have s: "shown = map g [1..<125] @ [f]" using assms(4) updateCounter_closed [OF assms(1)] by (simp add: g_def)
  have st: "counter_start el = el\<lparr>textContent := int_to_string \<lfloor>of_int f / (125::real)\<rfloor>,
                                 anims := [(f, of_int f / 125)]\<rparr>"
    using counter_start_pos [OF assms(1,2)] assms(3) by simp
  show ?thesis
  proof (cases j)
    case 0
    then show ?thesis by (simp add: st s g_def nth_append)
  next
    case (Suc m)
    then show ?thesis using counter_frames [of "[f]" 1 m "counter_start el"] assms(1,5)
      by (simp add: st s g_def nth_append add.commute)
  qed
qed



lemma counter_frames_refine_updateCounter_witness:
  "0 < (3::int) \<and> parseInt (textContent \<lparr>textContent = int_to_string 3, anims = [], observed = True\<rparr>) = Some 3 \<and>
   anims \<lparr>textContent = int_to_string 3, anims = [], observed = True\<rparr> = [] \<and>
   updateCounter 3 0 = Some (map (\<lambda>j. \<lfloor>real j * of_int 3 / 125\<rfloor>) [1..<125] @ [3]) \<and> (5::nat) < 125 \<and>
   textContent ((counter_frame ^^ 5) (counter_start \<lparr>textContent = int_to_string 3, anims = [], observed = True\<rparr>)) =
     int_to_string ((map (\<lambda>j. \<lfloor>real j * of_int 3 / 125\<rfloor>) [1..<125] @ [3]) ! 5)"
proof -
  have p: "parseInt (textContent \<lparr>textContent = int_to_string 3, anims = [], observed = True\<rparr>) = Some 3"
    using parseInt_int_to_string_append [of "[]" 3] by simp
  have u: "updateCounter 3 0 = Some (map (\<lambda>j. \<lfloor>real j * of_int 3 / 125\<rfloor>) [1..<125] @ [3])"
    by (rule updateCounter_closed) simp
  show ?thesis using counter_frames_refine_updateCounter [OF _ p _ u, of 5] p u by simp
qed


lemma observed_counter_callback: "observed (counter_callback es el) \<longleftrightarrow> observed el \<and> True \<notin> set es"
  unfolding counter_callback_def by (induction es arbitrary: el) auto

lemma observed_counter_frames: "observed ((counter_frame ^^ k) el) = observed el"
  by (induction k) (simp_all add: counter_frame_def split: prod.split)

text \<open>
  C29. After a batch with an intersecting entry the element is no longer observed, and
  no later batch changes it, whatever frames run in between.
\<close>

theorem counter_deliver_once:
  assumes "True \<in> set es"
  shows "\<not> observed (counter_deliver es el) \<and>
         counter_deliver es' ((counter_frame ^^ k) (counter_deliver es el)) = (counter_frame ^^ k) (counter_deliver es el)"
  using assms by (simp add: counter_deliver_def observed_counter_callback observed_counter_frames)

lemma counter_deliver_once_witness:
  "True \<in> set [True] \<and>
   \<not> observed (counter_deliver [True] \<lparr>textContent = ''7'', anims = [], observed = True\<rparr>) \<and>
   counter_deliver [True] ((counter_frame ^^ 3) (counter_deliver [True] \<lparr>textContent = ''7'', anims = [], observed = True\<rparr>)) =
     (counter_frame ^^ 3) (counter_deliver [True] \<lparr>textContent = ''7'', anims = [], observed = True\<rparr>)"
  using counter_deliver_once [of "[True]"] by simp

end
