(* ===== verification/PageInit.thy ===== *)
theory PageInit
  imports Prelude
begin

text \<open>
  Page start-up (\<open>src/script.js\<close>, lines 517--585). The first \<open>DOMContentLoaded\<close>
  handler calls twelve init functions and then assigns the animation classes; an
  exception in one of them aborts the handler, so the later features are never set up.
  The second handler (hover effects) is a separate listener and runs regardless.
  \<open>page_doc\<close> records what of the page the init functions depend on without a null
  check; \<open>run_inits\<close> runs a list of them in the error monad, returning the features
  set up and the exception, if any.
\<close>

datatype feature =
    ThreeJS | Navigation | ScrollAnimations | SkillBars | FloatingElements | ContactForm
  | ScrollProgress | NavbarScroll | Parallax | TypingEffect | CounterAnimation | GlitchEffects
  | AnimationClasses | ProjectCardHover | SkillItemHover

record page_doc =
  has_canvas :: bool
  three_loaded :: bool
  has_hamburger :: bool
  intersection_observer :: bool

text \<open>The calls of the first \<open>DOMContentLoaded\<close> handler, lines 518--529, and the
  class assignments after them, lines 532--548, in order.\<close>

definition init_order :: "feature list" where
  "init_order =
     [ThreeJS, Navigation, ScrollAnimations, SkillBars, FloatingElements, ContactForm,
      ScrollProgress, NavbarScroll, Parallax, TypingEffect, CounterAnimation, GlitchEffects,
      AnimationClasses]"

text \<open>Whether an init function throws before it registers anything: \<open>initThreeJS\<close> at
  \<open>new THREE.Scene()\<close> (line 14) when the library is missing, \<open>initNavigation\<close> at
  \<open>hamburger.addEventListener\<close> (line 282), and the three users of
  \<open>new IntersectionObserver\<close> (lines 318, 336, 467) where the API is missing.\<close>

fun init_feature :: "page_doc \<Rightarrow> feature \<Rightarrow> js_error option" where
  "init_feature doc ThreeJS = (if has_canvas doc \<and> \<not> three_loaded doc then Some ReferenceError else None)"
| "init_feature doc Navigation = (if has_hamburger doc then None else Some TypeError)"
| "init_feature doc ScrollAnimations = (if intersection_observer doc then None else Some ReferenceError)"
| "init_feature doc SkillBars = (if intersection_observer doc then None else Some ReferenceError)"
| "init_feature doc CounterAnimation = (if intersection_observer doc then None else Some ReferenceError)"
| "init_feature doc _ = None"

fun run_inits :: "page_doc \<Rightarrow> feature list \<Rightarrow> feature list \<times> js_error option" where
  "run_inits doc [] = ([], None)"
| "run_inits doc (f # fs) =
     (case init_feature doc f of
        Some e \<Rightarrow> ([], Some e)
      | None \<Rightarrow> (case run_inits doc fs of (done, err) \<Rightarrow> (f # done, err)))"

definition dom_ready :: "page_doc \<Rightarrow> feature list \<times> js_error option" where
  "dom_ready doc = run_inits doc init_order"

definition page_start :: "page_doc \<Rightarrow> feature list \<times> js_error option" where
  "page_start doc =
     (case dom_ready doc of (done, err) \<Rightarrow> (done @ [ProjectCardHover, SkillItemHover], err))"

subsection \<open>Properties\<close>


lemma run_inits_ok: "snd (run_inits doc fs) = None \<longleftrightarrow> (\<forall>f \<in> set fs. init_feature doc f = None)"
  by (induction fs) (auto split: option.split prod.split)

lemma run_inits_all: "\<forall>f \<in> set fs. init_feature doc f = None \<Longrightarrow> run_inits doc fs = (fs, None)"
  by (induction fs) auto



lemma dom_ready_no_hamburger:
  assumes "\<not> has_hamburger doc" "has_canvas doc \<longrightarrow> three_loaded doc"
  shows "dom_ready doc = ([ThreeJS], Some TypeError)"
proof -
  have "init_feature doc ThreeJS = None" using assms(2) by auto
  then show ?thesis using assms(1) by (simp add: dom_ready_def init_order_def)
qed

lemma page_start_hover: "ProjectCardHover \<in> set (fst (page_start doc)) \<and> SkillItemHover \<in> set (fst (page_start doc))"
  by (simp add: page_start_def split: prod.split)

end
