(* ===== verification/ContactForm.thy ===== *)
theory ContactForm
  imports PageInit
begin

text \<open>
  The mock contact form, \<open>initContactForm\<close> (\<open>src/script.js\<close>, lines 365--390).
  The submit listener saves the button label, shows a loading label, disables the button
  and schedules a 2000 ms timer that alerts, resets the form and restores the saved
  label. \<open>form_state\<close> is the button, the queue of pending timers (each holding the
  label it will restore) and counters of submissions, alerts and resets.
\<close>

record form_state =
  btn_text :: string
  disabled :: bool
  has_submit_button :: bool
  pending :: "string list"
  alerts :: nat
  resets :: nat
  submits :: nat
  navigated :: bool

definition loading_text :: string where
  "loading_text = '' Sending...''"

text \<open>The submit listener, lines 370--388, up to the timer it schedules.\<close>

definition submit_handler :: "form_state \<Rightarrow> js_error + form_state" where
  "submit_handler st =
     (if \<not> has_submit_button st then Inl TypeError
      else let originalText = btn_text st
           in Inr (st\<lparr>btn_text := loading_text, disabled := True,
                     pending := pending st @ [originalText], submits := Suc (submits st)\<rparr>))"

text \<open>The \<open>setTimeout\<close> callback, lines 382--387; timers of equal delay fire in
  the order they were set.\<close>

definition submit_timeout :: "form_state \<Rightarrow> form_state" where
  "submit_timeout st =
     (case pending st of
        [] \<Rightarrow> st
      | originalText # rest \<Rightarrow>
          st\<lparr>alerts := Suc (alerts st), resets := Suc (resets st),
             btn_text := originalText, disabled := False, pending := rest\<rparr>)"

datatype form_event = Submit | Timeout

text \<open>One event; without the listener (\<open>installed = False\<close>) the browser submits the
  form natively and the page navigates.\<close>

fun form_step :: "bool \<Rightarrow> form_event \<Rightarrow> form_state \<Rightarrow> form_state" where
  "form_step installed Submit st =
     (if \<not> installed then st\<lparr>navigated := True\<rparr>
      else case submit_handler st of Inl _ \<Rightarrow> st | Inr st' \<Rightarrow> st')"
| "form_step installed Timeout st = submit_timeout st"

definition form_init :: "string \<Rightarrow> bool \<Rightarrow> form_state" where
  "form_init label btn =
     \<lparr>btn_text = label, disabled = False, has_submit_button = btn, pending = [],
      alerts = 0, resets = 0, submits = 0, navigated = False\<rparr>"

text \<open>States reachable by the user: a disabled submit button blocks user submission.\<close>

inductive form_reachable :: "string \<Rightarrow> form_state \<Rightarrow> bool" for label where
  init: "form_reachable label (form_init label True)"
| user_submit: "form_reachable label st \<Longrightarrow> \<not> disabled st \<Longrightarrow> form_reachable label (form_step True Submit st)"
| timeout: "form_reachable label st \<Longrightarrow> form_reachable label (form_step True Timeout st)"

definition form_inv :: "string \<Rightarrow> form_state \<Rightarrow> bool" where
  "form_inv label st \<longleftrightarrow>
     has_submit_button st \<and> \<not> navigated st \<and> alerts st = resets st \<and>
     alerts st + length (pending st) = submits st \<and>
     (pending st = [] \<and> \<not> disabled st \<and> btn_text st = label \<or>
      pending st = [label] \<and> disabled st \<and> btn_text st = loading_text)"

lemma form_inv_init: "form_inv label (form_init label True)"
  by (simp add: form_inv_def form_init_def)

lemma form_inv_submit: "form_inv label st \<Longrightarrow> \<not> disabled st \<Longrightarrow> form_inv label (form_step True Submit st)"
  by (auto simp: form_inv_def submit_handler_def Let_def)

lemma form_inv_timeout: "form_inv label st \<Longrightarrow> form_inv label (form_step True Timeout st)"
  by (auto simp: form_inv_def submit_timeout_def)

lemma form_reachable_inv: "form_reachable label st \<Longrightarrow> form_inv label st"
proof (induction rule: form_reachable.induct)
  case init
  show ?case by (rule form_inv_init)
next
  case (user_submit st)
  then show ?case by (blast intro: form_inv_submit)
next
  case (timeout st)
  then show ?case by (blast intro: form_inv_timeout)
qed

text \<open>
  C35. In every state the user can reach, once no timer is pending the submit button shows
  its original label again and is enabled, and every submission has had its alert and
  its form reset.
\<close>

theorem form_button_restored:
  "form_reachable label st \<Longrightarrow> pending st = [] \<Longrightarrow>
   btn_text st = label \<and> \<not> disabled st \<and> alerts st = submits st \<and> resets st = submits st"
  by (drule form_reachable_inv) (auto simp: form_inv_def)

text \<open>
  C36. Two submissions before the timer fires (possible only programmatically, e.g. by
  \<open>requestSubmit\<close>) leave the button enabled but labelled \<open>Sending...\<close> for good: the
  second handler saved the loading label as the original text.
\<close>

theorem form_double_submit:
  assumes "has_submit_button st" "pending st = []"
  shows "btn_text (fold (form_step True) [Submit, Submit, Timeout, Timeout] st) = loading_text \<and>
         \<not> disabled (fold (form_step True) [Submit, Submit, Timeout, Timeout] st)"
  using assms by (simp add: submit_handler_def submit_timeout_def Let_def)

lemma submit_without_button:
  "\<not> has_submit_button st \<Longrightarrow> submit_handler st = Inl TypeError \<and> form_step True Submit st = st"
  by (simp add: submit_handler_def)

lemma form_reachable_round:
  "form_reachable label (form_step True Timeout (form_step True Submit (form_init label True)))"
proof -
  have "form_reachable label (form_step True Submit (form_init label True))"
    by (rule form_reachable.user_submit [OF form_reachable.init]) (simp add: form_init_def)
  then show ?thesis by (rule form_reachable.timeout)
qed

lemma form_button_restored_witness:
  "form_reachable ''Send'' (form_step True Timeout (form_step True Submit (form_init ''Send'' True))) \<and>
   pending (form_step True Timeout (form_step True Submit (form_init ''Send'' True))) = [] \<and>
   btn_text (form_step True Timeout (form_step True Submit (form_init ''Send'' True))) = ''Send'' \<and>
   alerts (form_step True Timeout (form_step True Submit (form_init ''Send'' True))) =
     submits (form_step True Timeout (form_step True Submit (form_init ''Send'' True)))"
proof -
  have p: "pending (form_step True Timeout (form_step True Submit (form_init ''Send'' True))) = []"
    by (simp add: form_init_def submit_handler_def submit_timeout_def)
  show ?thesis using form_button_restored [OF form_reachable_round p] form_reachable_round p by simp
qed

lemma form_double_submit_witness:
  "has_submit_button (form_init ''Send'' True) \<and> pending (form_init ''Send'' True) = [] \<and>
   btn_text (fold (form_step True) [Submit, Submit, Timeout, Timeout] (form_init ''Send'' True)) = loading_text \<and>
   \<not> disabled (fold (form_step True) [Submit, Submit, Timeout, Timeout] (form_init ''Send'' True))"
proof -
  have h: "has_submit_button (form_init ''Send'' True)" "pending (form_init ''Send'' True) = []"
    by (simp_all add: form_init_def)
  show ?thesis using form_double_submit [OF h] h by blast
qed

text \<open>
  C30. A submission and its timer are a round trip for the button: from an idle form (no pending timer, button enabled),
  submitting and letting the timer fire restores the label, the enabled state and the
  empty timer queue, with one more submission, alert and reset counted.
\<close>

theorem submit_timeout_roundtrip:
  "has_submit_button st \<Longrightarrow> pending st = [] \<Longrightarrow> \<not> disabled st \<Longrightarrow>
   form_step True Timeout (form_step True Submit st) =
     st\<lparr>alerts := Suc (alerts st), resets := Suc (resets st), submits := Suc (submits st)\<rparr>"
  by (cases st) (simp add: submit_handler_def submit_timeout_def Let_def)

lemma submit_timeout_roundtrip_witness:
  "has_submit_button (form_init ''Send'' True) \<and> pending (form_init ''Send'' True) = [] \<and>
   \<not> disabled (form_init ''Send'' True) \<and>
   form_step True Timeout (form_step True Submit (form_init ''Send'' True)) =
     (form_init ''Send'' True)\<lparr>alerts := 1, resets := 1, submits := 1\<rparr>"
  using submit_timeout_roundtrip [of "form_init ''Send'' True"] by (simp add: form_init_def)

end
