(* ===== verification/Typing.thy ===== *)
theory Typing
  imports Prelude
begin

text \<open>
  The typing effect of the hero title (\<open>src/script.js\<close>, lines 443--461). The state is
  the title's text, the index \<open>i\<close> of the closure and the time (in ms) of the pending
  \<open>setTimeout\<close>, if any. \<open>charAt(i)\<close> is \<open>text ! i\<close> (in range); UTF-16
  code units are not modelled.
\<close>

record typing_state =
  shown :: string
  idx :: nat
  scheduled :: "nat option"

text \<open>\<open>initTypingEffect\<close>, lines 443--461: no title, no effect; otherwise the text is
  cleared and \<open>typeWriter\<close> is scheduled at 1000 ms.\<close>

definition initTypingEffect :: "string option \<Rightarrow> typing_state option" where
  "initTypingEffect titleName =
     (case titleName of
        None \<Rightarrow> None
      | Some text \<Rightarrow> Some \<lparr>shown = [], idx = 0, scheduled = Some 1000\<rparr>)"

definition typeWriter :: "string \<Rightarrow> nat \<Rightarrow> typing_state \<Rightarrow> typing_state" where
  "typeWriter text now st =
     (if idx st < length text
      then st\<lparr>shown := shown st @ [text ! idx st], idx := Suc (idx st), scheduled := Some (now + 100)\<rparr>
      else st\<lparr>scheduled := None\<rparr>)"

text \<open>The pending timer fires at its time.\<close>

definition typing_fire :: "string \<Rightarrow> typing_state \<Rightarrow> typing_state" where
  "typing_fire text st =
     (case scheduled st of None \<Rightarrow> st | Some now \<Rightarrow> typeWriter text now st)"

lemma typing_progress:
  "k \<le> length text \<Longrightarrow>
   (typing_fire text ^^ k) \<lparr>shown = [], idx = 0, scheduled = Some 1000\<rparr> =
     \<lparr>shown = take k text, idx = k, scheduled = Some (1000 + 100 * k)\<rparr>"
proof (induction k)
  case 0
  then show ?case by simp
next
  case (Suc k)
  then show ?case by (simp add: typing_fire_def typeWriter_def take_Suc_conv_app_nth)
qed

text \<open>
  C37. The typing effect finishes: after one timer per character and a last one, the
  title shows exactly its original text, no timer is pending and further firings
  change nothing.
\<close>

theorem typing_completes:
  "initTypingEffect (Some text) = Some st0 \<Longrightarrow>
   (typing_fire text ^^ Suc (length text)) st0 = \<lparr>shown = text, idx = length text, scheduled = None\<rparr> \<and>
   typing_fire text ((typing_fire text ^^ Suc (length text)) st0) = (typing_fire text ^^ Suc (length text)) st0"
  using typing_progress [of "length text" "text"]
  by (auto simp: initTypingEffect_def typing_fire_def typeWriter_def)

lemma typing_completes_witness:
  "initTypingEffect (Some ''Hi'') = Some \<lparr>shown = [], idx = 0, scheduled = Some 1000\<rparr> \<and>
   (typing_fire ''Hi'' ^^ Suc (length ''Hi'')) \<lparr>shown = [], idx = 0, scheduled = Some 1000\<rparr> =
     \<lparr>shown = ''Hi'', idx = length ''Hi'', scheduled = None\<rparr>"
proof -
  have i: "initTypingEffect (Some ''Hi'') = Some \<lparr>shown = [], idx = 0, scheduled = Some 1000\<rparr>"
    by (simp add: initTypingEffect_def)
  show ?thesis using typing_completes [OF i] i by blast
qed

end
