(* ===== verification/Throttle.thy ===== *)
theory Throttle
  imports Prelude
begin

text \<open>
  \<open>throttle\<close> (\<open>src/script.js\<close>, lines 588--603): the returned function runs its
  argument unless \<open>inThrottle\<close> is set, sets it, and schedules a timer clearing it
  after \<open>limit\<close> ms. The state adds the clock and the list of times at which the
  argument ran; \<open>throttle_reachable\<close> is every state of any interleaving of calls
  and timer firings.
\<close>

record throttle_state =
  inThrottle :: bool
  timer :: "real option"
  now :: real
  executed :: "real list"

text \<open>The function \<open>throttle\<close> returns, lines 590--599, called at time \<open>t\<close>.\<close>

definition throttled_call :: "real \<Rightarrow> real \<Rightarrow> throttle_state \<Rightarrow> throttle_state" where
  "throttled_call limit t s =
     (if \<not> inThrottle s
      then s\<lparr>now := t, executed := executed s @ [t], inThrottle := True, timer := Some (t + limit)\<rparr>
      else s\<lparr>now := t\<rparr>)"

text \<open>The timer of line 597, firing at time \<open>t\<close>.\<close>

definition throttle_timeout :: "real \<Rightarrow> throttle_state \<Rightarrow> throttle_state" where
  "throttle_timeout t s = s\<lparr>now := t, inThrottle := False, timer := None\<rparr>"

definition throttle_init :: throttle_state where
  "throttle_init = \<lparr>inThrottle = False, timer = None, now = 0, executed = []\<rparr>"

text \<open>Calls come at non-decreasing times; a timer fires at or after its expiry (browsers
  may delay it).\<close>

inductive throttle_reachable :: "real \<Rightarrow> throttle_state \<Rightarrow> bool" for limit where
  init: "throttle_reachable limit throttle_init"
| call: "throttle_reachable limit s \<Longrightarrow> now s \<le> t \<Longrightarrow> throttle_reachable limit (throttled_call limit t s)"
| fire: "throttle_reachable limit s \<Longrightarrow> timer s = Some e \<Longrightarrow> now s \<le> t \<Longrightarrow> e \<le> t \<Longrightarrow>
    throttle_reachable limit (throttle_timeout t s)"

fun spaced :: "real \<Rightarrow> real list \<Rightarrow> bool" where
  "spaced l (x # y # r) \<longleftrightarrow> x + l \<le> y \<and> spaced l (y # r)"
| "spaced l _ \<longleftrightarrow> True"

definition throttle_inv :: "real \<Rightarrow> throttle_state \<Rightarrow> bool" where
  "throttle_inv limit s \<longleftrightarrow>
     spaced limit (executed s) \<and> (\<forall>x \<in> set (executed s). x \<le> now s) \<and>
     (inThrottle s \<longleftrightarrow> timer s \<noteq> None) \<and>
     (case timer s of
        Some e \<Rightarrow> executed s \<noteq> [] \<and> e = last (executed s) + limit
      | None \<Rightarrow> executed s = [] \<or> last (executed s) + limit \<le> now s)"

lemma spaced_snoc: "spaced l (xs @ [y]) \<longleftrightarrow> spaced l xs \<and> (xs = [] \<or> last xs + l \<le> y)"
  by (induction l xs rule: spaced.induct) auto

lemma throttle_inv_call:
  "throttle_inv limit s \<Longrightarrow> 0 \<le> limit \<Longrightarrow> now s \<le> t \<Longrightarrow> throttle_inv limit (throttled_call limit t s)"
  by (auto simp: throttle_inv_def throttled_call_def spaced_snoc split: option.splits)

lemma throttle_inv_fire:
  "throttle_inv limit s \<Longrightarrow> timer s = Some e \<Longrightarrow> now s \<le> t \<Longrightarrow> e \<le> t \<Longrightarrow>
   throttle_inv limit (throttle_timeout t s)"
  by (auto simp: throttle_inv_def throttle_timeout_def)

lemma throttle_reachable_inv:
  "throttle_reachable limit s \<Longrightarrow> 0 \<le> limit \<Longrightarrow> throttle_inv limit s"
proof (induction rule: throttle_reachable.induct)
  case init
  then show ?case by (simp add: throttle_inv_def throttle_init_def)
next
  case (call s t)
  then show ?case by (blast intro: throttle_inv_call)
next
  case (fire s e t)
  then show ?case by (blast intro: throttle_inv_fire)
qed

text \<open>
  C38. Whatever the times of the calls and the delays of the timers, two consecutive
  executions of the throttled function are at least \<open>limit\<close> apart.
\<close>

theorem throttle_spaced:
  "throttle_reachable limit s \<Longrightarrow> 0 \<le> limit \<Longrightarrow> spaced limit (executed s)"
  by (drule throttle_reachable_inv) (auto simp: throttle_inv_def)

lemma throttle_spaced_witness:
  "throttle_reachable 16 (throttled_call 16 20 (throttle_timeout 16 (throttled_call 16 0 throttle_init))) \<and>
   (0::real) \<le> 16 \<and>
   spaced 16 (executed (throttled_call 16 20 (throttle_timeout 16 (throttled_call 16 0 throttle_init))))"
proof -
  have r1: "throttle_reachable 16 (throttled_call 16 0 throttle_init)"
    by (rule throttle_reachable.call [OF throttle_reachable.init]) (simp add: throttle_init_def)
  have r2: "throttle_reachable 16 (throttle_timeout 16 (throttled_call 16 0 throttle_init))"
    by (rule throttle_reachable.fire [OF r1, of 16]) (simp_all add: throttled_call_def throttle_init_def)
  have r3: "throttle_reachable 16 (throttled_call 16 20 (throttle_timeout 16 (throttled_call 16 0 throttle_init)))"
    by (rule throttle_reachable.call [OF r2]) (simp add: throttle_timeout_def)
  show ?thesis using throttle_spaced [OF r3] r3 by simp
qed

end
