(* ===== verification/Decorations.thy ===== *)
theory Decorations
  imports Prelude
begin

text \<open>
  The page decorations of \<open>src/script.js\<close> (lines 276--514): the navigation menu and
  its links, reveal on scroll, skill bars, floating elements, scroll progress, navbar
  style, parallax and glitch text. Styles are modelled as the values the handlers
  compute (strings where the code builds a fixed string); the DOM is reduced to what each
  handler reads.
\<close>

record nav_state =
  hamburger_active :: bool
  menu_active :: bool

text \<open>\<open>initNavigation\<close>, lines 276--309: the hamburger toggle.\<close>

definition hamburger_click :: "nav_state \<Rightarrow> nav_state" where
  "hamburger_click s = s\<lparr>hamburger_active := \<not> hamburger_active s, menu_active := \<not> menu_active s\<rparr>"

datatype link_result = ScrollTo string | NoTarget

text \<open>\<open>document.querySelector(href)\<close> over the page's section ids: an id selector
  \<open>#name\<close> finds the section or nothing; \<open>#\<close> alone, an empty string or a URL
  with a colon is not a valid selector.\<close>

definition querySelector_id :: "string list \<Rightarrow> string \<Rightarrow> js_error + string option" where
  "querySelector_id ids sel =
     (case sel of
        [] \<Rightarrow> Inl SyntaxError
      | c # name \<Rightarrow>
          if c = CHR ''#'' then (if name = [] then Inl SyntaxError
                                 else Inr (if name \<in> set ids then Some name else None))
          else if CHR '':'' \<in> set sel then Inl SyntaxError else Inr None)"

text \<open>The two click listeners of a navigation link, in registration order: the menu is
  closed, the default action is prevented, and the target section is scrolled to.\<close>

definition nav_link_click :: "string list \<Rightarrow> string \<Rightarrow> nav_state \<Rightarrow> nav_state \<times> bool \<times> (js_error + link_result)" where
  "nav_link_click ids href s =
     (let s = s\<lparr>hamburger_active := False, menu_active := False\<rparr>;
          defaultPrevented = True
      in (s, defaultPrevented,
          case querySelector_id ids href of
            Inl e \<Rightarrow> Inl e
          | Inr None \<Rightarrow> Inr NoTarget
          | Inr (Some target) \<Rightarrow> Inr (ScrollTo target)))"

datatype nav_event = HamburgerClick | LinkClick string

fun nav_step :: "string list \<Rightarrow> nav_event \<Rightarrow> nav_state \<Rightarrow> nav_state" where
  "nav_step ids HamburgerClick s = hamburger_click s"
| "nav_step ids (LinkClick href) s = fst (nav_link_click ids href s)"

text \<open>\<open>initScrollAnimations\<close>, lines 312--330, and the class assignment of lines
  532--536. The observer only delivers entries of the elements it observes.\<close>

record reveal_state =
  anim_class :: "nat \<Rightarrow> bool"
  observed :: "nat set"
  visible :: "nat set"

definition initScrollAnimations :: "reveal_state \<Rightarrow> reveal_state" where
  "initScrollAnimations s = s\<lparr>observed := {el. anim_class s el}\<rparr>"

definition reveal_callback :: "(nat \<times> bool) list \<Rightarrow> reveal_state \<Rightarrow> reveal_state" where
  "reveal_callback entries s =
     fold (\<lambda>(el, isIntersecting) s. if isIntersecting then s\<lparr>visible := insert el (visible s)\<rparr> else s) entries s"

definition reveal_deliver :: "(nat \<times> bool) list \<Rightarrow> reveal_state \<Rightarrow> reveal_state" where
  "reveal_deliver entries s = reveal_callback (filter (\<lambda>(el, _). el \<in> observed s) entries) s"

definition add_animation_classes :: "nat list \<Rightarrow> reveal_state \<Rightarrow> reveal_state" where
  "add_animation_classes sections s =
     s\<lparr>anim_class := (\<lambda>el. anim_class s el \<or> (\<exists>i < length sections. 0 < i \<and> sections ! i = el))\<rparr>"

text \<open>\<open>initSkillBars\<close>, lines 333--346 (\<open>getAttribute\<close> gives \<open>None\<close> for a
  missing attribute, which \<open>+\<close> turns into \<open>null\<close>).\<close>

definition skill_width :: "string option \<Rightarrow> string" where
  "skill_width level = (case level of None \<Rightarrow> ''null%'' | Some l \<Rightarrow> l @ ''%'')"

definition skill_callback :: "(nat \<Rightarrow> string option) \<Rightarrow> (nat \<times> bool) list \<Rightarrow> (nat \<Rightarrow> string option) \<Rightarrow> nat \<Rightarrow> string option" where
  "skill_callback level entries width =
     fold (\<lambda>(el, isIntersecting) w. if isIntersecting then w(el := Some (skill_width (level el))) else w) entries width"

text \<open>\<open>initFloatingElements\<close>, lines 349--366: \<open>parseFloat(...) || 0.5\<close> (\<open>None\<close>
  is NaN) and the transform at time \<open>Date.now()\<close>.\<close>

definition floating_speed :: "real option \<Rightarrow> real" where
  "floating_speed parsed = (case parsed of None \<Rightarrow> 0.5 | Some v \<Rightarrow> if v = 0 then 0.5 else v)"

definition floating_transform :: "real \<Rightarrow> real \<Rightarrow> real \<times> real \<times> real \<times> real" where
  "floating_transform speed now_ms =
     (let time = now_ms * 0.001 * speed;
          x = sin time * 20;
          y = cos (time * 0.5) * 20;
          rotation = sin (time * 0.3) * 15;
          scale = 1 + sin (time * 0.7) * 0.1
      in (x, y, rotation, scale))"

text \<open>\<open>initScrollProgress\<close>, lines 393--404 (\<open>None\<close>: the division by a zero
  \<open>docHeight\<close> gives NaN or Infinity), \<open>initNavbarScroll\<close>, lines 407--428, and
  \<open>initParallaxEffects\<close>, lines 431--440.\<close>

definition scroll_progress :: "real \<Rightarrow> real \<Rightarrow> real \<Rightarrow> real option" where
  "scroll_progress scrollTop bodyHeight innerHeight =
     (let docHeight = bodyHeight - innerHeight
      in if docHeight = 0 then None else Some (scrollTop / docHeight * 100))"

record progress_bar =
  className :: string
  bar_width :: "real option option"

definition initScrollProgress :: progress_bar where
  "initScrollProgress = \<lparr>className = ''scroll-progress'', bar_width = None\<rparr>"

definition progress_scroll :: "real \<Rightarrow> real \<Rightarrow> real \<Rightarrow> progress_bar \<Rightarrow> progress_bar" where
  "progress_scroll pageYOffset bodyHeight innerHeight bar =
     bar\<lparr>bar_width := Some (scroll_progress pageYOffset bodyHeight innerHeight)\<rparr>"

record navbar_state =
  background :: string
  boxShadow :: string
  lastScrollTop :: real

definition navbar_scroll :: "real \<Rightarrow> navbar_state \<Rightarrow> navbar_state" where
  "navbar_scroll scrollTop s =
     (if scrollTop > 100
      then s\<lparr>background := ''rgba(0, 0, 0, 0.98)'', boxShadow := ''0 2px 20px rgba(0, 255, 65, 0.3)''\<rparr>
      else s\<lparr>background := ''rgba(0, 0, 0, 0.95)'', boxShadow := ''0 0 20px rgba(0, 255, 65, 0.3)''\<rparr>)
     \<lparr>lastScrollTop := scrollTop\<rparr>"

definition parallax_rate :: "real \<Rightarrow> real" where
  "parallax_rate scrolled = scrolled * -0.5"

text \<open>\<open>initGlitchEffects\<close>, lines 496--514: one interval tick, five draws.\<close>

definition glitch_tick :: "draws \<Rightarrow> ((real \<times> real) \<times> (real \<times> real)) option" where
  "glitch_tick rnd =
     (if rnd 0 < 0.1
      then Some ((rnd 1 * 4 - 2, rnd 2 * 4 - 2), (rnd 3 * 4 - 2, rnd 4 * 4 - 2))
      else None)"

datatype text_shadow = StyleSheet | Glitched "(real \<times> real) \<times> (real \<times> real)" | Glow

record glitch_state =
  textShadow :: text_shadow
  pending_resets :: "nat list"

text \<open>The interval callback at time \<open>t\<close> (ms) and the 100 ms reset timer it schedules.\<close>

definition glitch_interval :: "draws \<Rightarrow> nat \<Rightarrow> glitch_state \<Rightarrow> glitch_state" where
  "glitch_interval rnd t s =
     (case glitch_tick rnd of
        None \<Rightarrow> s
      | Some offsets \<Rightarrow> s\<lparr>textShadow := Glitched offsets, pending_resets := pending_resets s @ [t + 100]\<rparr>)"

definition glitch_reset :: "glitch_state \<Rightarrow> glitch_state" where
  "glitch_reset s = (case pending_resets s of [] \<Rightarrow> s | _ # r \<Rightarrow> s\<lparr>textShadow := Glow, pending_resets := r\<rparr>)"

text \<open>One 2000 ms period: the interval fires, then its reset (due after 100 ms, before the
  next interval).\<close>

definition glitch_period :: "draws \<Rightarrow> nat \<Rightarrow> glitch_state \<Rightarrow> glitch_state" where
  "glitch_period rnd t s = glitch_reset (glitch_interval rnd t s)"

fun glitch_run :: "(nat \<Rightarrow> draws) \<Rightarrow> nat \<Rightarrow> glitch_state \<Rightarrow> glitch_state" where
  "glitch_run rnds 0 s = s"
| "glitch_run rnds (Suc n) s = glitch_period (rnds n) (2000 * Suc n) (glitch_run rnds n s)"

subsection \<open>Properties\<close>

lemma querySelector_id_found:
  "querySelector_id ids href = Inr (Some t) \<longleftrightarrow> href = CHR ''#'' # t \<and> t \<noteq> [] \<and> t \<in> set ids"
  by (auto simp: querySelector_id_def split: list.splits if_splits)


lemma nav_steps_sync:
  "hamburger_active s = menu_active s \<Longrightarrow>
   hamburger_active (fold (nav_step ids) es s) = menu_active (fold (nav_step ids) es s)"
proof (induction es arbitrary: s)
  case Nil
  then show ?case by simp
next
  case (Cons e es)
  then show ?case by (cases e) (simp_all add: hamburger_click_def nav_link_click_def Let_def)
qed

lemma reveal_callback_fields:
  "observed (reveal_callback es s) = observed s"
  "anim_class (reveal_callback es s) = anim_class s"
  "visible (reveal_callback es s) = visible s \<union> {el. (el, True) \<in> set es}"
  unfolding reveal_callback_def by (induction es arbitrary: s) (auto split: if_splits)

lemma reveal_deliver_fields:
  "observed (fold reveal_deliver bs s) = observed s"
  "anim_class (fold reveal_deliver bs s) = anim_class s"
  "visible (fold reveal_deliver bs s) \<subseteq> visible s \<union> observed s"
  by (induction bs arbitrary: s) (force simp: reveal_deliver_def reveal_callback_fields)+

text \<open>
  C39. The animation classes of the sections are added after \<open>initScrollAnimations\<close>
  has chosen the elements to observe: a section that gets \<open>fade-in\<close> only there is
  never observed and never becomes visible, whatever the scroll events.
\<close>

theorem reveal_late_class:
  assumes "\<not> anim_class s0 el" "el \<notin> visible s0" "0 < i" "i < length sections" "sections ! i = el"
  shows "anim_class (add_animation_classes sections (initScrollAnimations s0)) el \<and>
         el \<notin> visible (fold reveal_deliver batches (add_animation_classes sections (initScrollAnimations s0)))"
proof -
  define s where "s = add_animation_classes sections (initScrollAnimations s0)"
  have o: "el \<notin> observed s" and v: "el \<notin> visible s"
    using assms(1,2) by (simp_all add: s_def add_animation_classes_def initScrollAnimations_def)
  have "anim_class s el" using assms(3-5) by (auto simp: s_def add_animation_classes_def initScrollAnimations_def)
  moreover have "el \<notin> visible (fold reveal_deliver batches s)"
    using reveal_deliver_fields(3) [of batches s] o v by blast
  ultimately show ?thesis by (simp add: s_def)
qed

lemma reveal_late_class_witness:
  "\<not> anim_class \<lparr>anim_class = (\<lambda>_. False), observed = {}, visible = {}\<rparr> 1 \<and>
   1 \<notin> visible \<lparr>anim_class = (\<lambda>_. False), observed = {}, visible = {}\<rparr> \<and>
   0 < (1::nat) \<and> 1 < length [0, 1::nat] \<and> [0, 1::nat] ! 1 = 1 \<and>
   anim_class (add_animation_classes [0, 1] (initScrollAnimations \<lparr>anim_class = (\<lambda>_. False), observed = {}, visible = {}\<rparr>)) 1 \<and>
   1 \<notin> visible (fold reveal_deliver [[(1, True)]]
          (add_animation_classes [0, 1] (initScrollAnimations \<lparr>anim_class = (\<lambda>_. False), observed = {}, visible = {}\<rparr>)))"
  using reveal_late_class [of "\<lparr>anim_class = (\<lambda>_. False), observed = {}, visible = {}\<rparr>" 1 1 "[0, 1]" "[[(1, True)]]"]
  by simp

lemma floating_transform_bounds:
  assumes "floating_transform speed t = (x, y, r, sc)"
  shows "\<bar>x\<bar> \<le> 20 \<and> \<bar>y\<bar> \<le> 20 \<and> \<bar>r\<bar> \<le> 15 \<and> 0.9 \<le> sc \<and> sc \<le> 1.1"
proof -
  define u where "u = t * 0.001 * speed"
  have e: "x = sin u * 20" "y = cos (u * 0.5) * 20" "r = sin (u * 0.3) * 15" "sc = 1 + sin (u * 0.7) * 0.1"
    using assms by (simp_all add: floating_transform_def Let_def u_def)
  have "\<bar>sin u * 20\<bar> \<le> 20" "\<bar>cos (u * 0.5) * 20\<bar> \<le> 20" "\<bar>sin (u * 0.3) * 15\<bar> \<le> 15"
    by (rule abs_trig_scaled, simp)+
  moreover have "1 - 0.1 \<le> 1 + sin (u * 0.7) * 0.1" "1 + sin (u * 0.7) * 0.1 \<le> 1 + 0.1"
    by (rule sin_scaled_bounds, simp)+
  ultimately show ?thesis unfolding e by simp
qed

lemma scroll_progress_bounds:
  assumes "innerHeight < bodyHeight" "0 \<le> scrollTop" "scrollTop \<le> bodyHeight - innerHeight"
  shows "\<exists>p. scroll_progress scrollTop bodyHeight innerHeight = Some p \<and> 0 \<le> p \<and> p \<le> 100"
proof -
  have d: "0 < bodyHeight - innerHeight" using assms(1) by simp
  define q where "q = scrollTop / (bodyHeight - innerHeight)"
  have q: "0 \<le> q" "q \<le> 1" using d assms(2,3) by (simp_all add: q_def)
  have "scroll_progress scrollTop bodyHeight innerHeight = Some (q * 100)"
    using d by (simp add: scroll_progress_def Let_def q_def)
  moreover have "0 \<le> q * 100" "q * 100 \<le> 100" using q by linarith+
  ultimately show ?thesis by blast
qed

lemma scroll_progress_short_page:
  "bodyHeight = innerHeight \<Longrightarrow> scroll_progress scrollTop bodyHeight innerHeight = None"
  by (simp add: scroll_progress_def)

lemma glitch_tick_bounds:
  assumes "random_ok 5 rnd" "glitch_tick rnd = Some ((a, b), (c, d))"
  shows "list_all (\<lambda>v. -2 \<le> v \<and> v < 2) [a, b, c, d]"
proof -
  have r: "0 \<le> rnd k \<and> rnd k < 1" if "k < 5" for k using assms(1) that by (simp add: random_ok_def)
  show ?thesis using assms(2) r [of 1] r [of 2] r [of 3] r [of 4]
    by (auto simp: glitch_tick_def split: if_splits)
qed

lemma skill_callback_sets:
  "skill_callback level es w el =
     (if (el, True) \<in> set es then Some (skill_width (level el)) else w el)"
  unfolding skill_callback_def by (induction es arbitrary: w) (auto split: if_splits)

lemma glitch_period_settles:
  "pending_resets s = [] \<Longrightarrow>
   pending_resets (glitch_period rnd t s) = [] \<and>
   textShadow (glitch_period rnd t s) = (if glitch_tick rnd = None then textShadow s else Glow)"
  by (simp add: glitch_period_def glitch_interval_def glitch_reset_def split: option.split)

lemma glitch_run_settles:
  "pending_resets (glitch_run rnds n \<lparr>textShadow = StyleSheet, pending_resets = []\<rparr>) = [] \<and>
   textShadow (glitch_run rnds n \<lparr>textShadow = StyleSheet, pending_resets = []\<rparr>) \<in> {StyleSheet, Glow}"
  by (induction n) (auto simp: glitch_period_settles)

lemma progress_scroll_bounds:
  assumes "innerHeight < bodyHeight" "0 \<le> y" "y \<le> bodyHeight - innerHeight"
  shows "\<exists>p. bar_width (progress_scroll y bodyHeight innerHeight bar) = Some (Some p) \<and> 0 \<le> p \<and> p \<le> 100"
  using scroll_progress_bounds [OF assms] by (simp add: progress_scroll_def)

end
