(* ===== verification/Spec2Isabelle.thy ===== *)
theory Spec2Isabelle
  imports Runtime Shader Counter ContactForm Typing Throttle Decorations
begin

text \<open>
  \<^bold>\<open>A verification library for the client-side script of dot-agi/personal-website.\<close>

  The repository's behaviour lives in one file, \<open>src/script.js\<close>. Its parts:
  \<^item> the particle backdrop (lines 1--273): global state (\<open>time\<close>, \<open>mouseX\<close>,
    \<open>mouseY\<close>, \<open>windowHalfX/Y\<close>, the THREE.js \<open>camera\<close>, \<open>renderer\<close> and
    \<open>particleSystem\<close>); \<open>initThreeJS\<close>, which returns early without a canvas and
    otherwise creates the scene, calls \<open>createParticleSystem\<close>, runs the first
    \<open>animate\<close> and registers the resize and mouse-move listeners;
    \<open>createParticleSystem\<close>, which fills five flat \<open>Float32Array\<close> buffers for 2000
    particles from nine \<open>Math.random()\<close> draws each; \<open>animate\<close>, the
    self-rescheduling frame callback that advances \<open>time\<close> by 0.016, moves every
    particle (perturb, damp, integrate, wrap at 25) and copies \<open>time\<close> and the smoothed
    pointer into the shader uniforms; \<open>onWindowResize\<close>; \<open>onDocumentMouseMove\<close>,
    an exponential smoothing of the pointer; and the GLSL vertex and fragment shaders;
  \<^item> the page decorations (lines 275--603): navigation toggle, reveal-on-scroll classes,
    skill bars, floating elements, the mock contact form, scroll progress, navbar style,
    parallax, the typing effect, the counter animation, glitch text, the two
    \<open>DOMContentLoaded\<close> handlers and the throttled scroll listener.

  \<^bold>\<open>Theories.\<close>
  \<^item> \<open>Prelude\<close>: the types of the model (\<open>vec2\<close>, \<open>vec3\<close>, \<open>draws\<close>, the
    stream of \<open>Math.random()\<close> results of one loop), \<open>random_ok\<close> (every draw in
    \<open>[0, 1)\<close>), and the flat buffer layout: \<open>flat3\<close>/\<open>triples\<close> with their round
    trip and the lemmas for writes into a zero-filled buffer (collection
    \<open>buffer_simps\<close>).
  \<^item> \<open>ParticleInit\<close> models \<open>createParticleSystem\<close>: the record \<open>geometry\<close>
    (the five buffers), \<open>uniforms\<close> and \<open>particle_system\<close>, the colour datatype
    \<open>neon\<close> with \<open>color_choice\<close>, one loop iteration \<open>create_body\<close> written as
    the buffer writes of the source and the loop \<open>create_loop\<close>. \<open>spawn\<close> reads one
    iteration as the creation of a \<open>particle\<close> record and \<open>particles_of\<close> reads the
    buffers back; the lemmas prove that the loop builds exactly the spawned particles
    (C4), the ranges the spec gives for a new particle (C5) and the colour probabilities
    (C6).
  \<^item> \<open>ParticleStep\<close> models the particle loop of \<open>animate\<close>: \<open>animate_body\<close>
    (its four statement groups \<open>perturb_velocity\<close>, \<open>damp_velocity\<close>,
    \<open>integrate_position\<close>, \<open>wrap_position\<close>) and \<open>animate_loop\<close>
    (\<open>i += 3\<close>, terminating by the measure \<open>length - i\<close>). \<open>axis_step\<close>,
    \<open>particle_step\<close> and \<open>field_step\<close> give the per-axis reading; the lemmas
    prove the refinement (C2), that every coordinate is in \<open>[-25, 25]\<close> after a frame
    whatever it was before (C1), that the boundary wraps rather than clamps (C3), that
    velocity components stay within \<open>0.4995\<close> (C7) and that without perturbation the
    velocity decays as \<open>0.999 ^ k\<close> (C8).
  \<^item> \<open>Scene\<close> models the globals as the record \<open>scene_state\<close> (THREE.js objects as
    \<open>option\<close>s: \<open>None\<close> is \<open>undefined\<close>), \<open>script_load\<close> (lines 2--6),
    \<open>animate\<close> (201--249) with its particle branch \<open>update_particle_system\<close>
    (205--246), \<open>onWindowResize\<close> (252--263), \<open>onDocumentMouseMove\<close> (266--273)
    and \<open>initThreeJS\<close> (9--40). Its lemmas give the pointer smoothing in closed form
    (C10) and its bound (C11), the frame of a resize (C12) and the state after start-up.
  \<^item> \<open>Runtime\<close> models the page as an event system: \<open>event\<close> (animation frame
    with its draws, pointer move, resize), \<open>dispatch\<close> (the handlers
    \<open>initThreeJS\<close> registered, active once it found a canvas), \<open>run\<close> and the
    inductive \<open>reachable\<close> (script load, the \<open>DOMContentLoaded\<close> call of
    \<open>initThreeJS\<close>, any event). \<open>scene_inv\<close> is proved of every reachable state
    by rule induction (\<open>reachable_scene_inv\<close>); from it follow the bounds on positions
    (C9) and velocities (C13), the Uninitialized/Running state machine (C14) and the time
    uniform (C15). Over runs: colours, sizes and opacities never change (C16), time
    counts frames (C17), and without a canvas nothing ever happens (C18).
    \<open>dispatch_checked\<close> adds the exceptions of the source (\<open>renderer.render\<close>,
    \<open>camera.aspect\<close>, \<open>renderer.setSize\<close> on undefined objects); C21 is type
    soundness: on a reachable page no handler throws and the result is that of
    \<open>dispatch\<close>.
  \<^item> \<open>Shader\<close> models the GLSL programs (lines 112--188): \<open>wave_offset\<close>,
    \<open>spiral_offset\<close>, \<open>mouse_repel\<close> (\<open>None\<close> where \<open>normalize\<close> meets the
    zero vector), \<open>vertex_position\<close>, \<open>point_size\<close> and \<open>fragment\<close>, with the
    builtins \<open>length\<close>, \<open>normalize\<close>, \<open>clamp\<close>, \<open>smoothstep\<close> from the GLSL
    specification. Its lemmas bound the vertex displacement (C19), give the repulsion
    exactly (C20) and its undefined case, and bound the alpha (C22). The model-view
    transform (\<open>rotate_xyz\<close> from the THREE.js Euler rotation, the camera at
    \<open>z = 5\<close>) gives \<open>vertex_depth\<close>; \<open>vertex_program\<close> composes the vertex
    outputs, with positive depth and bounded point size near the origin (C23). The
    perspective projection of the camera (\<open>projection\<close>, \<open>vertex_clip\<close>) and the
    clip test (\<open>in_clip\<close>) show that every drawn vertex lies between the near and far
    planes, so its point size is positive and bounded (C24).
  \<^item> \<open>Counter\<close> models \<open>initCounterAnimation\<close> (lines 465--493):
    \<open>parseInt\<close> and integer printing from the ECMAScript specification,
    \<open>updateCounter\<close> as a \<open>partial_function (option)\<close> (C25: it returns for every
    target, so no fuel is needed), and a frame-level model of the closures the observer
    starts (\<open>counter_start\<close>, \<open>counter_frame\<close>, \<open>counter_callback\<close>,
    \<open>counter_deliver\<close>) that refines it (C26). The lemmas give the result of one
    entry (C27), of two entries in one batch (C28), the once-only observation (C29), the
    written values and the loss of a text suffix (C31).
  \<^item> \<open>PageInit\<close> models the two \<open>DOMContentLoaded\<close> handlers (lines 517--585): the
    init calls in order in the error monad (\<open>run_inits\<close>, \<open>dom_ready\<close>), where an
    init that throws (\<open>init_feature\<close>: a missing THREE.js, \<open>.hamburger\<close> or
    \<open>IntersectionObserver\<close>) aborts the rest (C32, C33), and the independent hover
    handler (\<open>page_start\<close>).
  \<^item> \<open>ContactForm\<close> models \<open>initContactForm\<close> (lines 365--390) as an event system
    (\<open>form_step\<close>, \<open>form_reachable\<close>): the button is restored after every
    user-driven submission (C35, by rule induction over \<open>form_inv\<close>) but not after two
    programmatic ones (C36); one submission and its timer are a round trip (C30); a form
    without a submit button throws.
  \<^item> \<open>Typing\<close> models \<open>initTypingEffect\<close> (lines 443--461) with the pending timer and
    its time; the effect ends with the full title (C37).
  \<^item> \<open>Throttle\<close> models \<open>throttle\<close> (lines 588--603) under any interleaving of calls
    and delayed timers (\<open>throttle_reachable\<close>): executions are \<open>limit\<close> apart (C38).
  \<^item> \<open>Decorations\<close> models navigation (C40), reveal on scroll with the late class
    assignment of the start-up handler (C39), skill bars, floating elements, scroll
    progress (the bar and its listener), navbar style, parallax and the glitch effect
    (interval, 100 ms reset, successive periods), with their bounds.
  \<^item> This theory proves the property that spans start-up and the contact form (C34).

  \<^bold>\<open>Modelling choices.\<close> JavaScript numbers are \<open>real\<close>: the model has no rounding
  (the buffers are \<open>Float32Array\<close>s in the source), no NaN and no Infinity, so claims
  about exact values (C8) hold of the real-number reading of the code. \<open>Math.random()\<close>
  is an explicit argument \<open>rnd :: nat \<Rightarrow> real\<close>, the \<open>k\<close>-th call of a loop being
  \<open>rnd k\<close>; hypotheses \<open>random_ok\<close> state the \<open>[0, 1)\<close> range the browser
  guarantees. Typed-array writes out of range are ignored by the browser and by
  \<open>xs[i := v]\<close> alike; the loops only read in range, which the lemmas keep as a
  hypothesis (\<open>length vs = length ps\<close>, a multiple of three). \<open>sin\<close>, \<open>cos\<close> and
  \<open>pi\<close> are HOL's, so \<open>spawn\<close> and \<open>create_body\<close> are not executable; every
  other operation is, and the witnesses evaluate them by \<open>simp\<close>. Of THREE.js only the
  matrices the vertex program uses are modelled, from the library's definitions (the
  Euler rotation of the particle system, the camera's view and perspective projection).

  Division follows HOL (\<open>x / 0 = 0\<close>), not JavaScript: for a zero-size viewport
  the source computes NaN or Infinity in \<open>onDocumentMouseMove\<close> and the camera aspect,
  which the model does not show. Error paths of the source that would throw
  (\<open>renderer.render\<close> or \<open>camera.aspect\<close> on \<open>undefined\<close>) are modelled by
  \<open>dispatch_checked\<close> and unreachable: events reach only a page that found its canvas,
  and such a page has its camera and renderer (C14, C21). \<open>requestAnimationFrame\<close> and
  \<open>renderer.render\<close> change no modelled state; the rescheduled callbacks are the
  frame events of \<open>run\<close>. No loop of the script runs unboundedly: both particle
  loops are \<open>function\<close>s with the measure \<open>length - i\<close>, and no fuel is needed.
  Rasterisation and blending belong to the GPU pipeline and are not modelled; the clip
  test decides which vertices are drawn.

  \<^bold>\<open>Not modelled.\<close> The rest of the THREE.js library (scene graph, buffer upload,
  WebGL rendering), the CSS the classes select, the string formatting of style values
  (transforms, colours, text shadows), the hover styles of the second start-up handler,
  rasterisation and blending on the GPU and the blocking \<open>alert\<close> are library calls or
  presentation without state the script reads back. Timers are modelled by the events
  that fire them; wall-clock time only where a property depends on it (typing, throttle).
\<close>

section \<open>Properties across components\<close>

text \<open>
  C34. Start-up and the contact form: on a page without a \<open>.hamburger\<close> element (and
  with THREE.js, or without a canvas) \<open>initNavigation\<close> throws, \<open>initContactForm\<close>
  never runs, and submitting the contact form is not intercepted: the browser submits it
  natively and leaves the page.
\<close>

theorem contact_form_unprotected:
  assumes "\<not> has_hamburger doc" "has_canvas doc \<longrightarrow> three_loaded doc"
  shows "ContactForm \<notin> set (fst (dom_ready doc)) \<and>
         navigated (form_step (ContactForm \<in> set (fst (dom_ready doc))) Submit st)"
  using dom_ready_no_hamburger [OF assms] by simp

lemma contact_form_unprotected_witness:
  "\<not> has_hamburger \<lparr>has_canvas = False, three_loaded = False, has_hamburger = False, intersection_observer = True\<rparr> \<and>
   \<not> has_canvas \<lparr>has_canvas = False, three_loaded = False, has_hamburger = False, intersection_observer = True\<rparr> \<and>
   navigated (form_step (ContactForm \<in> set (fst (dom_ready
     \<lparr>has_canvas = False, three_loaded = False, has_hamburger = False, intersection_observer = True\<rparr>)))
     Submit (form_init ''Send'' True))"
  using contact_form_unprotected [of "\<lparr>has_canvas = False, three_loaded = False, has_hamburger = False, intersection_observer = True\<rparr>"
      "form_init ''Send'' True"] by simp

end
